(* ===== verification/Prelude.thy ===== *)
theory Prelude
  imports Complex_Main "HOL-Library.List_Lexorder" "HOL-Library.Char_ord"
begin

text \<open>
  Shared vocabulary of the Resume-Matcher development: the Python string primitives
  the sources call (\<open>str.lower\<close>, \<open>str.strip\<close>, \<open>str.endswith\<close>) and the character
  classes of the regular expressions they use (\<open>\d\<close>, \<open>\w\<close>), on the
  ASCII range; the type names of the model; and the generic list lemmas that the
  component theories share. Python strings are modelled as \<open>char list\<close>; a
  character outside ASCII is outside the model (Python's \<open>\w\<close>, \<open>\d\<close> and
  \<open>lower\<close> are Unicode-aware, the model is not).
\<close>

named_theorems char_class_defs "definitions of the character classes, unfolded on concrete text"

type_synonym vec = "real list"
type_synonym filename = string

section \<open>Character classes of Python's \<open>re\<close> and \<open>str\<close> (ASCII)\<close>

definition is_digit :: "char \<Rightarrow> bool" where
  [char_class_defs]: "is_digit c \<longleftrightarrow> CHR ''0'' \<le> c \<and> c \<le> CHR ''9''"

definition is_alpha :: "char \<Rightarrow> bool" where
  [char_class_defs]: "is_alpha c \<longleftrightarrow>
     (CHR ''a'' \<le> c \<and> c \<le> CHR ''z'') \<or> (CHR ''A'' \<le> c \<and> c \<le> CHR ''Z'')"

text \<open>\<open>\w\<close>: letters, digits and the underscore.\<close>

definition is_word_char :: "char \<Rightarrow> bool" where
  [char_class_defs]: "is_word_char c \<longleftrightarrow> is_alpha c \<or> is_digit c \<or> c = CHR ''_''"

text \<open>\<open>str.isspace\<close> on ASCII: space, \<open>\t \n \x0b \x0c \r\<close> and \<open>\x1c\<close>--\<open>\x1f\<close>.\<close>

definition is_space :: "char \<Rightarrow> bool" where
  [char_class_defs]: "is_space c \<longleftrightarrow>
     c = CHR '' '' \<or> (CHR 0x09 \<le> c \<and> c \<le> CHR 0x0D) \<or> (CHR 0x1C \<le> c \<and> c \<le> CHR 0x1F)"

text \<open>\<open>str.lower\<close> on ASCII: the table of the 26 upper-case letters.\<close>

definition upper_letters :: string where
  "upper_letters = ''ABCDEFGHIJKLMNOPQRSTUVWXYZ''"

definition lower_letters :: string where
  "lower_letters = ''abcdefghijklmnopqrstuvwxyz''"

definition lower_char :: "char \<Rightarrow> char" where
  "lower_char c = (case map_of (zip upper_letters lower_letters) c of None \<Rightarrow> c | Some d \<Rightarrow> d)"

definition py_lower :: "string \<Rightarrow> string" where
  "py_lower s = map lower_char s"

text \<open>\<open>str.strip()\<close> with no argument: whitespace removed at both ends.\<close>

definition py_strip :: "string \<Rightarrow> string" where
  "py_strip s = rev (dropWhile is_space (rev (dropWhile is_space s)))"

definition py_endswith :: "string \<Rightarrow> string \<Rightarrow> bool" where
  "py_endswith s suf \<longleftrightarrow> length suf \<le> length s \<and> drop (length s - length suf) s = suf"

section \<open>Generic lemmas\<close>

lemma lower_char_space [simp]: "lower_char CHR '' '' = CHR '' ''"
  by (simp add: lower_char_def upper_letters_def lower_letters_def)

lemma lower_char_cases: "lower_char c = c \<or> lower_char c \<in> set lower_letters"
  unfolding lower_char_def by (auto split: option.split dest: map_of_SomeD set_zip_rightD)

lemma lower_char_eq_space [simp]: "lower_char c = CHR '' '' \<longleftrightarrow> c = CHR '' ''"
  using lower_char_cases [of c] by (auto simp: lower_letters_def)

lemma py_lower_append [simp]: "py_lower (xs @ ys) = py_lower xs @ py_lower ys"
  by (simp add: py_lower_def)

lemma py_lower_Cons [simp]: "py_lower (c # cs) = lower_char c # py_lower cs"
  by (simp add: py_lower_def)

lemma py_lower_Nil [simp]: "py_lower [] = []"
  by (simp add: py_lower_def)

lemma py_strip_Nil_iff: "py_strip s = [] \<longleftrightarrow> (\<forall>c \<in> set s. is_space c)"
proof -
  have "rev (dropWhile is_space (rev (dropWhile is_space s))) = [] \<longleftrightarrow>
        (\<forall>c \<in> set (dropWhile is_space s). is_space c)"
    by (simp add: dropWhile_eq_Nil_conv)
  also have "\<dots> \<longleftrightarrow> (\<forall>c \<in> set s. is_space c)"
    by (induction s) auto
  finally show ?thesis by (simp add: py_strip_def)
qed

lemma py_endswith_suffix: "py_endswith s suf \<longleftrightarrow> (\<exists>pre. s = pre @ suf)"
proof
  assume "py_endswith s suf"
  then have "s = take (length s - length suf) s @ suf"
    unfolding py_endswith_def by (metis append_take_drop_id)
  then show "\<exists>pre. s = pre @ suf" ..
next
  assume "\<exists>pre. s = pre @ suf"
  then show "py_endswith s suf" by (auto simp: py_endswith_def)
qed

lemma sum_list_map_zero: "\<forall>x \<in> set xs. f x = 0 \<Longrightarrow> sum_list (map f xs) = (0::'a::monoid_add)"
  by (induction xs) simp_all

lemma count_list_concat_replicate:
  "count_list (concat (replicate n xs)) x = n * count_list xs x"
  by (induction n) auto

lemma sum_list_pos_member:
  "\<forall>x \<in> set xs. 0 \<le> x \<Longrightarrow> a \<in> set xs \<Longrightarrow> 0 < a \<Longrightarrow> 0 < sum_list (xs :: real list)"
  by (induction xs) (auto intro: add_pos_nonneg add_nonneg_pos sum_list_nonneg)

end
