(* ===== verification/Vectors.thy ===== *)
theory Vectors
  imports Prelude
begin

text \<open>
  The numeric library calls of the pipeline, on dense vectors (\<open>real list\<close>, one
  entry per vocabulary term): the row normalisation of
  \<open>sklearn.preprocessing.normalize\<close> (which leaves an all-zero row unchanged) and
  \<open>sklearn.metrics.pairwise.cosine_similarity\<close>, which normalises both arguments and
  takes their dot product. Floating point is idealised as \<open>real\<close>. The lemmas show
  that this is the textbook cosine (dot product over the product of the norms, 0 for a
  zero vector), that it is at most 1, that it is 1 on a non-zero vector against itself,
  and that normalisation forgets a positive scale factor.
\<close>

definition dot :: "vec \<Rightarrow> vec \<Rightarrow> real" where
  "dot u v = sum_list (map (\<lambda>(x, y). x * y) (zip u v))"

definition sq_norm :: "vec \<Rightarrow> real" where
  "sq_norm v = sum_list (map (\<lambda>x. x * x) v)"

definition l2_norm :: "vec \<Rightarrow> real" where
  "l2_norm v = sqrt (sq_norm v)"

definition l2_normalize :: "vec \<Rightarrow> vec" where
  "l2_normalize v = (let n = l2_norm v in if n = 0 then v else map (\<lambda>x. x / n) v)"

definition cosine_similarity :: "vec \<Rightarrow> vec \<Rightarrow> real" where
  "cosine_similarity x y = dot (l2_normalize x) (l2_normalize y)"

text \<open>\<open>cosine_similarity(job_vector, resume_vectors)[0]\<close>: one row against every row.\<close>

definition cosine_row :: "vec \<Rightarrow> vec list \<Rightarrow> real list" where
  "cosine_row q ys = map (cosine_similarity q) ys"

section \<open>Norms and dot products\<close>

lemma dot_Nil [simp]: "dot [] v = 0" "dot u [] = 0"
  by (simp_all add: dot_def)

lemma dot_Cons [simp]: "dot (x # u) (y # v) = x * y + dot u v"
  by (simp add: dot_def)

lemma sq_norm_Nil [simp]: "sq_norm [] = 0"
  by (simp add: sq_norm_def)

lemma sq_norm_Cons [simp]: "sq_norm (x # v) = x * x + sq_norm v"
  by (simp add: sq_norm_def)

lemma sq_norm_nonneg [simp]: "0 \<le> sq_norm v"
  by (induction v) auto

lemma sq_norm_eq_0_iff: "sq_norm v = 0 \<longleftrightarrow> (\<forall>x \<in> set v. x = 0)"
proof (induction v)
  case Nil
  then show ?case by simp
next
  case (Cons x v)
  have "x * x + sq_norm v = 0 \<longleftrightarrow> x = 0 \<and> sq_norm v = 0"
    using sq_norm_nonneg [of v] by (auto simp: add_nonneg_eq_0_iff)
  with Cons show ?case by simp
qed

lemma l2_norm_eq_0_iff: "l2_norm v = 0 \<longleftrightarrow> (\<forall>x \<in> set v. x = 0)"
  by (simp add: l2_norm_def sq_norm_eq_0_iff)

lemma l2_norm_nonneg [simp]: "0 \<le> l2_norm v"
  by (simp add: l2_norm_def)

lemma dot_commute: "dot u v = dot v u"
  by (induction u v rule: list_induct2') (simp_all add: mult.commute)

lemma dot_scale: "dot (map (\<lambda>x. x * a) u) (map (\<lambda>y. y * b) v) = a * b * dot u v"
  by (induction u v rule: list_induct2') (simp_all add: algebra_simps)

lemma sq_norm_scale: "sq_norm (map (\<lambda>x. x * a) v) = a * a * sq_norm v"
  by (induction v) (simp_all add: algebra_simps)

lemma dot_self [simp]: "dot v v = sq_norm v"
  by (induction v) simp_all

text \<open>The arithmetic-geometric bound that replaces Cauchy-Schwarz for unit vectors.\<close>

lemma dot_le_half_sq_norms: "2 * dot u v \<le> sq_norm u + sq_norm v"
proof (induction u v rule: list_induct2')
  case (4 x u y v)
  have "2 * (x * y) \<le> x * x + y * y"
    using sum_squares_bound [of x y] by (simp add: power2_eq_square)
  with "4.IH" show ?case by simp
qed simp_all

lemma dot_nonneg: "(\<forall>x \<in> set u. 0 \<le> x) \<Longrightarrow> (\<forall>y \<in> set v. 0 \<le> y) \<Longrightarrow> 0 \<le> dot u v"
  by (induction u v rule: list_induct2') simp_all

lemma dot_eq_0_disjoint:
  "(\<forall>(x, y) \<in> set (zip u v). x = 0 \<or> y = 0) \<Longrightarrow> dot u v = 0"
  by (induction u v rule: list_induct2') simp_all

section \<open>Normalisation\<close>

lemma l2_normalize_scaled: "l2_normalize v = map (\<lambda>x. x * inverse (l2_norm v)) v"
proof (cases "l2_norm v = 0")
  case True
  then have "\<forall>x \<in> set v. x = 0" by (simp add: l2_norm_eq_0_iff)
  with True show ?thesis by (simp add: l2_normalize_def map_idI)
next
  case False
  then show ?thesis by (simp add: l2_normalize_def divide_inverse)
qed

lemma length_l2_normalize [simp]: "length (l2_normalize v) = length v"
  by (simp add: l2_normalize_def Let_def)

lemma sq_norm_l2_normalize:
  "sq_norm (l2_normalize v) = (if l2_norm v = 0 then 0 else 1)"
proof (cases "l2_norm v = 0")
  case True
  then show ?thesis by (simp add: l2_normalize_def l2_norm_def)
next
  case False
  have "sq_norm (l2_normalize v) = inverse (l2_norm v) * inverse (l2_norm v) * sq_norm v"
    by (simp add: l2_normalize_scaled sq_norm_scale)
  also have "sq_norm v = l2_norm v * l2_norm v"
    by (simp add: l2_norm_def)
  finally show ?thesis using False by (simp add: field_simps)
qed

lemma sq_norm_l2_normalize_le: "sq_norm (l2_normalize v) \<le> 1"
  by (simp add: sq_norm_l2_normalize)

lemma l2_normalize_nonneg:
  "\<forall>x \<in> set v. 0 \<le> x \<Longrightarrow> \<forall>x \<in> set (l2_normalize v). 0 \<le> x"
  by (auto simp: l2_normalize_scaled)

lemma l2_normalize_zero_iff:
  "(\<forall>x \<in> set (l2_normalize v). x = 0) \<longleftrightarrow> (\<forall>x \<in> set v. x = 0)"
  by (auto simp: l2_normalize_def Let_def)

lemma l2_norm_scale: "0 < c \<Longrightarrow> l2_norm (map (\<lambda>x. x * c) v) = c * l2_norm v"
  by (simp add: l2_norm_def sq_norm_scale real_sqrt_mult)

lemma l2_normalize_scale_invariant:
  assumes "0 < c"
  shows "l2_normalize (map (\<lambda>x. x * c) v) = l2_normalize v"
proof -
  have "inverse (c * l2_norm v) * c = inverse (l2_norm v)"
    using assms by (simp add: field_simps)
  then show ?thesis
    using assms by (simp add: l2_normalize_scaled l2_norm_scale mult.assoc)
qed

section \<open>Cosine similarity\<close>

text \<open>sklearn's normalise-then-multiply is the textbook cosine, and 0 on a zero vector.\<close>

lemma cosine_similarity_eq: "cosine_similarity x y = dot x y / (l2_norm x * l2_norm y)"
  by (simp add: cosine_similarity_def l2_normalize_scaled dot_scale divide_inverse
      mult.commute mult.left_commute)

lemma cosine_similarity_zero:
  "\<forall>a \<in> set x. a = 0 \<Longrightarrow> cosine_similarity x y = 0"
  by (simp add: cosine_similarity_eq l2_norm_eq_0_iff [THEN iffD2])

lemma cosine_similarity_le_1: "cosine_similarity x y \<le> 1"
proof -
  have "2 * cosine_similarity x y \<le> sq_norm (l2_normalize x) + sq_norm (l2_normalize y)"
    unfolding cosine_similarity_def by (rule dot_le_half_sq_norms)
  with sq_norm_l2_normalize_le [of x] sq_norm_l2_normalize_le [of y] show ?thesis
    by linarith
qed

lemma cosine_similarity_self:
  "\<exists>a \<in> set x. a \<noteq> 0 \<Longrightarrow> cosine_similarity x x = 1"
  by (auto simp: cosine_similarity_def sq_norm_l2_normalize l2_norm_eq_0_iff)

lemma cosine_similarity_nonneg:
  "\<forall>a \<in> set x. 0 \<le> a \<Longrightarrow> \<forall>b \<in> set y. 0 \<le> b \<Longrightarrow> 0 \<le> cosine_similarity x y"
  unfolding cosine_similarity_def by (intro dot_nonneg l2_normalize_nonneg)

lemma cosine_similarity_disjoint:
  "\<forall>(a, b) \<in> set (zip x y). a = 0 \<or> b = 0 \<Longrightarrow> cosine_similarity x y = 0"
  by (simp add: cosine_similarity_eq dot_eq_0_disjoint)

lemma cosine_similarity_scale:
  "0 < c \<Longrightarrow> cosine_similarity (map (\<lambda>a. a * c) x) y = cosine_similarity x y"
  by (simp add: cosine_similarity_def l2_normalize_scale_invariant)

lemma l2_normalize_idem: "l2_normalize (l2_normalize v) = l2_normalize v"
proof (cases "l2_norm v = 0")
  case True
  then show ?thesis by (simp add: l2_normalize_def)
next
  case False
  then have "0 < l2_norm v"
    using l2_norm_nonneg [of v] by linarith
  then have "0 < inverse (l2_norm v)" by simp
  then show ?thesis
    by (subst (2) l2_normalize_scaled) (simp add: l2_normalize_scale_invariant)
qed

lemma cosine_similarity_l2_normalize:
  "cosine_similarity (l2_normalize x) (l2_normalize y) = cosine_similarity x y"
  by (simp add: cosine_similarity_def l2_normalize_idem)

lemma dot_map_same: "dot (map f xs) (map g xs) = sum_list (map (\<lambda>x. f x * g x) xs)"
  by (induction xs) simp_all

lemma length_cosine_row [simp]: "length (cosine_row q ys) = length ys"
  by (simp add: cosine_row_def)

lemma nth_cosine_row [simp]: "i < length ys \<Longrightarrow> cosine_row q ys ! i = cosine_similarity q (ys ! i)"
  by (simp add: cosine_row_def)

lemma sq_norm_member: "x \<in> set v \<Longrightarrow> x * x \<le> sq_norm v"
  by (induction v) (auto intro: add_increasing2 add_increasing)

end
