(* ===== verification/Tfidf.thy ===== *)
theory Tfidf
  imports Vectors
begin

text \<open>
  The vectorization model: scikit-learn's \<open>TfidfVectorizer\<close> with the defaults the
  sources use (\<open>TfidfVectorizer()\<close> in \<open>main.py\<close>,
  \<open>TfidfVectorizer(stop_words="english")\<close> in \<open>Resume-Match.py\<close>). The library is
  not part of the repository; it is modelled from its documented behaviour:
  \<^item> the analyzer lower-cases the text, takes the matches of \<open>(?u)\b\w\w+\b\<close>
    (maximal runs of word characters of length at least 2) and drops stop words;
  \<^item> \<open>fit\<close> takes the sorted set of analysed terms as vocabulary (an empty one is the
    library's \<open>ValueError\<close>) and the smoothed inverse document frequency
    \<open>ln ((1 + n) / (1 + df t)) + 1\<close> of each term;
  \<^item> \<open>transform\<close> counts the vocabulary terms of a text (others are ignored),
    multiplies by the idf weights and L2-normalises the row.
  The English stop-word list is a parameter (\<open>stop_words\<close>; \<open>[]\<close> for
  \<open>main.py\<close>), not the 318 words themselves.
\<close>

section \<open>The analyzer\<close>

function word_runs :: "string \<Rightarrow> string list" where
  "word_runs [] = []"
| "word_runs (c # cs) =
     (if is_word_char c
      then (c # takeWhile is_word_char cs) # word_runs (dropWhile is_word_char cs)
      else word_runs cs)"
  by pat_completeness auto
termination
  by (relation "measure length") (auto simp: le_imp_less_Suc length_dropWhile_le)

definition tokenize :: "string \<Rightarrow> string list" where
  "tokenize doc = filter (\<lambda>t. 2 \<le> length t) (word_runs (py_lower doc))"

definition analyze :: "string list \<Rightarrow> string \<Rightarrow> string list" where
  "analyze stop doc = filter (\<lambda>t. t \<notin> set stop) (tokenize doc)"

section \<open>The fitted model\<close>

record tfidf_model =
  stop_words :: "string list"
  vocabulary :: "string list"
  idf :: "real list"

datatype fit_error = EmptyVocabulary

definition doc_freq :: "string list \<Rightarrow> string list \<Rightarrow> string \<Rightarrow> nat" where
  "doc_freq stop docs t = length (filter (\<lambda>d. t \<in> set (analyze stop d)) docs)"

definition smooth_idf :: "nat \<Rightarrow> nat \<Rightarrow> real" where
  "smooth_idf n df = ln (real (1 + n) / real (1 + df)) + 1"

definition fit :: "string list \<Rightarrow> string list \<Rightarrow> fit_error + tfidf_model" where
  "fit stop docs =
     (let voc = sort (remdups (concat (map (analyze stop) docs)))
      in if voc = [] then Inl EmptyVocabulary
         else Inr \<lparr>stop_words = stop, vocabulary = voc,
                   idf = map (\<lambda>t. smooth_idf (length docs) (doc_freq stop docs t)) voc\<rparr>)"

definition raw_tfidf :: "tfidf_model \<Rightarrow> string \<Rightarrow> vec" where
  "raw_tfidf m doc =
     map (\<lambda>(t, w). real (count_list (analyze (stop_words m) doc) t) * w)
         (zip (vocabulary m) (idf m))"

definition transform :: "tfidf_model \<Rightarrow> string \<Rightarrow> vec" where
  "transform m doc = l2_normalize (raw_tfidf m doc)"

text \<open>\<open>fit_transform(docs)\<close>: the fitted model and the rows of the corpus.\<close>

definition fit_transform :: "string list \<Rightarrow> string list \<Rightarrow> fit_error + tfidf_model \<times> vec list" where
  "fit_transform stop docs =
     (case fit stop docs of Inl e \<Rightarrow> Inl e | Inr m \<Rightarrow> Inr (m, map (transform m) docs))"

definition wf_model :: "tfidf_model \<Rightarrow> bool" where
  "wf_model m \<longleftrightarrow> sorted (vocabulary m) \<and> distinct (vocabulary m) \<and>
     length (idf m) = length (vocabulary m) \<and> (\<forall>w \<in> set (idf m). 1 \<le> w)"

section \<open>The analyzer splits at separators\<close>

text \<open>The definitions that evaluate the analyzer on a literal, by \<open>simp\<close>.\<close>

lemmas text_eval_defs = analyze_def tokenize_def py_lower_def lower_char_def upper_letters_def
  lower_letters_def char_class_defs

lemma word_runs_sep:
  "\<not> is_word_char c \<Longrightarrow> word_runs (xs @ c # ys) = word_runs xs @ word_runs ys"
proof (induction "length xs" arbitrary: xs rule: less_induct)
  case less
  show ?case
  proof (cases xs)
    case Nil
    with less.prems show ?thesis by simp
  next
    case (Cons x xs')
    show ?thesis
    proof (cases "is_word_char x")
      case False
      with Cons less show ?thesis by simp
    next
      case wx: True
      show ?thesis
      proof (cases "\<forall>z \<in> set xs'. is_word_char z")
        case True
        then have "xs' = takeWhile is_word_char xs'"
          by (metis takeWhile_eq_all_conv)
        moreover from True have "word_runs (dropWhile is_word_char xs') = []"
          by (metis dropWhile_eq_Nil_conv word_runs.simps(1))
        ultimately show ?thesis using True wx Cons less.prems
          by (simp add: takeWhile_append2 dropWhile_append2)
      next
        case False
        then obtain z where "z \<in> set xs'" "\<not> is_word_char z" by blast
        moreover have "length (dropWhile is_word_char xs') < length xs"
          using Cons length_dropWhile_le [of is_word_char xs'] by simp
        ultimately show ?thesis
          using wx Cons less by simp
      qed
    qed
  qed
qed

lemma space_not_word_char [simp]: "\<not> is_word_char CHR '' ''"
  by (simp add: char_class_defs)

lemma tokenize_sep_space: "tokenize (xs @ CHR '' '' # ys) = tokenize xs @ tokenize ys"
  by (simp add: tokenize_def word_runs_sep)

lemma analyze_sep_space: "analyze stop (xs @ CHR '' '' # ys) = analyze stop xs @ analyze stop ys"
  by (simp add: analyze_def tokenize_sep_space)

lemma analyze_Nil [simp]: "analyze stop [] = []"
  by (simp add: analyze_def tokenize_def)

lemma analyze_repeat:
  "analyze stop (concat (replicate k (doc @ '' ''))) = concat (replicate k (analyze stop doc))"
proof (induction k)
  case 0
  then show ?case by simp
next
  case (Suc k)
  have "concat (replicate (Suc k) (doc @ '' '')) = doc @ CHR '' '' # concat (replicate k (doc @ '' ''))"
    by simp
  with Suc show ?case by (simp only: analyze_sep_space) simp
qed

section \<open>The fitted model is well formed\<close>

lemma smooth_idf_ge_1: "df \<le> n \<Longrightarrow> 1 \<le> smooth_idf n df"
  by (simp add: smooth_idf_def)

lemma doc_freq_le: "doc_freq stop docs t \<le> length docs"
  by (simp add: doc_freq_def)

lemma fit_Inr_vocabulary:
  "fit stop docs = Inr m \<Longrightarrow>
     vocabulary m = sort (remdups (concat (map (analyze stop) docs))) \<and> vocabulary m \<noteq> [] \<and>
     stop_words m = stop \<and>
     idf m = map (\<lambda>t. smooth_idf (length docs) (doc_freq stop docs t)) (vocabulary m)"
  by (auto simp: fit_def Let_def split: if_splits)

lemma fit_wf_model: "fit stop docs = Inr m \<Longrightarrow> wf_model m"
  by (auto simp: wf_model_def smooth_idf_ge_1 doc_freq_le dest!: fit_Inr_vocabulary)

lemma sort_remdups_Nil_iff: "sort (remdups xs) = [] \<longleftrightarrow> xs = []"
  by (metis length_0_conv length_sort remdups_eq_nil_iff)

lemma fit_Inl_iff: "(\<exists>e. fit stop docs = Inl e) \<longleftrightarrow> (\<forall>d \<in> set docs. analyze stop d = [])"
  by (auto simp: fit_def Let_def sort_remdups_Nil_iff)

lemma set_vocabulary_fit:
  "fit stop docs = Inr m \<Longrightarrow> set (vocabulary m) = (\<Union>d \<in> set docs. set (analyze stop d))"
  by (auto dest!: fit_Inr_vocabulary)

section \<open>Transform\<close>

lemma length_raw_tfidf [simp]: "wf_model m \<Longrightarrow> length (raw_tfidf m doc) = length (vocabulary m)"
  by (simp add: raw_tfidf_def wf_model_def)

lemma length_transform [simp]: "wf_model m \<Longrightarrow> length (transform m doc) = length (vocabulary m)"
  by (simp add: transform_def)

lemma raw_tfidf_nonneg: "wf_model m \<Longrightarrow> \<forall>x \<in> set (raw_tfidf m doc). 0 \<le> x"
  by (auto simp: raw_tfidf_def wf_model_def dest!: set_zip_rightD)

lemma transform_nonneg: "wf_model m \<Longrightarrow> \<forall>x \<in> set (transform m doc). 0 \<le> x"
  unfolding transform_def by (rule l2_normalize_nonneg [OF raw_tfidf_nonneg])

lemma weighted_zero_iff:
  "length ws = length xs \<Longrightarrow> \<forall>w \<in> set ws. 0 < w \<Longrightarrow>
     (\<forall>x \<in> set (map (\<lambda>(t, w). real (f t) * w) (zip xs ws)). x = 0) \<longleftrightarrow> (\<forall>t \<in> set xs. f t = 0)"
  by (induction ws xs rule: list_induct2) auto

lemma raw_tfidf_zero_iff:
  "wf_model m \<Longrightarrow> (\<forall>x \<in> set (raw_tfidf m doc). x = 0) \<longleftrightarrow>
     (\<forall>t \<in> set (vocabulary m). t \<notin> set (analyze (stop_words m) doc))"
  unfolding raw_tfidf_def wf_model_def
  by (subst weighted_zero_iff) (auto simp: count_list_0_iff)

lemma transform_zero_iff:
  "wf_model m \<Longrightarrow> (\<forall>x \<in> set (transform m doc). x = 0) \<longleftrightarrow>
     (\<forall>t \<in> set (vocabulary m). t \<notin> set (analyze (stop_words m) doc))"
  by (simp add: transform_def l2_normalize_zero_iff raw_tfidf_zero_iff)

lemma dot_weighted:
  "dot (map (\<lambda>(t, w). f t * w) (zip xs ws)) (map (\<lambda>(t, w). g t * w) (zip xs ws)) =
     sum_list (map (\<lambda>(t, w). f t * g t * (w * w)) (zip xs ws))"
  by (induction xs ws rule: list_induct2') (simp_all add: algebra_simps)

lemma raw_tfidf_dot_disjoint:
  assumes "set (analyze (stop_words m) x) \<inter> set (analyze (stop_words m) y) = {}"
  shows "dot (raw_tfidf m x) (raw_tfidf m y) = 0"
  unfolding raw_tfidf_def dot_weighted
  by (rule sum_list_map_zero) (use assms in \<open>auto simp: count_list_0_iff\<close>)

lemma raw_tfidf_repeat:
  "raw_tfidf m (concat (replicate k (doc @ '' ''))) = map (\<lambda>x. x * real k) (raw_tfidf m doc)"
  by (simp add: raw_tfidf_def analyze_repeat count_list_concat_replicate split_def)

lemma transform_repeat:
  "0 < k \<Longrightarrow> transform m (concat (replicate k (doc @ '' ''))) = transform m doc"
  by (simp add: transform_def raw_tfidf_repeat l2_normalize_scale_invariant)

text \<open>A document whose analysed text meets the vocabulary has a unit row.\<close>

lemma transform_self_cosine:
  "wf_model m \<Longrightarrow> \<exists>t \<in> set (vocabulary m). t \<in> set (analyze (stop_words m) doc) \<Longrightarrow>
     cosine_similarity (transform m doc) (transform m doc) = 1"
  using transform_zero_iff [of m doc] by (intro cosine_similarity_self) blast

lemma transform_cosine_disjoint:
  "set (analyze (stop_words m) x) \<inter> set (analyze (stop_words m) y) = {} \<Longrightarrow>
     cosine_similarity (transform m x) (transform m y) = 0"
  unfolding transform_def cosine_similarity_l2_normalize
  by (simp add: cosine_similarity_eq raw_tfidf_dot_disjoint)

lemma transform_cosine_nonneg:
  "wf_model m \<Longrightarrow> 0 \<le> cosine_similarity (transform m x) (transform m y)"
  by (intro cosine_similarity_nonneg transform_nonneg)

text \<open>The similarity of two transformed documents, from their raw tf-idf rows.\<close>

lemma transform_cosine_raw:
  "cosine_similarity (transform m x) (transform m y) =
     dot (raw_tfidf m x) (raw_tfidf m y) / (l2_norm (raw_tfidf m x) * l2_norm (raw_tfidf m y))"
  unfolding transform_def cosine_similarity_l2_normalize by (rule cosine_similarity_eq)

lemma fit_stop_words: "fit stop docs = Inr m \<Longrightarrow> stop_words m = stop"
  by (auto simp: fit_def Let_def split: if_splits)

text \<open>A shared term of the vocabulary makes the raw rows, and so the similarity, positive.\<close>

lemma raw_tfidf_dot_pos:
  assumes wf: "wf_model m" and t: "t \<in> set (vocabulary m)"
    and x: "t \<in> set (analyze (stop_words m) x)" and y: "t \<in> set (analyze (stop_words m) y)"
  shows "0 < dot (raw_tfidf m x) (raw_tfidf m y)"
proof -
  let ?cx = "\<lambda>t. real (count_list (analyze (stop_words m) x) t)"
  let ?cy = "\<lambda>t. real (count_list (analyze (stop_words m) y) t)"
  let ?g = "\<lambda>(t, w). ?cx t * ?cy t * (w * w)"
  have d: "dot (raw_tfidf m x) (raw_tfidf m y) = sum_list (map ?g (zip (vocabulary m) (idf m)))"
    unfolding raw_tfidf_def by (rule dot_weighted)
  obtain k where k: "k < length (vocabulary m)" "vocabulary m ! k = t"
    using t by (auto simp: in_set_conv_nth)
  have len: "length (idf m) = length (vocabulary m)" and w1: "\<forall>w \<in> set (idf m). 1 \<le> w"
    using wf by (simp_all add: wf_model_def)
  have mem: "(t, idf m ! k) \<in> set (zip (vocabulary m) (idf m))"
    using k len by (auto simp: set_zip intro!: exI [of _ k])
  have "1 \<le> idf m ! k" using w1 k len by simp
  moreover have "0 < ?cx t" "0 < ?cy t"
    using x y count_list_0_iff [of "analyze (stop_words m) x" t] count_list_0_iff [of "analyze (stop_words m) y" t]
    by simp_all
  ultimately have pos: "0 < ?g (t, idf m ! k)" by simp
  have "\<forall>v \<in> set (map ?g (zip (vocabulary m) (idf m))). 0 \<le> v"
    by auto
  with pos mem show ?thesis
    unfolding d by (intro sum_list_pos_member) (auto intro: rev_image_eqI)
qed

lemma transform_cosine_pos:
  assumes "wf_model m" "t \<in> set (vocabulary m)"
    "t \<in> set (analyze (stop_words m) x)" "t \<in> set (analyze (stop_words m) y)"
  shows "0 < cosine_similarity (transform m x) (transform m y)"
proof -
  have "l2_norm (raw_tfidf m x) \<noteq> 0" "l2_norm (raw_tfidf m y) \<noteq> 0"
    using assms raw_tfidf_zero_iff [OF assms(1)] by (auto simp: l2_norm_eq_0_iff)
  then have "0 < l2_norm (raw_tfidf m x) * l2_norm (raw_tfidf m y)"
    using l2_norm_nonneg by (simp add: less_le)
  with raw_tfidf_dot_pos [OF assms] show ?thesis
    by (simp add: transform_cosine_raw)
qed

text \<open>The shape of a transformed row: one entry per term in [0,1], a unit vector or zero.\<close>

lemma transform_shape:
  assumes "fit stop docs = Inr m"
  shows "length (transform m d) = length (vocabulary m) \<and>
         (\<forall>x \<in> set (transform m d). 0 \<le> x \<and> x \<le> 1) \<and>
         sq_norm (transform m d) = (if \<exists>t \<in> set (vocabulary m). t \<in> set (analyze stop d) then 1 else 0)"
proof -
  have wf: "wf_model m" by (rule fit_wf_model [OF assms])
  have stop: "stop_words m = stop" by (rule fit_stop_words [OF assms])
  have le1: "x \<le> 1" if "x \<in> set (transform m d)" for x
  proof -
    have "x * x \<le> 1"
      using sq_norm_member [OF that] sq_norm_l2_normalize_le [of "raw_tfidf m d"]
      by (simp add: transform_def)
    show ?thesis
    proof (rule ccontr)
      assume "\<not> x \<le> 1"
      then have "1 * 1 < x * x" by (intro mult_strict_mono) simp_all
      with \<open>x * x \<le> 1\<close> show False by simp
    qed
  qed
  have "sq_norm (transform m d) = (if \<exists>t \<in> set (vocabulary m). t \<in> set (analyze stop d) then 1 else 0)"
    using raw_tfidf_zero_iff [OF wf, of d] stop
    by (auto simp: transform_def sq_norm_l2_normalize l2_norm_eq_0_iff)
  with wf le1 transform_nonneg [OF wf, of d] show ?thesis by simp
qed

end
