(* ===== verification/Matcher.thy ===== *)
theory Matcher
  imports Tfidf
begin

text \<open>
  The Matcher: the similarity row of a job description against the corpus rows, its
  ordering by \<open>numpy.argsort\<close>, and the two selections the sources make of it.
  \<^item> \<open>main.py\<close>, \<open>matcher()\<close> (lines 105--110): the last five indices of the
    ascending argsort, reversed, with \<open>round(similarity * 100)\<close>; no threshold.
  \<^item> \<open>Resume-Match.py\<close> (lines 90--97): the job description repeated
    \<open>skill_weight + experience_weight\<close> times, the argsort reversed, the indices of
    positive similarity kept, the first five taken, with
    \<open>round(similarity * 100, 2)\<close>.
  \<open>argsort\<close> is modelled as a stable sort of the indices by their value. numpy
  guarantees no order of ties for its default sort (an introsort, or a SIMD sort on
  some processors), so the tie lemmas are about the model; no property of the
  selections depends on how ties are ordered. Python's \<open>round\<close> rounds half to even,
  on the exact value (floats are reals). The corpus of the specification's worked
  example is defined here, with the properties of the pipeline from a fitted model to
  the selections (C3, C4).
\<close>

section \<open>Library calls\<close>

definition argsort :: "real list \<Rightarrow> nat list" where
  "argsort xs = sort_key (\<lambda>i. xs ! i) [0..<length xs]"

definition py_round :: "real \<Rightarrow> int" where
  "py_round x =
     (let f = \<lfloor>x\<rfloor>; d = x - of_int f
      in if d < 1 / 2 then f else if 1 / 2 < d then f + 1 else if even f then f else f + 1)"

text \<open>\<open>round(x, 2)\<close>: to two decimals, half to even (on the exact value).\<close>

definition py_round2 :: "real \<Rightarrow> real" where
  "py_round2 x = of_int (py_round (x * 100)) / 100"

section \<open>The two selections\<close>

text \<open>\<open>main.py\<close> line 108: \<open>similarities.argsort()[-5:][::-1]\<close>.\<close>

definition flask_top_indices :: "real list \<Rightarrow> nat list" where
  "flask_top_indices sims = rev (drop (length (argsort sims) - 5) (argsort sims))"

text \<open>\<open>main.py\<close> line 110 (and 118): \<open>round(similarities[i] * 100)\<close>.\<close>

definition flask_scores :: "real list \<Rightarrow> nat list \<Rightarrow> int list" where
  "flask_scores sims idx = map (\<lambda>i. py_round (sims ! i * 100)) idx"

text \<open>\<open>Resume-Match.py\<close> lines 94--97.\<close>

definition rm_top_matches :: "real list \<Rightarrow> (nat \<times> real) list" where
  "rm_top_matches sims =
     take 5 (map (\<lambda>i. (i, py_round2 (sims ! i * 100)))
                 (filter (\<lambda>i. 0 < sims ! i) (rev (argsort sims))))"

text \<open>\<open>Resume-Match.py\<close> line 90: \<open>(job_description + " ") * (skill_weight + experience_weight)\<close>
  (a non-positive count gives the empty string, as in Python).\<close>

definition boosted_job :: "string \<Rightarrow> int \<Rightarrow> int \<Rightarrow> string" where
  "boosted_job jd sw ew = concat (replicate (nat (sw + ew)) (jd @ '' ''))"

text \<open>The similarity rows: \<open>main.py\<close> lines 105--106, \<open>Resume-Match.py\<close> lines 91--93.\<close>

definition flask_similarities :: "tfidf_model \<Rightarrow> vec list \<Rightarrow> string \<Rightarrow> real list" where
  "flask_similarities m vecs jd = cosine_row (transform m jd) vecs"

definition rm_similarities :: "tfidf_model \<Rightarrow> vec list \<Rightarrow> string \<Rightarrow> int \<Rightarrow> int \<Rightarrow> real list" where
  "rm_similarities m vecs jd sw ew = cosine_row (transform m (boosted_job jd sw ew)) vecs"

text \<open>Indices in descending order of their similarity.\<close>

definition ranked_desc :: "real list \<Rightarrow> nat list \<Rightarrow> bool" where
  "ranked_desc sims is \<longleftrightarrow> sorted_wrt (\<lambda>i j. sims ! j \<le> sims ! i) is"

text \<open>The indices of positive similarity, best first, from which Resume-Match takes five.\<close>

definition pos_ranked :: "real list \<Rightarrow> nat list" where
  "pos_ranked sims = filter (\<lambda>i. 0 < sims ! i) (rev (argsort sims))"

section \<open>The example of the specification\<close>

text \<open>The corpus and job description of the specification's worked example.\<close>

definition example_docs :: "string list" where
  "example_docs = [''python developer with react experience'', ''java backend engineer'',
                   ''unity game developer with c++'']"

definition example_model :: tfidf_model where
  "example_model = \<lparr>stop_words = [],
     vocabulary = [''backend'', ''developer'', ''engineer'', ''experience'', ''game'', ''java'',
                   ''python'', ''react'', ''unity'', ''with''],
     idf = [smooth_idf 3 1, smooth_idf 3 2, smooth_idf 3 1, smooth_idf 3 1, smooth_idf 3 1,
            smooth_idf 3 1, smooth_idf 3 1, smooth_idf 3 1, smooth_idf 3 1, smooth_idf 3 2]\<rparr>"

text \<open>The job description of the specification's example (section 8).\<close>

definition spec_job :: string where
  "spec_job = ''looking for a python and react developer''"

section \<open>argsort\<close>

lemma set_argsort [simp]: "set (argsort xs) = {..<length xs}"
  by (auto simp: argsort_def)

lemma distinct_argsort [simp]: "distinct (argsort xs)"
  by (simp add: argsort_def)

lemma length_argsort [simp]: "length (argsort xs) = length xs"
  by (simp add: argsort_def)

lemma ranked_desc_rev_argsort: "ranked_desc sims (rev (argsort sims))"
proof -
  have "sorted (map (\<lambda>i. sims ! i) (argsort sims))"
    by (simp add: argsort_def)
  then have "sorted_wrt (\<lambda>i j. sims ! i \<le> sims ! j) (argsort sims)"
    by (simp add: sorted_wrt_map)
  then show ?thesis
    by (simp add: ranked_desc_def sorted_wrt_rev)
qed

lemma ranked_desc_filter:
  "ranked_desc sims is \<Longrightarrow> ranked_desc sims (filter P is)"
  by (simp add: ranked_desc_def sorted_wrt_filter)

lemma ranked_desc_take:
  "ranked_desc sims is \<Longrightarrow> ranked_desc sims (take n is)"
  by (simp add: ranked_desc_def)

lemma ranked_desc_drop:
  "ranked_desc sims is \<Longrightarrow> ranked_desc sims (drop n is)"
  by (simp add: ranked_desc_def)

lemma ranked_desc_append_le:
  "ranked_desc sims (xs @ ys) \<Longrightarrow> i \<in> set xs \<Longrightarrow> j \<in> set ys \<Longrightarrow> sims ! j \<le> sims ! i"
  by (simp add: ranked_desc_def sorted_wrt_append)

lemma argsort_ties_stable:
  "filter (\<lambda>i. sims ! i = k) (argsort sims) = filter (\<lambda>i. sims ! i = k) [0..<length sims]"
  unfolding argsort_def by (rule sort_key_stable)

section \<open>Rounding\<close>

lemma py_round_bounds: "x - 1 / 2 \<le> of_int (py_round x) \<and> of_int (py_round x) \<le> x + 1 / 2"
  by (auto simp: py_round_def Let_def) linarith+

lemma py_round_floor: "\<lfloor>x\<rfloor> \<le> py_round x \<and> py_round x \<le> \<lfloor>x\<rfloor> + 1"
  by (simp add: py_round_def Let_def)

lemma py_round_mono: "x \<le> y \<Longrightarrow> py_round x \<le> py_round y"
proof -
  assume xy: "x \<le> y"
  have fl: "\<lfloor>x\<rfloor> \<le> \<lfloor>y\<rfloor>" using xy by (rule floor_mono)
  show ?thesis
  proof (cases "\<lfloor>x\<rfloor> = \<lfloor>y\<rfloor>")
    case True
    with xy show ?thesis by (auto simp: py_round_def Let_def)
  next
    case False
    with fl have "\<lfloor>x\<rfloor> + 1 \<le> \<lfloor>y\<rfloor>" by simp
    with py_round_floor [of x] py_round_floor [of y] show ?thesis by linarith
  qed
qed

lemma py_round_of_int [simp]: "py_round (of_int n) = n"
  by (simp add: py_round_def)

lemma py_round_int_bounds:
  "0 \<le> x \<Longrightarrow> x \<le> of_int n \<Longrightarrow> 0 \<le> py_round x \<and> py_round x \<le> n"
  using py_round_mono [of 0 x] py_round_mono [of x "of_int n"] py_round_of_int [of 0]
    py_round_of_int [of n]
  by simp

section \<open>The Streamlit selection\<close>

lemma rm_top_indices: "map fst (rm_top_matches sims) = take 5 (pos_ranked sims)"
  by (simp add: rm_top_matches_def pos_ranked_def take_map comp_def)

lemma set_pos_ranked: "set (pos_ranked sims) = {i. i < length sims \<and> 0 < sims ! i}"
  by (auto simp: pos_ranked_def)

lemma distinct_pos_ranked: "distinct (pos_ranked sims)"
  by (simp add: pos_ranked_def)

lemma ranked_desc_pos_ranked: "ranked_desc sims (pos_ranked sims)"
  unfolding pos_ranked_def by (rule ranked_desc_filter [OF ranked_desc_rev_argsort])

lemma length_pos_ranked: "length (pos_ranked sims) = card {i. i < length sims \<and> 0 < sims ! i}"
  using distinct_card [OF distinct_pos_ranked, of sims] by (simp add: set_pos_ranked)

text \<open>Every positive index left out of a prefix of a ranked list ranks below all of it.\<close>

lemma take_ranked_complete:
  assumes "ranked_desc sims xs" "j \<in> set xs" "j \<notin> set (take k xs)"
  shows "length (take k xs) = k \<and> (\<forall>i \<in> set (take k xs). sims ! j \<le> sims ! i)"
proof -
  have jd: "j \<in> set (drop k xs)"
    using assms(2,3) by (metis UnE append_take_drop_id set_append)
  then have "k < length xs" by (cases "k < length xs") auto
  moreover have "ranked_desc sims (take k xs @ drop k xs)"
    using assms(1) by simp
  then have "\<forall>i \<in> set (take k xs). sims ! j \<le> sims ! i"
    using jd ranked_desc_append_le by blast
  ultimately show ?thesis by simp
qed

section \<open>The Flask selection\<close>

lemma length_flask_top_indices: "length (flask_top_indices sims) = min 5 (length sims)"
  by (simp add: flask_top_indices_def)

lemma ranked_desc_flask_top: "ranked_desc sims (flask_top_indices sims)"
proof -
  have "sorted_wrt (\<lambda>i j. sims ! i \<le> sims ! j) (argsort sims)"
    by (simp add: argsort_def sorted_wrt_map [symmetric])
  then have "sorted_wrt (\<lambda>i j. sims ! i \<le> sims ! j) (drop (length sims - 5) (argsort sims))"
    by (rule sorted_wrt_drop)
  then show ?thesis
    by (simp add: flask_top_indices_def ranked_desc_def sorted_wrt_rev)
qed

lemma flask_top_complete:
  assumes "j < length sims" "j \<notin> set (flask_top_indices sims)" "i \<in> set (flask_top_indices sims)"
  shows "sims ! j \<le> sims ! i"
proof -
  let ?a = "argsort sims" and ?n = "length sims - 5"
  have "sorted_wrt (\<lambda>i j. sims ! i \<le> sims ! j) (take ?n ?a @ drop ?n ?a)"
    by (simp add: argsort_def sorted_wrt_map [symmetric])
  moreover have "j \<in> set (take ?n ?a)"
  proof -
    have "j \<in> set ?a" using assms(1) by simp
    then have "j \<in> set (take ?n ?a) \<union> set (drop ?n ?a)"
      by (metis append_take_drop_id set_append)
    moreover have "j \<notin> set (drop ?n ?a)"
      using assms(2) by (simp add: flask_top_indices_def)
    ultimately show ?thesis by blast
  qed
  moreover have "i \<in> set (drop ?n ?a)"
    using assms(3) by (simp add: flask_top_indices_def)
  ultimately show ?thesis
    unfolding sorted_wrt_append by blast
qed

lemma analyze_boosted_job:
  "analyze stop (boosted_job jd sw ew) = concat (replicate (nat (sw + ew)) (analyze stop jd))"
  by (simp add: boosted_job_def analyze_repeat)

lemma set_analyze_boosted_job:
  "set (analyze stop (boosted_job jd sw ew)) \<subseteq> set (analyze stop jd)"
  by (auto simp: analyze_boosted_job set_replicate_conv_if split: if_splits)

lemma rm_similarities_flask:
  "0 < sw + ew \<Longrightarrow> rm_similarities m vecs jd sw ew = flask_similarities m vecs jd"
  by (simp add: rm_similarities_def flask_similarities_def boosted_job_def transform_repeat)

lemma rm_top_matches_nonpos:
  "\<forall>x \<in> set sims. x \<le> 0 \<Longrightarrow> rm_top_matches sims = []"
proof -
  assume nonpos: "\<forall>x \<in> set sims. x \<le> 0"
  have "filter (\<lambda>i. 0 < sims ! i) (rev (argsort sims)) = []"
    unfolding filter_empty_conv
  proof
    fix i assume "i \<in> set (rev (argsort sims))"
    then have "i < length sims" by (simp add: argsort_def)
    with nonpos show "\<not> 0 < sims ! i" by (simp add: not_less)
  qed
  then show ?thesis by (simp add: rm_top_matches_def)
qed

lemma rm_top_matches_member:
  "(i, s) \<in> set (rm_top_matches sims) \<Longrightarrow>
     i < length sims \<and> 0 < sims ! i \<and> s = py_round2 (sims ! i * 100)"
  by (auto simp: rm_top_matches_def dest: in_set_takeD)

lemma length_rm_top_matches: "length (rm_top_matches sims) \<le> 5"
  by (simp add: rm_top_matches_def)

lemma py_round2_mono: "x \<le> y \<Longrightarrow> py_round2 x \<le> py_round2 y"
  by (simp add: py_round2_def divide_right_mono py_round_mono)

lemma py_round2_bounds: "0 \<le> x \<Longrightarrow> x \<le> 100 \<Longrightarrow> 0 \<le> py_round2 x \<and> py_round2 x \<le> 100"
  using py_round_int_bounds [of "x * 100" 10000] by (simp add: py_round2_def)

text \<open>Half a hundredth and less rounds to \<open>0.0\<close> (a tie goes to the even \<open>0\<close>).\<close>

lemma py_round2_small: "0 \<le> x \<Longrightarrow> x \<le> 1 / 200 \<Longrightarrow> py_round2 x = 0"
proof -
  assume "0 \<le> x" "x \<le> 1 / 200"
  then have "0 \<le> x * 100" "x * 100 \<le> 1 / 2" by simp_all
  then have "\<lfloor>x * 100\<rfloor> = 0" by (simp add: floor_eq_iff)
  with \<open>x * 100 \<le> 1 / 2\<close> show ?thesis
    by (simp add: py_round2_def py_round_def Let_def)
qed

lemma rm_top_matches_take_map:
  "rm_top_matches sims = map (\<lambda>i. (i, py_round2 (sims ! i * 100))) (take 5 (pos_ranked sims))"
  by (simp add: rm_top_matches_def pos_ranked_def take_map)

lemma rm_top_matches_scores_desc: "sorted_wrt (\<lambda>a b. snd b \<le> snd a) (rm_top_matches sims)"
proof -
  have "sorted_wrt (\<lambda>i j. sims ! j \<le> sims ! i) (take 5 (pos_ranked sims))"
    using ranked_desc_take [OF ranked_desc_pos_ranked] by (simp add: ranked_desc_def)
  then show ?thesis
    unfolding rm_top_matches_take_map sorted_wrt_map
    by (rule sorted_wrt_mono_rel [rotated]) (simp add: py_round2_mono)
qed

lemma card_pos_le_length: "card {j. j < length sims \<and> 0 < sims ! j} \<le> length sims"
  using card_mono [of "{..<length sims}" "{j. j < length sims \<and> 0 < sims ! j}"] by auto

lemma fit_example_docs: "fit [] example_docs = Inr example_model"
  by (simp add: fit_def doc_freq_def text_eval_defs example_docs_def example_model_def
      eval_nat_numeral)

section \<open>Properties of the selections\<close>

text \<open>
  C1. The Streamlit matcher returns at most five matches; each names a corpus index
  whose similarity is positive, carries that similarity as a percentage rounded to two
  decimals, no index occurs twice, and the matches are in descending order of
  similarity.
\<close>

theorem rm_top_matches_sound:
  "length (rm_top_matches sims) \<le> 5 \<and> distinct (map fst (rm_top_matches sims)) \<and>
   ranked_desc sims (map fst (rm_top_matches sims)) \<and>
   (\<forall>(i, s) \<in> set (rm_top_matches sims).
      i < length sims \<and> 0 < sims ! i \<and> s = py_round2 (sims ! i * 100))"
proof -
  have idx: "map fst (rm_top_matches sims) = take 5 (pos_ranked sims)"
    by (rule rm_top_indices)
  have "\<forall>(i, s) \<in> set (rm_top_matches sims).
      i < length sims \<and> 0 < sims ! i \<and> s = py_round2 (sims ! i * 100)"
    by (auto dest: rm_top_matches_member)
  moreover have "length (rm_top_matches sims) \<le> 5"
    by (rule length_rm_top_matches)
  ultimately show ?thesis
    using idx distinct_pos_ranked [of sims] ranked_desc_take [OF ranked_desc_pos_ranked]
    by (simp add: distinct_take)
qed

theorem rm_top_matches_sound_witness:
  "rm_top_matches [1/2, 0, 1] = [(2, 100), (0, 50)] \<and> ranked_desc [1/2, 0, 1] [2, 0]"
proof -
  have m: "rm_top_matches [1/2, 0, 1] = [(2, 100), (0, 50)]"
    by (simp add: rm_top_matches_def argsort_def py_round2_def py_round_def)
  with rm_top_matches_sound [of "[1/2, 0, 1]"] show ?thesis by simp
qed

text \<open>
  C2. The Streamlit matcher is a top-five selection: a corpus index of positive
  similarity that is not among the matches is only left out when five matches were
  returned, each at least as similar as it.
\<close>

theorem rm_top_matches_complete:
  assumes "j < length sims" "0 < sims ! j" "j \<notin> fst ` set (rm_top_matches sims)"
  shows "length (rm_top_matches sims) = 5 \<and> (\<forall>i \<in> fst ` set (rm_top_matches sims). sims ! j \<le> sims ! i)"
proof -
  have "j \<in> set (pos_ranked sims)"
    using assms(1,2) by (simp add: set_pos_ranked)
  moreover have "j \<notin> set (take 5 (pos_ranked sims))"
    using assms(3) rm_top_indices [of sims] by (metis list.set_map)
  ultimately have "length (take 5 (pos_ranked sims)) = 5 \<and>
      (\<forall>i \<in> set (take 5 (pos_ranked sims)). sims ! j \<le> sims ! i)"
    by (intro take_ranked_complete ranked_desc_pos_ranked)
  then show ?thesis
    by (metis length_map list.set_map rm_top_indices)
qed

theorem rm_top_matches_complete_witness:
  "length (rm_top_matches [1, 1, 1, 1, 1, 1/2]) = 5 \<and>
   [1, 1, 1, 1, 1, 1/2::real] ! 5 \<le> [1, 1, 1, 1, 1, 1/2::real] ! 4"
proof -
  have ev: "rm_top_matches [1, 1, 1, 1, 1, 1/2] = [(4, 100), (3, 100), (2, 100), (1, 100), (0, 100)]"
    by (simp add: rm_top_matches_def argsort_def py_round2_def py_round_def)
  have "length (rm_top_matches [1, 1, 1, 1, 1, 1/2]) = 5 \<and>
      (\<forall>i \<in> fst ` set (rm_top_matches [1, 1, 1, 1, 1, 1/2]).
         [1, 1, 1, 1, 1, 1/2::real] ! 5 \<le> [1, 1, 1, 1, 1, 1/2::real] ! i)"
    by (rule rm_top_matches_complete) (simp_all add: ev)
  then show ?thesis using ev by simp
qed

text \<open>
  C5. The Streamlit matcher returns no match exactly when no corpus entry has positive
  similarity (the "No matching resumes found" state).
\<close>

theorem rm_top_matches_empty_iff:
  "rm_top_matches sims = [] \<longleftrightarrow> (\<forall>x \<in> set sims. x \<le> 0)"
proof -
  have "rm_top_matches sims = [] \<longleftrightarrow> map fst (rm_top_matches sims) = []"
    by simp
  also have "\<dots> \<longleftrightarrow> set (pos_ranked sims) = {}"
    by (simp add: rm_top_indices)
  also have "\<dots> \<longleftrightarrow> (\<forall>i < length sims. sims ! i \<le> 0)"
    by (auto simp: set_pos_ranked not_less) (meson leD)
  also have "\<dots> \<longleftrightarrow> (\<forall>x \<in> set sims. x \<le> 0)"
    by (simp add: all_set_conv_all_nth)
  finally show ?thesis .
qed

theorem rm_top_matches_empty_iff_witness:
  "rm_top_matches [0, 0] = [] \<and> rm_top_matches [0, 1/2] \<noteq> []"
proof
  show "rm_top_matches [0, 0] = []"
    using rm_top_matches_empty_iff [of "[0, 0]"] by simp
  have "(1/2::real) \<in> set [0, 1/2]" "\<not> (1/2::real) \<le> 0" by simp_all
  then have "\<not> (\<forall>x \<in> set [0, 1/2::real]. x \<le> 0)" by blast
  then show "rm_top_matches [0, 1/2] \<noteq> []"
    using rm_top_matches_empty_iff [of "[0, 1/2]"] by blast
qed

text \<open>
  C21. The \<open>> 0\<close> filter is applied to the unrounded similarity and \<open>round(.., 2)\<close>
  afterwards: when at most five resumes have positive similarity, each of them is
  listed, and one whose similarity is below \<open>1/20000\<close> is listed with score \<open>0.0\<close>.
\<close>

theorem rm_top_matches_zero_score:
  assumes "i < length sims" "0 < sims ! i" "sims ! i < 1 / 20000"
    and "card {j. j < length sims \<and> 0 < sims ! j} \<le> 5"
  shows "(i, 0) \<in> set (rm_top_matches sims)"
proof -
  have "take 5 (pos_ranked sims) = pos_ranked sims"
    using assms(4) by (simp add: length_pos_ranked)
  moreover have "i \<in> set (pos_ranked sims)"
    using assms(1,2) by (simp add: set_pos_ranked)
  moreover have "py_round2 (sims ! i * 100) = 0"
    using assms(2,3) by (simp add: py_round2_small)
  ultimately show ?thesis
    unfolding rm_top_matches_take_map by (metis (no_types, lifting) image_eqI set_map)
qed

theorem rm_top_matches_zero_score_witness:
  "(1, 0) \<in> set (rm_top_matches [1 / 2, 1 / 100000])"
proof (rule rm_top_matches_zero_score)
  show "card {j. j < length [1 / 2, 1 / 100000 :: real] \<and> 0 < [1 / 2, 1 / 100000 :: real] ! j} \<le> 5"
    using card_pos_le_length [of "[1 / 2, 1 / 100000 :: real]"] by simp
qed simp_all

lemma flask_top_take: "flask_top_indices sims = take 5 (rev (argsort sims))"
  by (cases "length sims \<le> 5") (simp_all add: flask_top_indices_def rev_drop)

lemma filter_ranked_takeWhile:
  "ranked_desc sims xs \<Longrightarrow> filter (\<lambda>i. 0 < sims ! i) xs = takeWhile (\<lambda>i. 0 < sims ! i) xs"
proof (induction xs)
  case Nil
  then show ?case by simp
next
  case (Cons x xs)
  then have tl: "ranked_desc sims xs" and le: "\<forall>j \<in> set xs. sims ! j \<le> sims ! x"
    by (simp_all add: ranked_desc_def)
  show ?case
  proof (cases "0 < sims ! x")
    case True
    with Cons.IH [OF tl] show ?thesis by simp
  next
    case False
    with le have "filter (\<lambda>i. 0 < sims ! i) xs = []"
      by (auto simp: filter_empty_conv)
    with False show ?thesis by simp
  qed
qed

lemma take_takeWhile: "take k (takeWhile P xs) = takeWhile P (take k xs)"
  by (induction xs arbitrary: k) (auto simp: take_Cons split: nat.split)

text \<open>
  C36. The two front ends select alike: the indices Resume-Match reports are exactly
  main.py's five best indices with the zero-similarity ones removed (the rankings differ
  only in the \<open>> 0\<close> filter and the rounding of the scores).
\<close>

theorem rm_top_is_flask_top_positive:
  "map fst (rm_top_matches sims) = filter (\<lambda>i. 0 < sims ! i) (flask_top_indices sims)"
proof -
  let ?ra = "rev (argsort sims)" and ?P = "\<lambda>i. 0 < sims ! i"
  have "map fst (rm_top_matches sims) = take 5 (filter ?P ?ra)"
    by (simp add: rm_top_indices pos_ranked_def)
  also have "\<dots> = takeWhile ?P (take 5 ?ra)"
    using filter_ranked_takeWhile [OF ranked_desc_rev_argsort] by (simp add: take_takeWhile)
  also have "\<dots> = filter ?P (take 5 ?ra)"
    using filter_ranked_takeWhile [OF ranked_desc_take [OF ranked_desc_rev_argsort]] by simp
  finally show ?thesis by (simp add: flask_top_take)
qed

text \<open>
  C3. A job description that shares no analysed term with any resume yields no match in
  the Streamlit matcher, whatever the weights: the empty result, not an error.
\<close>

theorem rm_no_overlap_no_match:
  assumes "fit stop docs = Inr m"
    and "\<forall>d \<in> set docs. set (analyze stop jd) \<inter> set (analyze stop d) = {}"
  shows "rm_top_matches (rm_similarities m (map (transform m) docs) jd sw ew) = []"
proof (rule rm_top_matches_nonpos)
  have "\<forall>d \<in> set docs. cosine_similarity (transform m (boosted_job jd sw ew)) (transform m d) = 0"
  proof
    fix d assume "d \<in> set docs"
    with assms(2) set_analyze_boosted_job [of stop jd sw ew]
    have "set (analyze stop (boosted_job jd sw ew)) \<inter> set (analyze stop d) = {}"
      by blast
    then show "cosine_similarity (transform m (boosted_job jd sw ew)) (transform m d) = 0"
      using fit_stop_words [OF assms(1)] by (simp add: transform_cosine_disjoint)
  qed
  then show "\<forall>x \<in> set (rm_similarities m (map (transform m) docs) jd sw ew). x \<le> 0"
    by (auto simp: rm_similarities_def cosine_row_def)
qed

theorem rm_no_overlap_no_match_witness:
  "rm_top_matches (rm_similarities example_model (map (transform example_model) example_docs)
     ''accountant, CPA'' 3 3) = []"
proof (rule rm_no_overlap_no_match)
  show "fit [] example_docs = Inr example_model" by (rule fit_example_docs)
  show "\<forall>d \<in> set example_docs. set (analyze [] ''accountant, CPA'') \<inter> set (analyze [] d) = {}"
    by (simp add: example_docs_def text_eval_defs)
qed

text \<open>
  C4. Fit and transform are consistent: a resume whose text has an analysed term scores
  exactly 1 (100\%) against its own text used as the job description, and no job
  description scores more than 1 against it.
\<close>

theorem self_match_is_maximal:
  assumes "fit stop docs = Inr m" "i < length docs" "analyze stop (docs ! i) \<noteq> []"
  shows "flask_similarities m (map (transform m) docs) (docs ! i) ! i = 1 \<and>
         (\<forall>jd. flask_similarities m (map (transform m) docs) jd ! i \<le> 1)"
proof -
  obtain t where t: "t \<in> set (analyze stop (docs ! i))"
    using assms(3) by (cases "analyze stop (docs ! i)") auto
  then have "t \<in> set (vocabulary m)"
    using set_vocabulary_fit [OF assms(1)] assms(2) nth_mem by blast
  with t have "cosine_similarity (transform m (docs ! i)) (transform m (docs ! i)) = 1"
    using fit_wf_model [OF assms(1)] fit_stop_words [OF assms(1)]
    by (intro transform_self_cosine) auto
  with assms(2) show ?thesis
    by (simp add: flask_similarities_def cosine_similarity_le_1)
qed

theorem self_match_is_maximal_witness:
  "flask_similarities example_model (map (transform example_model) example_docs)
     (example_docs ! 1) ! 1 = 1"
proof -
  have "analyze [] (example_docs ! 1) \<noteq> []"
    by (simp add: example_docs_def text_eval_defs)
  from self_match_is_maximal [OF fit_example_docs _ this] show ?thesis
    by (simp add: example_docs_def)
qed

end
