(* ===== verification/Extract.thy ===== *)
theory Extract
  imports Prelude
begin

text \<open>
  The Document Extractor: \<open>extract_text\<close> of \<open>main.py\<close> (lines 55--78, with its
  three adapters) and of \<open>Resume-Match.py\<close> (lines 16--29), which dispatch on the
  path's extension. The file system and the libraries they call are an interface,
  the record \<open>filesystem\<close>: \<open>os.listdir\<close>, \<open>os.path.exists\<close>,
  \<open>os.path.isfile\<close>, the text of each page of a PDF (\<open>PyPDF2.PdfReader\<close> and
  \<open>page.extract_text()\<close>), \<open>docx2txt.process\<close> and reading a file as UTF-8. Each
  call that can raise returns \<open>io_error + _\<close>; an exception propagates, as in the
  code, since neither extractor catches anything.
\<close>

datatype io_error = OSError | UnicodeDecodeError | PdfReadError | BadZipFile

record filesystem =
  listdir :: "string \<Rightarrow> io_error + filename list"
  path_exists :: "string \<Rightarrow> bool"
  isfile :: "string \<Rightarrow> bool"
  pdf_pages :: "string \<Rightarrow> io_error + string list"
  docx_process :: "string \<Rightarrow> io_error + string"
  read_utf8 :: "string \<Rightarrow> io_error + string"

text \<open>\<open>os.path.join(folder, name)\<close> for a name without a leading slash.\<close>

definition path_join :: "string \<Rightarrow> string \<Rightarrow> string" where
  "path_join d f =
     (if d = [] \<or> last d = CHR ''/'' then d @ f else d @ ''/'' @ f)"

section \<open>\<open>main.py\<close>\<close>

text \<open>Lines 55--61: \<open>text = ""\<close>, then \<open>text += page.extract_text()\<close> per page.\<close>

definition extract_text_from_pdf :: "filesystem \<Rightarrow> string \<Rightarrow> io_error + string" where
  "extract_text_from_pdf fs p =
     (case pdf_pages fs p of
        Inl e \<Rightarrow> Inl e
      | Inr pages \<Rightarrow> Inr (foldl (\<lambda>text page. text @ page) [] pages))"

definition extract_text_from_docx :: "filesystem \<Rightarrow> string \<Rightarrow> io_error + string" where
  "extract_text_from_docx fs p = docx_process fs p"

definition extract_text_from_txt :: "filesystem \<Rightarrow> string \<Rightarrow> io_error + string" where
  "extract_text_from_txt fs p = read_utf8 fs p"

definition extract_text :: "filesystem \<Rightarrow> string \<Rightarrow> io_error + string" where
  "extract_text fs p =
     (if py_endswith p ''.pdf'' then extract_text_from_pdf fs p
      else if py_endswith p ''.docx'' then extract_text_from_docx fs p
      else if py_endswith p ''.txt'' then extract_text_from_txt fs p
      else Inr [])"

section \<open>\<open>Resume-Match.py\<close>\<close>

text \<open>Lines 16--29: the same dispatch with the adapters written inline.\<close>

definition rm_extract_text :: "filesystem \<Rightarrow> string \<Rightarrow> io_error + string" where
  "rm_extract_text fs p =
     (if py_endswith p ''.pdf'' then
        (case pdf_pages fs p of
           Inl e \<Rightarrow> Inl e
         | Inr pages \<Rightarrow> Inr (foldl (\<lambda>text page. text @ page) [] pages))
      else if py_endswith p ''.docx'' then docx_process fs p
      else if py_endswith p ''.txt'' then read_utf8 fs p
      else Inr [])"

section \<open>Lemmas\<close>

lemma foldl_append_concat: "foldl (\<lambda>text page. text @ page) acc pages = acc @ concat pages"
  by (induction pages arbitrary: acc) simp_all

lemma extract_text_from_pdf_concat:
  "extract_text_from_pdf fs p = (case pdf_pages fs p of Inl e \<Rightarrow> Inl e | Inr pages \<Rightarrow> Inr (concat pages))"
  by (simp add: extract_text_from_pdf_def foldl_append_concat split: sum.split)

lemma rm_extract_text_eq: "rm_extract_text fs p = extract_text fs p"
  by (simp add: rm_extract_text_def extract_text_def extract_text_from_pdf_def
      extract_text_from_docx_def extract_text_from_txt_def)

lemma extract_text_unknown:
  "\<not> py_endswith p ''.pdf'' \<Longrightarrow> \<not> py_endswith p ''.docx'' \<Longrightarrow> \<not> py_endswith p ''.txt'' \<Longrightarrow>
     extract_text fs p = Inr []"
  by (simp add: extract_text_def)

end
