(* ===== verification/Corpus.thy ===== *)
theory Corpus
  imports Extract
begin

text \<open>
  The Corpus Builder: the directory scans of \<open>main.py\<close> (lines 81--88) and of
  \<open>Resume-Match.py\<close> (lines 45--59). Both walk \<open>os.listdir(folder)\<close> in order, skip
  what is not a regular file, and append the file name and its extracted text to two
  parallel lists; \<open>Resume-Match.py\<close> keeps only files whose text is non-empty and
  starts from empty lists when the folder does not exist. The loops are modelled with
  their accumulators, and an extraction error ends the scan, as the uncaught exception
  does. Both are related to one filter of the listing, \<open>extract_all\<close>, through which
  the Streamlit corpus is shown to be the Flask corpus without its empty texts.
\<close>

definition DATASET_FOLDER :: string where
  "DATASET_FOLDER = ''input_data/''"

definition FOLDER :: string where
  "FOLDER = ''input_data/''"

text \<open>\<open>main.py\<close>, the loop of lines 84--88.\<close>

fun main_load_loop ::
  "filesystem \<Rightarrow> string \<Rightarrow> filename list \<Rightarrow> filename list \<times> string list \<Rightarrow>
     io_error + filename list \<times> string list" where
  "main_load_loop fs d [] acc = Inr acc"
| "main_load_loop fs d (f # fns) (names, texts) =
     (let path = path_join d f in
      if isfile fs path then
        (case extract_text fs path of
           Inl e \<Rightarrow> Inl e
         | Inr t \<Rightarrow> main_load_loop fs d fns (names @ [f], texts @ [t]))
      else main_load_loop fs d fns (names, texts))"

definition main_load_resumes :: "filesystem \<Rightarrow> io_error + filename list \<times> string list" where
  "main_load_resumes fs =
     (case listdir fs DATASET_FOLDER of
        Inl e \<Rightarrow> Inl e
      | Inr fns \<Rightarrow> main_load_loop fs DATASET_FOLDER fns ([], []))"

text \<open>\<open>Resume-Match.py\<close>, lines 45--59 (the download buffers hold the same text and
  are not modelled).\<close>

fun rm_load_loop ::
  "filesystem \<Rightarrow> string \<Rightarrow> filename list \<Rightarrow> string list \<times> filename list \<Rightarrow>
     io_error + string list \<times> filename list" where
  "rm_load_loop fs d [] acc = Inr acc"
| "rm_load_loop fs d (f # fns) (resumes, files) =
     (let path = path_join d f in
      if isfile fs path then
        (case rm_extract_text fs path of
           Inl e \<Rightarrow> Inl e
         | Inr t \<Rightarrow>
             if t \<noteq> [] then rm_load_loop fs d fns (resumes @ [t], files @ [f])
             else rm_load_loop fs d fns (resumes, files))
      else rm_load_loop fs d fns (resumes, files))"

definition rm_load_resumes :: "filesystem \<Rightarrow> io_error + string list \<times> filename list" where
  "rm_load_resumes fs =
     (if path_exists fs FOLDER then
        (case listdir fs FOLDER of
           Inl e \<Rightarrow> Inl e
         | Inr fns \<Rightarrow> rm_load_loop fs FOLDER fns ([], []))
      else Inr ([], []))"

text \<open>The text of every regular file of a listing, or the first extraction error.\<close>

fun extract_all :: "filesystem \<Rightarrow> string \<Rightarrow> filename list \<Rightarrow> io_error + (filename \<times> string) list" where
  "extract_all fs d [] = Inr []"
| "extract_all fs d (f # fns) =
     (if isfile fs (path_join d f) then
        (case extract_text fs (path_join d f) of
           Inl e \<Rightarrow> Inl e
         | Inr t \<Rightarrow> (case extract_all fs d fns of Inl e \<Rightarrow> Inl e | Inr r \<Rightarrow> Inr ((f, t) # r)))
      else extract_all fs d fns)"

text \<open>An example folder: a text resume, a two-page PDF, a sub-directory, an image.\<close>

definition example_fs :: filesystem where
  "example_fs = \<lparr>listdir = (\<lambda>d. Inr [''a.txt'', ''b.pdf'', ''notes'', ''c.png'']),
     path_exists = (\<lambda>p. True), isfile = (\<lambda>p. p \<noteq> ''input_data/notes''),
     pdf_pages = (\<lambda>p. Inr [''java backend '', ''engineer'']),
     docx_process = (\<lambda>p. Inl BadZipFile), read_utf8 = (\<lambda>p. Inr ''python developer'')\<rparr>"

text \<open>The same folder in which the PDF cannot be parsed.\<close>

definition corrupt_fs :: filesystem where
  "corrupt_fs = example_fs\<lparr>pdf_pages := (\<lambda>p. Inl PdfReadError)\<rparr>"

section \<open>The scans as filters of the listing\<close>

lemma main_load_loop_extract_all:
  "main_load_loop fs d fns (names, texts) =
     (case extract_all fs d fns of
        Inl e \<Rightarrow> Inl e
      | Inr r \<Rightarrow> Inr (names @ map fst r, texts @ map snd r))"
  by (induction fns arbitrary: names texts) (auto simp: Let_def split: sum.split)

lemma rm_load_loop_extract_all:
  "rm_load_loop fs d fns (resumes, files) =
     (case extract_all fs d fns of
        Inl e \<Rightarrow> Inl e
      | Inr r \<Rightarrow> let r' = filter (\<lambda>(f, t). t \<noteq> []) r in
                 Inr (resumes @ map snd r', files @ map fst r'))"
  by (induction fns arbitrary: resumes files)
     (auto simp: Let_def rm_extract_text_eq split: sum.split)

lemma extract_all_Inr:
  "extract_all fs d fns = Inr r \<Longrightarrow>
     map fst r = filter (\<lambda>f. isfile fs (path_join d f)) fns \<and>
     (\<forall>(f, t) \<in> set r. extract_text fs (path_join d f) = Inr t)"
  by (induction fns arbitrary: r) (auto split: if_splits sum.splits)

lemma extract_all_Inl:
  "(\<exists>e. extract_all fs d fns = Inl e) \<longleftrightarrow>
     (\<exists>f \<in> set fns. isfile fs (path_join d f) \<and> (\<exists>e. extract_text fs (path_join d f) = Inl e))"
  by (induction fns) (auto split: sum.splits)

lemma extract_all_nth:
  "extract_all fs d fns = Inr r \<Longrightarrow> i < length r \<Longrightarrow>
     extract_text fs (path_join d (fst (r ! i))) = Inr (snd (r ! i))"
  using extract_all_Inr [of fs d fns r] nth_mem [of i r] by (cases "r ! i") auto

lemma extract_all_nth_filter:
  "extract_all fs d fns = Inr r \<Longrightarrow> i < length (filter P r) \<Longrightarrow>
     extract_text fs (path_join d (fst (filter P r ! i))) = Inr (snd (filter P r ! i))"
  using extract_all_Inr [of fs d fns r] nth_mem [of i "filter P r"]
  by (cases "filter P r ! i") auto

lemma extract_all_filter_map:
  assumes "extract_all fs d fns = Inr r"
  shows "map fst (filter (\<lambda>(f, t). t \<noteq> []) r) =
         filter (\<lambda>f. isfile fs (path_join d f) \<and> extract_text fs (path_join d f) \<noteq> Inr []) fns"
  using assms
proof (induction fns arbitrary: r)
  case Nil
  then show ?case by simp
next
  case (Cons f fns)
  then show ?case by (auto split: if_splits sum.splits)
qed

lemma FOLDER_DATASET_FOLDER: "FOLDER = DATASET_FOLDER"
  by (simp add: FOLDER_def DATASET_FOLDER_def)

lemma main_load_resumes_Inr:
  "main_load_resumes fs = Inr (names, texts) \<Longrightarrow>
     \<exists>fns r. listdir fs DATASET_FOLDER = Inr fns \<and> extract_all fs DATASET_FOLDER fns = Inr r \<and>
            names = map fst r \<and> texts = map snd r"
  by (auto simp: main_load_resumes_def main_load_loop_extract_all split: sum.splits)

lemma main_load_resumes_nth:
  assumes "main_load_resumes fs = Inr (names, texts)"
  shows "length texts = length names \<and>
         (\<forall>i < length names. extract_text fs (path_join DATASET_FOLDER (names ! i)) = Inr (texts ! i))"
proof -
  obtain fns r where r: "extract_all fs DATASET_FOLDER fns = Inr r" and nt: "names = map fst r" "texts = map snd r"
    using main_load_resumes_Inr [OF assms] by blast
  then show ?thesis using extract_all_nth [OF r] by simp
qed

section \<open>Properties of the corpus builders\<close>

text \<open>
  C7. \<open>main.py\<close>'s corpus is index-aligned: when the scan succeeds, the file names are
  the regular files of the listing in listing order, there is one text per name, and
  the i-th text is the extracted text of the i-th file (empty for an unknown format).
\<close>

theorem main_corpus_aligned:
  assumes "listdir fs DATASET_FOLDER = Inr fns" "main_load_resumes fs = Inr (names, texts)"
  shows "names = filter (\<lambda>f. isfile fs (path_join DATASET_FOLDER f)) fns \<and>
         length texts = length names \<and>
         (\<forall>i < length names. extract_text fs (path_join DATASET_FOLDER (names ! i)) = Inr (texts ! i))"
proof -
  obtain r where r: "extract_all fs DATASET_FOLDER fns = Inr r"
    and nt: "names = map fst r" "texts = map snd r"
    using main_load_resumes_Inr [OF assms(2)] assms(1) by auto
  have "names = filter (\<lambda>f. isfile fs (path_join DATASET_FOLDER f)) fns"
    using nt extract_all_Inr [OF r] by simp
  moreover have "length texts = length names"
    using nt by simp
  moreover have "\<forall>i < length names.
      extract_text fs (path_join DATASET_FOLDER (names ! i)) = Inr (texts ! i)"
    using nt extract_all_nth [OF r] by simp
  ultimately show ?thesis by blast
qed

theorem main_corpus_aligned_witness:
  "main_load_resumes example_fs = Inr ([''a.txt'', ''b.pdf'', ''c.png''],
      [''python developer'', ''java backend engineer'', []]) \<and>
   extract_text example_fs (path_join DATASET_FOLDER ([''a.txt'', ''b.pdf'', ''c.png''] ! 1)) =
      Inr ([''python developer'', ''java backend engineer'', []] ! 1)"
proof -
  have ld: "listdir example_fs DATASET_FOLDER = Inr [''a.txt'', ''b.pdf'', ''notes'', ''c.png'']"
    by (simp add: example_fs_def)
  have run: "main_load_resumes example_fs = Inr ([''a.txt'', ''b.pdf'', ''c.png''],
      [''python developer'', ''java backend engineer'', []])"
    by (simp add: main_load_resumes_def example_fs_def DATASET_FOLDER_def path_join_def
        extract_text_def extract_text_from_pdf_def extract_text_from_txt_def py_endswith_def)
  have "\<forall>i < length [''a.txt'', ''b.pdf'', ''c.png''].
      extract_text example_fs (path_join DATASET_FOLDER ([''a.txt'', ''b.pdf'', ''c.png''] ! i)) =
      Inr ([''python developer'', ''java backend engineer'', []] ! i)"
    using main_corpus_aligned [OF ld run] by blast
  moreover have "1 < length [''a.txt'', ''b.pdf'', ''c.png'']" by simp
  ultimately show ?thesis using run by blast
qed

text \<open>
  C8. \<open>Resume-Match.py\<close>'s corpus holds exactly the regular files with non-empty
  extracted text, in listing order, aligned with their texts, and no text is empty.
\<close>

theorem rm_corpus_nonempty_aligned:
  assumes "path_exists fs FOLDER" "listdir fs FOLDER = Inr fns"
    and "rm_load_resumes fs = Inr (resumes, files)"
  shows "files = filter (\<lambda>f. isfile fs (path_join FOLDER f) \<and>
                           rm_extract_text fs (path_join FOLDER f) \<noteq> Inr []) fns \<and>
         length resumes = length files \<and> (\<forall>t \<in> set resumes. t \<noteq> []) \<and>
         (\<forall>i < length files. rm_extract_text fs (path_join FOLDER (files ! i)) = Inr (resumes ! i))"
proof -
  let ?P = "\<lambda>(f, t). t \<noteq> ([] :: string)"
  obtain r where r: "extract_all fs FOLDER fns = Inr r"
    and rf: "resumes = map snd (filter ?P r)" "files = map fst (filter ?P r)"
    using assms by (auto simp: rm_load_resumes_def rm_load_loop_extract_all Let_def
        split: sum.splits)
  have "files = filter (\<lambda>f. isfile fs (path_join FOLDER f) \<and>
                           rm_extract_text fs (path_join FOLDER f) \<noteq> Inr []) fns"
    using rf extract_all_filter_map [OF r] by (simp add: rm_extract_text_eq)
  moreover have "length resumes = length files"
    using rf by simp
  moreover have "\<forall>t \<in> set resumes. t \<noteq> []"
    using rf by auto
  moreover have "\<forall>i < length files. rm_extract_text fs (path_join FOLDER (files ! i)) = Inr (resumes ! i)"
    using rf extract_all_nth_filter [OF r, of _ ?P] by (simp add: rm_extract_text_eq)
  ultimately show ?thesis by blast
qed

theorem rm_corpus_nonempty_aligned_witness:
  "rm_load_resumes example_fs = Inr ([''python developer'', ''java backend engineer''],
      [''a.txt'', ''b.pdf''])"
proof -
  have "path_exists example_fs FOLDER"
    "listdir example_fs FOLDER = Inr [''a.txt'', ''b.pdf'', ''notes'', ''c.png'']"
    by (simp_all add: example_fs_def)
  moreover have run: "rm_load_resumes example_fs =
      Inr ([''python developer'', ''java backend engineer''], [''a.txt'', ''b.pdf''])"
    by (simp add: rm_load_resumes_def example_fs_def FOLDER_def path_join_def
        rm_extract_text_def py_endswith_def)
  ultimately have "length [''python developer'', ''java backend engineer''] =
      length [''a.txt'', ''b.pdf'']"
    using rm_corpus_nonempty_aligned by blast
  with run show ?thesis by simp
qed

text \<open>
  C9. An extraction error in any one regular file aborts \<open>main.py\<close>'s whole corpus
  build: there is no per-document error and no partial corpus.
\<close>

theorem main_corpus_extraction_error_aborts:
  assumes "listdir fs DATASET_FOLDER = Inr fns" "f \<in> set fns"
    and "isfile fs (path_join DATASET_FOLDER f)" "extract_text fs (path_join DATASET_FOLDER f) = Inl e"
  shows "\<exists>e'. main_load_resumes fs = Inl e'"
proof -
  have "\<exists>e'. extract_all fs DATASET_FOLDER fns = Inl e'"
    using assms(2-4) extract_all_Inl by blast
  with assms(1) show ?thesis
    by (auto simp: main_load_resumes_def main_load_loop_extract_all)
qed

theorem main_corpus_extraction_error_aborts_witness:
  "\<exists>e'. main_load_resumes corrupt_fs = Inl e'"
proof (rule main_corpus_extraction_error_aborts)
  show "listdir corrupt_fs DATASET_FOLDER = Inr [''a.txt'', ''b.pdf'', ''notes'', ''c.png'']"
    by (simp add: corrupt_fs_def example_fs_def)
  show "''b.pdf'' \<in> set [''a.txt'', ''b.pdf'', ''notes'', ''c.png'']" by simp
  show "isfile corrupt_fs (path_join DATASET_FOLDER ''b.pdf'')"
    by (simp add: corrupt_fs_def example_fs_def DATASET_FOLDER_def path_join_def)
  show "extract_text corrupt_fs (path_join DATASET_FOLDER ''b.pdf'') = Inl PdfReadError"
    by (simp add: corrupt_fs_def example_fs_def DATASET_FOLDER_def path_join_def extract_text_def
        extract_text_from_pdf_def py_endswith_def)
qed

text \<open>
  C31. The two front ends index related corpora: when the folder exists,
  \<open>Resume-Match.py\<close>'s scan succeeds exactly when \<open>main.py\<close>'s does, with the same error
  otherwise, and its corpus is \<open>main.py\<close>'s with the files of empty text removed.
\<close>

theorem rm_corpus_is_main_corpus_nonempty:
  assumes "path_exists fs FOLDER"
  shows "rm_load_resumes fs =
           (case main_load_resumes fs of
              Inl e \<Rightarrow> Inl e
            | Inr (names, texts) \<Rightarrow>
                let ps = filter (\<lambda>(f, t). t \<noteq> []) (zip names texts) in Inr (map snd ps, map fst ps))"
  using assms
  by (simp add: rm_load_resumes_def main_load_resumes_def FOLDER_DATASET_FOLDER rm_load_loop_extract_all
      main_load_loop_extract_all zip_map_fst_snd split: sum.split)

theorem rm_corpus_is_main_corpus_nonempty_witness:
  "rm_load_resumes example_fs = Inr ([''python developer'', ''java backend engineer''], [''a.txt'', ''b.pdf''])"
proof -
  have "main_load_resumes example_fs = Inr ([''a.txt'', ''b.pdf'', ''c.png''],
      [''python developer'', ''java backend engineer'', []])"
    by (simp add: main_load_resumes_def example_fs_def DATASET_FOLDER_def path_join_def
        extract_text_def extract_text_from_pdf_def extract_text_from_txt_def py_endswith_def)
  moreover have "path_exists example_fs FOLDER" by (simp add: example_fs_def)
  ultimately show ?thesis using rm_corpus_is_main_corpus_nonempty [of example_fs] by simp
qed

end
