(* ===== verification/Regex.thy ===== *)
theory Regex
  imports Prelude
begin

text \<open>
  Python's \<open>re.search\<close> for the regular expressions of the Field Extractor
  (\<open>main.py\<close> lines 38 and 42), which use character classes, literals, sequence,
  the greedy option \<open>?\<close> and greedy bounded repetition of a character class
  (\<open>+\<close>, \<open>{m,n}\<close>). \<open>rx_match r s\<close> lists the remainders of \<open>s\<close> after a match of
  \<open>r\<close> at its start in the order Python's backtracking tries them (more repetitions
  first, the option taken first); \<open>re_search\<close> takes the first remainder at the
  leftmost position where there is one, and returns the matched text
  (\<open>match.group(0)\<close>). \<open>rx_lang\<close> is the declarative language of a pattern; the
  lemmas show that \<open>re_search\<close> finds a match exactly when some substring is in the
  language, and that the match it returns is one, at the leftmost position, followed by
  the first remainder the backtracking order gives (so that a greedy repetition at the
  end of a pattern takes the whole run of its class).\<close>

datatype rx =
    Cls "char \<Rightarrow> bool"
  | Seq rx rx
  | Opt rx
  | Rep "char \<Rightarrow> bool" nat "nat option"

fun rx_match :: "rx \<Rightarrow> string \<Rightarrow> string list" where
  "rx_match (Cls P) [] = []"
| "rx_match (Cls P) (c # cs) = (if P c then [cs] else [])"
| "rx_match (Seq r1 r2) s = concat (map (rx_match r2) (rx_match r1 s))"
| "rx_match (Opt r) s = rx_match r s @ [s]"
| "rx_match (Rep P lo hi) s =
     (let k = length (takeWhile P s);
          k' = (case hi of None \<Rightarrow> k | Some h \<Rightarrow> min h k)
      in map (\<lambda>j. drop j s) (rev [lo..<Suc k']))"

fun re_search :: "rx \<Rightarrow> string \<Rightarrow> string option" where
  "re_search r [] = (case rx_match r [] of [] \<Rightarrow> None | rest # _ \<Rightarrow> Some [])"
| "re_search r (c # cs) =
     (case rx_match r (c # cs) of
        [] \<Rightarrow> re_search r cs
      | rest # _ \<Rightarrow> Some (take (length (c # cs) - length rest) (c # cs)))"

fun rx_lang :: "rx \<Rightarrow> string \<Rightarrow> bool" where
  "rx_lang (Cls P) p \<longleftrightarrow> length p = 1 \<and> P (hd p)"
| "rx_lang (Seq r1 r2) p \<longleftrightarrow> (\<exists>i \<le> length p. rx_lang r1 (take i p) \<and> rx_lang r2 (drop i p))"
| "rx_lang (Opt r) p \<longleftrightarrow> p = [] \<or> rx_lang r p"
| "rx_lang (Rep P lo hi) p \<longleftrightarrow>
     lo \<le> length p \<and> (case hi of None \<Rightarrow> True | Some h \<Rightarrow> length p \<le> h) \<and> (\<forall>c \<in> set p. P c)"

section \<open>The matcher against the language\<close>

lemma rx_lang_Seq_iff:
  "rx_lang (Seq r1 r2) p \<longleftrightarrow> (\<exists>p1 p2. p = p1 @ p2 \<and> rx_lang r1 p1 \<and> rx_lang r2 p2)"
proof
  assume "rx_lang (Seq r1 r2) p"
  then obtain i where "rx_lang r1 (take i p)" "rx_lang r2 (drop i p)" by auto
  then show "\<exists>p1 p2. p = p1 @ p2 \<and> rx_lang r1 p1 \<and> rx_lang r2 p2"
    by (metis append_take_drop_id)
next
  assume "\<exists>p1 p2. p = p1 @ p2 \<and> rx_lang r1 p1 \<and> rx_lang r2 p2"
  then obtain p1 p2 where "p = p1 @ p2" "rx_lang r1 p1" "rx_lang r2 p2" by blast
  then show "rx_lang (Seq r1 r2) p"
    by (auto intro!: exI [of _ "length p1"])
qed

lemma rx_lang_Cls_iff: "rx_lang (Cls P) p \<longleftrightarrow> (\<exists>c. p = [c] \<and> P c)"
  by (cases p) auto

lemma take_takeWhile_all:
  "j \<le> length (takeWhile P s) \<Longrightarrow> \<forall>c \<in> set (take j s). P c"
proof -
  assume "j \<le> length (takeWhile P s)"
  then have "take j s = take j (takeWhile P s)"
    by (metis append_eq_conv_conj takeWhile_dropWhile_id take_append take_eq_Nil
        diff_is_0_eq append_Nil2)
  then show ?thesis
    by (metis in_set_takeD set_takeWhileD)
qed

lemma all_prefix_takeWhile:
  "\<forall>c \<in> set p. P c \<Longrightarrow> length p \<le> length (takeWhile P (p @ rest))"
  by (induction p) auto

lemma rx_match_sound:
  "rest \<in> set (rx_match r s) \<Longrightarrow> \<exists>p. s = p @ rest \<and> rx_lang r p"
proof (induction r arbitrary: s rest)
  case (Cls P)
  then show ?case by (cases s) (auto split: if_splits)
next
  case (Seq r1 r2)
  then obtain mid where mid: "mid \<in> set (rx_match r1 s)" "rest \<in> set (rx_match r2 mid)"
    by auto
  obtain p1 where p1: "s = p1 @ mid" "rx_lang r1 p1" using Seq.IH(1) [OF mid(1)] by blast
  obtain p2 where p2: "mid = p2 @ rest" "rx_lang r2 p2" using Seq.IH(2) [OF mid(2)] by blast
  have "rx_lang (Seq r1 r2) (p1 @ p2)"
    using p1(2) p2(2) by (auto intro: exI [of _ "length p1"])
  with p1(1) p2(1) show ?case by auto
next
  case (Opt r)
  then show ?case by (auto dest: Opt.IH)
next
  case (Rep P lo hi)
  then obtain j where j: "lo \<le> j" "j \<le> (case hi of None \<Rightarrow> length (takeWhile P s)
      | Some h \<Rightarrow> min h (length (takeWhile P s)))" "rest = drop j s"
    by (auto simp: Let_def)
  then have jk: "j \<le> length (takeWhile P s)" by (cases hi) auto
  have "length (takeWhile P s) \<le> length s" by (rule length_takeWhile_le)
  with jk j have "rx_lang (Rep P lo hi) (take j s)"
    using take_takeWhile_all [OF jk] by (cases hi) auto
  with j(3) show ?case by (metis append_take_drop_id)
qed

lemma rx_match_complete:
  "rx_lang r p \<Longrightarrow> rest \<in> set (rx_match r (p @ rest))"
proof (induction r arbitrary: p rest)
  case (Cls P)
  then show ?case by (cases p) auto
next
  case (Seq r1 r2)
  then obtain i where i: "i \<le> length p" "rx_lang r1 (take i p)" "rx_lang r2 (drop i p)"
    by auto
  have "drop i p @ rest \<in> set (rx_match r1 (take i p @ (drop i p @ rest)))"
    by (rule Seq.IH(1) [OF i(2)])
  then have "drop i p @ rest \<in> set (rx_match r1 (p @ rest))"
    by (metis append_assoc append_take_drop_id)
  moreover have "rest \<in> set (rx_match r2 (drop i p @ rest))"
    by (rule Seq.IH(2) [OF i(3)])
  ultimately show ?case by auto
next
  case (Opt r)
  then show ?case by auto
next
  case (Rep P lo hi)
  then have all: "\<forall>c \<in> set p. P c" and lo: "lo \<le> length p" by simp_all
  have "length p \<le> length (takeWhile P (p @ rest))"
    by (rule all_prefix_takeWhile [OF all])
  define k' where "k' = (case hi of None \<Rightarrow> length (takeWhile P (p @ rest))
      | Some h \<Rightarrow> min h (length (takeWhile P (p @ rest))))"
  have "length p \<le> k'"
    using Rep.prems \<open>length p \<le> length (takeWhile P (p @ rest))\<close> by (cases hi) (auto simp: k'_def)
  with lo have "length p \<in> set (rev [lo..<Suc k'])" by auto
  then have mem: "drop (length p) (p @ rest) \<in> set (map (\<lambda>j. drop j (p @ rest)) (rev [lo..<Suc k']))"
    by (simp only: set_map) (rule imageI)
  have eq: "rx_match (Rep P lo hi) (p @ rest) = map (\<lambda>j. drop j (p @ rest)) (rev [lo..<Suc k'])"
    by (simp add: k'_def Let_def)
  from mem have "drop (length p) (p @ rest) \<in> set (rx_match (Rep P lo hi) (p @ rest))"
    by (simp only: eq)
  then show ?case by simp
qed

lemma rx_match_Nil_iff:
  "rx_match r s = [] \<longleftrightarrow> \<not> (\<exists>p rest. s = p @ rest \<and> rx_lang r p)"
  using rx_match_sound rx_match_complete
  by (metis empty_iff list.set(1) neq_Nil_conv list.set_intros(1))

lemma rx_match_first:
  "rx_match r s = rest # more \<Longrightarrow> \<exists>p. s = p @ rest \<and> rx_lang r p \<and> take (length s - length rest) s = p"
  using rx_match_sound [of rest r s] by auto

section \<open>Search\<close>

lemma re_search_Some:
  "re_search r s = Some m \<Longrightarrow>
     \<exists>pre post. s = pre @ m @ post \<and> rx_lang r m \<and>
       (\<forall>pre' m' post'. s = pre' @ m' @ post' \<and> rx_lang r m' \<longrightarrow> length pre \<le> length pre')"
proof (induction r s rule: re_search.induct)
  case (1 r)
  then obtain rest more where rm: "rx_match r [] = rest # more" and m: "m = []"
    by (auto split: list.splits)
  from rx_match_first [OF rm] have "rx_lang r []" by auto
  with m show ?case by auto
next
  case (2 r c cs)
  show ?case
  proof (cases "rx_match r (c # cs)")
    case Nil
    then have none: "\<not> (\<exists>p rest. c # cs = p @ rest \<and> rx_lang r p)"
      by (simp add: rx_match_Nil_iff)
    from Nil "2.prems" have "re_search r cs = Some m" by simp
    from "2.IH" [OF Nil this] obtain pre post where
      IH: "cs = pre @ m @ post" "rx_lang r m"
        "\<forall>pre' m' post'. cs = pre' @ m' @ post' \<and> rx_lang r m' \<longrightarrow> length pre \<le> length pre'"
      by blast
    have "\<forall>pre' m' post'. c # cs = pre' @ m' @ post' \<and> rx_lang r m' \<longrightarrow>
        length (c # pre) \<le> length pre'"
    proof (intro allI impI)
      fix pre' m' post' assume a: "c # cs = pre' @ m' @ post' \<and> rx_lang r m'"
      with none obtain pre'' where "pre' = c # pre''"
        by (cases pre') auto
      with a IH(3) show "length (c # pre) \<le> length pre'" by auto
    qed
    with IH(1,2) show ?thesis by (intro exI [of _ "c # pre"] exI [of _ post]) auto
  next
    case (Cons rest more)
    obtain p where p: "c # cs = p @ rest" "rx_lang r p"
        "take (length (c # cs) - length rest) (c # cs) = p"
      using rx_match_first [OF Cons] by blast
    have "re_search r (c # cs) = Some (take (length (c # cs) - length rest) (c # cs))"
      using Cons by simp
    with "2.prems" p(3) have "m = p" by simp
    with p show ?thesis by (intro exI [of _ "[]"] exI [of _ rest]) simp
  qed
qed

lemma re_search_None:
  "re_search r s = None \<longleftrightarrow> \<not> (\<exists>pre m post. s = pre @ m @ post \<and> rx_lang r m)"
proof (induction r s rule: re_search.induct)
  case (1 r)
  have "rx_match r [] = [] \<longleftrightarrow> \<not> rx_lang r []"
    by (simp add: rx_match_Nil_iff)
  then show ?case by (cases "rx_match r []") auto
next
  case (2 r c cs)
  show ?case
  proof (cases "rx_match r (c # cs)")
    case Nil
    then have none: "\<not> (\<exists>p rest. c # cs = p @ rest \<and> rx_lang r p)"
      by (simp add: rx_match_Nil_iff)
    have "(\<exists>pre m post. c # cs = pre @ m @ post \<and> rx_lang r m) \<longleftrightarrow>
          (\<exists>pre m post. cs = pre @ m @ post \<and> rx_lang r m)"
    proof
      assume "\<exists>pre m post. c # cs = pre @ m @ post \<and> rx_lang r m"
      then obtain pre m post where a: "c # cs = pre @ m @ post" "rx_lang r m" by blast
      with none obtain pre' where "pre = c # pre'" by (cases pre) auto
      with a show "\<exists>pre m post. cs = pre @ m @ post \<and> rx_lang r m" by auto
    next
      assume "\<exists>pre m post. cs = pre @ m @ post \<and> rx_lang r m"
      then show "\<exists>pre m post. c # cs = pre @ m @ post \<and> rx_lang r m"
        by (metis append_Cons)
    qed
    with Nil "2.IH" show ?thesis by simp
  next
    case (Cons rest more)
    then obtain p where "c # cs = p @ rest" "rx_lang r p"
      using rx_match_sound [of rest r "c # cs"] by auto
    then have "\<exists>pre m post. c # cs = pre @ m @ post \<and> rx_lang r m"
      by (metis append_Nil)
    moreover have "re_search r (c # cs) \<noteq> None" using Cons by simp
    ultimately show ?thesis by blast
  qed
qed

section \<open>The first remainder\<close>

lemma concat_map_Cons:
  "concat (map f xs) = y # ys \<Longrightarrow> \<exists>x zs. f x = y # zs"
  by (induction xs) (auto simp: append_eq_Cons_conv)

lemma rx_match_Seq_first:
  "rx_match (Seq r1 r2) s = rest # more \<Longrightarrow> \<exists>s' more'. rx_match r2 s' = rest # more'"
  by (auto dest: concat_map_Cons)

text \<open>A greedy unbounded repetition first tries the whole run of its class.\<close>

lemma rx_match_Rep_None_first:
  "rx_match (Rep P lo None) s = rest # more \<Longrightarrow> rest = dropWhile P s"
  by (cases "lo \<le> length (takeWhile P s)") (auto simp: dropWhile_eq_drop Let_def)

text \<open>No match starts inside a prefix of characters at which none can start.\<close>

lemma re_search_skip:
  "(\<And>c rest. c \<in> set pre \<Longrightarrow> rx_match r (c # rest) = []) \<Longrightarrow> re_search r (pre @ s) = re_search r s"
  by (induction pre) auto

text \<open>The match is the text between its position and the first remainder there.\<close>

lemma re_search_at:
  "re_search r s = Some m \<Longrightarrow> \<exists>pre rest more. s = pre @ m @ rest \<and> rx_match r (m @ rest) = rest # more"
proof (induction r s rule: re_search.induct)
  case (1 r)
  then obtain rest more where rm: "rx_match r [] = rest # more" and m: "m = []"
    by (auto split: list.splits)
  from rx_match_first [OF rm] have "rest = []" by auto
  with rm m show ?case by auto
next
  case (2 r c cs)
  show ?case
  proof (cases "rx_match r (c # cs)")
    case Nil
    with "2.prems" "2.IH" obtain pre rest more where
      "cs = pre @ m @ rest" "rx_match r (m @ rest) = rest # more"
      by auto
    then have "c # cs = (c # pre) @ m @ rest" by simp
    with \<open>rx_match r (m @ rest) = rest # more\<close> show ?thesis by blast
  next
    case (Cons rest more)
    obtain p where p: "c # cs = p @ rest" "take (length (c # cs) - length rest) (c # cs) = p"
      using rx_match_first [OF Cons] by blast
    have "re_search r (c # cs) = Some (take (length (c # cs) - length rest) (c # cs))"
      using Cons by simp
    with "2.prems" p(2) have "m = p" by simp
    with p(1) Cons have "c # cs = [] @ m @ rest \<and> rx_match r (m @ rest) = rest # more" by simp
    then show ?thesis by blast
  qed
qed

end
