(* ===== verification/FieldExtractor.thy ===== *)
theory FieldExtractor
  imports Regex
begin

text \<open>
  The Field Extractor, \<open>parse_resume_spacy\<close> of \<open>main.py\<close> (lines 19--52). The spaCy
  pipeline \<open>nlp(text)\<close> is an interface: a function from the text to its named
  entities (text and label, in discovery order) and its tokens, since the language
  model is outside the repository. The name is the first entity labelled
  \<open>PERSON\<close>; email and phone are the \<open>re.search\<close> matches of the two patterns
  (theory \<open>Regex\<close>); the skills are the set of lower-cased tokens that are entries of
  \<open>SKILL_SET\<close>. The Python list \<open>list(found_skills)\<close> has the set's iteration order,
  which the language leaves open; the model keeps the set.
\<close>

definition SKILL_SET :: "string list" where
  "SKILL_SET = [''python'', ''java'', ''c++'', ''unity'', ''streamlit'', ''opencv'',
                ''react'', ''firebase'', ''git'', ''machine learning'', ''nlp'']"

text \<open>\<open>[\w\.-]\<close> and \<open>[\d -]\<close>.\<close>

definition email_char :: "char \<Rightarrow> bool" where
  "email_char c \<longleftrightarrow> is_word_char c \<or> c = CHR ''.'' \<or> c = CHR ''-''"

definition phone_char :: "char \<Rightarrow> bool" where
  "phone_char c \<longleftrightarrow> is_digit c \<or> c = CHR '' '' \<or> c = CHR ''-''"

text \<open>\<open>[\w\.-]+@[\w\.-]+\<close> (line 38).\<close>

definition EMAIL_RE :: rx where
  "EMAIL_RE = Seq (Rep email_char 1 None) (Seq (Cls (\<lambda>c. c = CHR ''@'')) (Rep email_char 1 None))"

text \<open>\<open>\+?\d[\d -]{8,13}\d\<close> (line 42).\<close>

definition PHONE_RE :: rx where
  "PHONE_RE = Seq (Opt (Cls (\<lambda>c. c = CHR ''+'')))
                  (Seq (Cls is_digit) (Seq (Rep phone_char 8 (Some 13)) (Cls is_digit)))"

record nlp_doc =
  doc_ents :: "(string \<times> string) list"
  doc_tokens :: "string list"

record parsed_resume =
  pr_name :: "string option"
  pr_email :: "string option"
  pr_phone :: "string option"
  pr_skills :: "string set"

text \<open>Lines 30--34: the loop over \<open>doc.ents\<close> that stops at the first \<open>PERSON\<close>.\<close>

fun first_person :: "(string \<times> string) list \<Rightarrow> string option" where
  "first_person [] = None"
| "first_person ((t, l) # es) = (if l = ''PERSON'' then Some t else first_person es)"

text \<open>Lines 46--49: the loop over the tokens that fills \<open>found_skills\<close>.\<close>

fun collect_skills :: "string list \<Rightarrow> string set \<Rightarrow> string set" where
  "collect_skills [] acc = acc"
| "collect_skills (t # ts) acc =
     collect_skills ts (if py_lower t \<in> set SKILL_SET then insert (py_lower t) acc else acc)"

definition parse_resume_spacy :: "(string \<Rightarrow> nlp_doc) \<Rightarrow> string \<Rightarrow> parsed_resume" where
  "parse_resume_spacy nlp text =
     (let doc = nlp text
      in \<lparr>pr_name = first_person (doc_ents doc),
          pr_email = re_search EMAIL_RE text,
          pr_phone = re_search PHONE_RE text,
          pr_skills = collect_skills (doc_tokens doc) {}\<rparr>)"

text \<open>A pipeline that finds no entity and no token, for the examples.\<close>

definition no_nlp :: "string \<Rightarrow> nlp_doc" where
  "no_nlp text = \<lparr>doc_ents = [], doc_tokens = []\<rparr>"

section \<open>The languages of the two patterns\<close>

lemma rx_lang_Rep_None_iff:
  "rx_lang (Rep P 1 None) p \<longleftrightarrow> p \<noteq> [] \<and> (\<forall>c \<in> set p. P c)"
  by (cases p) auto

lemma rx_lang_EMAIL_RE:
  "rx_lang EMAIL_RE m \<longleftrightarrow>
     (\<exists>l d. m = l @ ''@'' @ d \<and> l \<noteq> [] \<and> d \<noteq> [] \<and>
            (\<forall>c \<in> set l. email_char c) \<and> (\<forall>c \<in> set d. email_char c))"
  unfolding EMAIL_RE_def rx_lang_Seq_iff rx_lang_Cls_iff rx_lang_Rep_None_iff
  by auto

lemma rx_lang_Rep_Some_iff:
  "rx_lang (Rep P lo (Some h)) p \<longleftrightarrow> lo \<le> length p \<and> length p \<le> h \<and> (\<forall>c \<in> set p. P c)"
  by simp

lemma rx_lang_Opt_Cls_iff:
  "rx_lang (Opt (Cls P)) p \<longleftrightarrow> p = [] \<or> (\<exists>c. p = [c] \<and> P c)"
  by (simp only: rx_lang.simps(3) rx_lang_Cls_iff)

lemma rx_lang_PHONE_RE:
  "rx_lang PHONE_RE m \<longleftrightarrow>
     (\<exists>pl d1 mid d2. m = pl @ d1 # mid @ [d2] \<and> (pl = [] \<or> pl = ''+'') \<and>
        is_digit d1 \<and> is_digit d2 \<and> 8 \<le> length mid \<and> length mid \<le> 13 \<and>
        (\<forall>c \<in> set mid. phone_char c))"
    (is "?L \<longleftrightarrow> ?R")
proof
  assume ?L
  then obtain pl q d1 r mid d2 where
    "m = pl @ q" "pl = [] \<or> (\<exists>c. pl = [c] \<and> c = CHR ''+'')" "q = [d1] @ r" "is_digit d1"
    "r = mid @ [d2]" "8 \<le> length mid" "length mid \<le> 13" "\<forall>c \<in> set mid. phone_char c"
    "is_digit d2"
    unfolding PHONE_RE_def rx_lang_Seq_iff rx_lang_Opt_Cls_iff rx_lang_Cls_iff rx_lang_Rep_Some_iff
    by blast
  then show ?R by (intro exI [of _ pl] exI [of _ d1] exI [of _ mid] exI [of _ d2]) auto
next
  assume ?R
  then obtain pl d1 mid d2 where r: "m = pl @ d1 # mid @ [d2]" "pl = [] \<or> pl = ''+''"
      "is_digit d1" "is_digit d2" "8 \<le> length mid" "length mid \<le> 13" "\<forall>c \<in> set mid. phone_char c"
    by blast
  have "rx_lang (Seq (Rep phone_char 8 (Some 13)) (Cls is_digit)) (mid @ [d2])"
    unfolding rx_lang_Seq_iff rx_lang_Cls_iff rx_lang_Rep_Some_iff using r by blast
  then have "rx_lang (Seq (Cls is_digit) (Seq (Rep phone_char 8 (Some 13)) (Cls is_digit))) ([d1] @ mid @ [d2])"
    unfolding rx_lang_Seq_iff [of "Cls is_digit"] rx_lang_Cls_iff using r by blast
  moreover have "rx_lang (Opt (Cls (\<lambda>c. c = CHR ''+''))) pl"
    using r(2) by (auto simp: rx_lang_Opt_Cls_iff)
  ultimately show ?L
    unfolding PHONE_RE_def rx_lang_Seq_iff [of "Opt _"] using r(1) by fastforce
qed

lemma first_person_Some_iff:
  "first_person es = Some n \<longleftrightarrow>
     (\<exists>pre post. es = pre @ (n, ''PERSON'') # post \<and> (\<forall>(t, l) \<in> set pre. l \<noteq> ''PERSON''))"
proof (induction es rule: first_person.induct)
  case 1
  then show ?case by simp
next
  case (2 t l es)
  show ?case
  proof (cases "l = ''PERSON''")
    case True
    show ?thesis
    proof
      assume "first_person ((t, l) # es) = Some n"
      with True have "(t, l) # es = [] @ (n, ''PERSON'') # es \<and>
          (\<forall>(t, l) \<in> set ([] :: (string \<times> string) list). l \<noteq> ''PERSON'')" by simp
      then show "\<exists>pre post. (t, l) # es = pre @ (n, ''PERSON'') # post \<and>
          (\<forall>(t, l) \<in> set pre. l \<noteq> ''PERSON'')" by blast
    next
      assume "\<exists>pre post. (t, l) # es = pre @ (n, ''PERSON'') # post \<and>
          (\<forall>(t, l) \<in> set pre. l \<noteq> ''PERSON'')"
      then obtain pre post where pp: "(t, l) # es = pre @ (n, ''PERSON'') # post"
          "\<forall>(t, l) \<in> set pre. l \<noteq> ''PERSON''" by blast
      with True have "pre = []" by (cases pre) auto
      with pp True show "first_person ((t, l) # es) = Some n" by simp
    qed
  next
    case False
    show ?thesis
    proof
      assume "first_person ((t, l) # es) = Some n"
      with False "2.IH" obtain pre post where "es = pre @ (n, ''PERSON'') # post"
          "\<forall>(t, l) \<in> set pre. l \<noteq> ''PERSON''" by auto
      with False have "(t, l) # es = ((t, l) # pre) @ (n, ''PERSON'') # post \<and>
          (\<forall>(t, l) \<in> set ((t, l) # pre). l \<noteq> ''PERSON'')" by auto
      then show "\<exists>pre post. (t, l) # es = pre @ (n, ''PERSON'') # post \<and>
          (\<forall>(t, l) \<in> set pre. l \<noteq> ''PERSON'')" by blast
    next
      assume "\<exists>pre post. (t, l) # es = pre @ (n, ''PERSON'') # post \<and>
          (\<forall>(t, l) \<in> set pre. l \<noteq> ''PERSON'')"
      then obtain pre post where pp: "(t, l) # es = pre @ (n, ''PERSON'') # post"
          "\<forall>(t, l) \<in> set pre. l \<noteq> ''PERSON''" by blast
      with False obtain pre' where "pre = (t, l) # pre'" by (cases pre) auto
      with pp have "es = pre' @ (n, ''PERSON'') # post" "\<forall>(t, l) \<in> set pre'. l \<noteq> ''PERSON''"
        by auto
      with False "2.IH" show "first_person ((t, l) # es) = Some n" by auto
    qed
  qed
qed

lemma collect_skills_eq:
  "collect_skills ts acc = acc \<union> (py_lower ` set ts \<inter> set SKILL_SET)"
  by (induction ts arbitrary: acc) auto

lemma parse_resume_spacy_fields:
  "pr_name (parse_resume_spacy nlp txt) = first_person (doc_ents (nlp txt)) \<and>
   pr_email (parse_resume_spacy nlp txt) = re_search EMAIL_RE txt \<and>
   pr_phone (parse_resume_spacy nlp txt) = re_search PHONE_RE txt \<and>
   pr_skills (parse_resume_spacy nlp txt) = py_lower ` set (doc_tokens (nlp txt)) \<inter> set SKILL_SET"
  by (simp add: parse_resume_spacy_def Let_def collect_skills_eq)

lemmas regex_eval = EMAIL_RE_def PHONE_RE_def email_char_def phone_char_def char_class_defs

section \<open>Where the matches start and end\<close>

text \<open>The e-mail pattern ends in a greedy \<open>[\w\.-]+\<close>: its first remainder does not
  start with a character of that class.\<close>

lemma EMAIL_RE_first_rest:
  "rx_match EMAIL_RE s = rest # ms \<Longrightarrow> rest = [] \<or> \<not> email_char (hd rest)"
proof -
  assume "rx_match EMAIL_RE s = rest # ms"
  then obtain s1 m1 where "rx_match (Seq (Cls (\<lambda>c. c = CHR ''@'')) (Rep email_char 1 None)) s1 = rest # m1"
    unfolding EMAIL_RE_def by (blast dest: rx_match_Seq_first)
  then obtain s2 m2 where "rx_match (Rep email_char 1 None) s2 = rest # m2"
    by (blast dest: rx_match_Seq_first)
  then have "rest = dropWhile email_char s2" by (rule rx_match_Rep_None_first)
  then show ?thesis using hd_dropWhile [of email_char s2] by auto
qed

text \<open>A phone number starts with a digit or \<open>+\<close>.\<close>

lemma PHONE_RE_no_start:
  "\<not> is_digit c \<Longrightarrow> c \<noteq> CHR ''+'' \<Longrightarrow> rx_match PHONE_RE (c # rest) = []"
  by (simp add: PHONE_RE_def)

lemma digit_not_plus: "is_digit c \<Longrightarrow> c \<noteq> CHR ''+''"
  by (auto simp: is_digit_def)

text \<open>At a year range \<open>YYYY - YYYY\<close> the repetition \<open>[\d -]{8,13}\<close> first takes the ten
  characters after the first digit, fails on the final \<open>\d\<close>, and backtracks by one.\<close>

lemma PHONE_RE_year_range:
  assumes "is_digit a1" "is_digit a2" "is_digit a3" "is_digit a4"
    "is_digit b1" "is_digit b2" "is_digit b3" "is_digit b4"
    "post = [] \<or> \<not> phone_char (hd post)"
  shows "rx_match PHONE_RE ([a1, a2, a3, a4] @ '' - '' @ [b1, b2, b3, b4] @ post) = [post, b4 # post]"
proof -
  have tw: "takeWhile phone_char post = []" and nd: "rx_match (Cls is_digit) post = []"
    using assms(9) by (cases post; simp add: phone_char_def)+
  show ?thesis
    using assms(1-8) tw nd
    by (simp add: PHONE_RE_def phone_char_def digit_not_plus numeral_eq_Suc upt_rec)
qed

section \<open>Properties of the Field Extractor\<close>

text \<open>
  C10. The extracted email is a substring of the txt of the form \<open>local@domain\<close> with
  both parts non-empty runs of word characters, dots and hyphens, and it starts at the
  leftmost position where such a substring starts.
\<close>

theorem email_extraction_sound:
  assumes "pr_email (parse_resume_spacy nlp txt) = Some m"
  shows "(\<exists>l d. m = l @ ''@'' @ d \<and> l \<noteq> [] \<and> d \<noteq> [] \<and>
            (\<forall>c \<in> set l. email_char c) \<and> (\<forall>c \<in> set d. email_char c)) \<and>
         (\<exists>pre post. txt = pre @ m @ post \<and>
            (\<forall>pre' m' post'. txt = pre' @ m' @ post' \<and> rx_lang EMAIL_RE m' \<longrightarrow>
               length pre \<le> length pre'))"
proof -
  have "re_search EMAIL_RE txt = Some m"
    using assms by (simp add: parse_resume_spacy_fields)
  from re_search_Some [OF this] obtain pre post where
    sub: "txt = pre @ m @ post" and l: "rx_lang EMAIL_RE m"
      and left: "\<forall>pre' m' post'. txt = pre' @ m' @ post' \<and> rx_lang EMAIL_RE m' \<longrightarrow>
               length pre \<le> length pre'"
    by blast
  from l have "\<exists>l d. m = l @ ''@'' @ d \<and> l \<noteq> [] \<and> d \<noteq> [] \<and>
      (\<forall>c \<in> set l. email_char c) \<and> (\<forall>c \<in> set d. email_char c)"
    by (simp only: rx_lang_EMAIL_RE)
  with sub left show ?thesis by blast
qed

theorem email_extraction_sound_witness:
  "pr_email (parse_resume_spacy no_nlp ''Contact: jane.doe@example.com'') = Some ''jane.doe@example.com'' \<and>
   (\<exists>pre post. ''Contact: jane.doe@example.com'' = pre @ ''jane.doe@example.com'' @ post)"
proof -
  have e: "pr_email (parse_resume_spacy no_nlp ''Contact: jane.doe@example.com'') = Some ''jane.doe@example.com''"
    by (simp add: parse_resume_spacy_fields regex_eval)
  from email_extraction_sound [OF e] e show ?thesis by blast
qed

text \<open>
  C11. No email is extracted exactly when the txt has no substring of the form
  \<open>local@domain\<close> (both parts non-empty runs of word characters, dots and hyphens).
\<close>

theorem email_none_iff:
  "pr_email (parse_resume_spacy nlp txt) = None \<longleftrightarrow>
   \<not> (\<exists>pre l d post. txt = pre @ (l @ ''@'' @ d) @ post \<and> l \<noteq> [] \<and> d \<noteq> [] \<and>
        (\<forall>c \<in> set l. email_char c) \<and> (\<forall>c \<in> set d. email_char c))"
proof -
  have "pr_email (parse_resume_spacy nlp txt) = None \<longleftrightarrow>
        \<not> (\<exists>pre m post. txt = pre @ m @ post \<and> rx_lang EMAIL_RE m)"
    by (simp add: parse_resume_spacy_fields re_search_None)
  also have "\<dots> \<longleftrightarrow> \<not> (\<exists>pre l d post. txt = pre @ (l @ ''@'' @ d) @ post \<and> l \<noteq> [] \<and> d \<noteq> [] \<and>
        (\<forall>c \<in> set l. email_char c) \<and> (\<forall>c \<in> set d. email_char c))"
    unfolding rx_lang_EMAIL_RE by blast
  finally show ?thesis .
qed

theorem email_none_iff_witness:
  "pr_email (parse_resume_spacy no_nlp ''Jane Doe, Berlin'') = None"
proof -
  have "re_search EMAIL_RE ''Jane Doe, Berlin'' = None"
    by (simp add: regex_eval)
  then show ?thesis
    using email_none_iff [of no_nlp "''Jane Doe, Berlin''"] by (simp add: parse_resume_spacy_fields)
qed

text \<open>
  C12. The extracted phone number is a substring of the txt, 10 to 16 characters long,
  made of an optional leading \<open>+\<close>, a digit, 8 to 13 digits, spaces or hyphens, and a
  final digit.
\<close>

theorem phone_extraction_shape:
  assumes "pr_phone (parse_resume_spacy nlp txt) = Some m"
  shows "(\<exists>pre post. txt = pre @ m @ post) \<and> 10 \<le> length m \<and> length m \<le> 16 \<and>
         is_digit (last m) \<and> (\<forall>c \<in> set m. phone_char c \<or> c = CHR ''+'')"
proof -
  have "re_search PHONE_RE txt = Some m"
    using assms by (simp add: parse_resume_spacy_fields)
  from re_search_Some [OF this] obtain pre post where sub: "txt = pre @ m @ post"
      and l: "rx_lang PHONE_RE m"
    by blast
  from l obtain pl d1 mid d2 where m: "m = pl @ d1 # mid @ [d2]" "pl = [] \<or> pl = ''+''"
      "is_digit d1" "is_digit d2" "8 \<le> length mid" "length mid \<le> 13" "\<forall>c \<in> set mid. phone_char c"
    unfolding rx_lang_PHONE_RE by blast
  then have "10 \<le> length m \<and> length m \<le> 16" by auto
  moreover have "\<forall>c \<in> set m. phone_char c \<or> c = CHR ''+''"
    using m by (auto simp: phone_char_def)
  ultimately show ?thesis using sub m by auto
qed

theorem phone_extraction_shape_witness:
  "pr_phone (parse_resume_spacy no_nlp ''Tel +91 98765-43210.'') = Some ''+91 98765-43210'' \<and>
   10 \<le> length ''+91 98765-43210''"
proof -
  have p: "pr_phone (parse_resume_spacy no_nlp ''Tel +91 98765-43210.'') = Some ''+91 98765-43210''"
    by (simp add: parse_resume_spacy_fields regex_eval)
  from phone_extraction_shape [OF p] p show ?thesis by blast
qed

text \<open>
  C13. The phone pattern only requires digits at its two ends: in a resume whose text
  before a year range \<open>YYYY - YYYY\<close> has no digit and no \<open>+\<close>, and where the range is
  not followed by a digit, space or hyphen, the year range is extracted as the phone
  number.
\<close>

theorem phone_matches_year_range:
  assumes "\<forall>c \<in> set pre. \<not> is_digit c \<and> c \<noteq> CHR ''+''"
    and "length y1 = 4" "length y2 = 4" "\<forall>c \<in> set (y1 @ y2). is_digit c"
    and "post = [] \<or> \<not> phone_char (hd post)"
  shows "pr_phone (parse_resume_spacy nlp (pre @ y1 @ '' - '' @ y2 @ post)) = Some (y1 @ '' - '' @ y2)"
proof -
  obtain a1 a2 a3 a4 where y1: "y1 = [a1, a2, a3, a4]"
    using assms(2) by (auto simp: length_Suc_conv eval_nat_numeral)
  obtain b1 b2 b3 b4 where y2: "y2 = [b1, b2, b3, b4]"
    using assms(3) by (auto simp: length_Suc_conv eval_nat_numeral)
  have skip: "re_search PHONE_RE (pre @ y1 @ '' - '' @ y2 @ post) = re_search PHONE_RE (y1 @ '' - '' @ y2 @ post)"
    by (rule re_search_skip, rule PHONE_RE_no_start) (use assms(1) in auto)
  have "rx_match PHONE_RE (y1 @ '' - '' @ y2 @ post) = [post, b4 # post]"
    unfolding y1 y2 by (rule PHONE_RE_year_range) (use assms(4,5) y1 y2 in simp_all)
  then have "re_search PHONE_RE (y1 @ '' - '' @ y2 @ post) = Some (y1 @ '' - '' @ y2)"
    by (simp add: y1 y2)
  with skip show ?thesis by (simp add: parse_resume_spacy_fields)
qed

theorem phone_matches_year_range_witness:
  "pr_phone (parse_resume_spacy no_nlp ''Software engineer, 2019 - 2023, Acme'') = Some ''2019 - 2023''"
  using phone_matches_year_range [of "''Software engineer, ''" "''2019''" "''2023''" "'', Acme''" no_nlp]
  by (simp add: regex_eval)

text \<open>
  C14. The extracted name is the text of the first entity labelled \<open>PERSON\<close> in the
  order the entity recogniser reports them, and there is none exactly when no entity
  has that label.
\<close>

theorem name_is_first_person:
  "(pr_name (parse_resume_spacy nlp txt) = Some n \<longleftrightarrow>
     (\<exists>pre post. doc_ents (nlp txt) = pre @ (n, ''PERSON'') # post \<and>
                (\<forall>(t, l) \<in> set pre. l \<noteq> ''PERSON''))) \<and>
   (pr_name (parse_resume_spacy nlp txt) = None \<longleftrightarrow>
     (\<forall>(t, l) \<in> set (doc_ents (nlp txt)). l \<noteq> ''PERSON''))"
proof -
  have "first_person es = None \<longleftrightarrow> (\<forall>(t, l) \<in> set es. l \<noteq> ''PERSON'')" for es
    by (induction es rule: first_person.induct) auto
  then show ?thesis
    by (simp add: parse_resume_spacy_fields first_person_Some_iff)
qed

theorem name_is_first_person_witness:
  "pr_name (parse_resume_spacy
     (\<lambda>t. \<lparr>doc_ents = [(''Acme'', ''ORG''), (''Jane Doe'', ''PERSON''), (''John'', ''PERSON'')],
           doc_tokens = []\<rparr>) ''cv'') = Some ''Jane Doe''"
proof -
  let ?nlp = "\<lambda>t::string. \<lparr>doc_ents = [(''Acme'', ''ORG''), (''Jane Doe'', ''PERSON''), (''John'', ''PERSON'')],
           doc_tokens = ([] :: string list)\<rparr>"
  have "doc_ents (?nlp ''cv'') = [(''Acme'', ''ORG'')] @ (''Jane Doe'', ''PERSON'') # [(''John'', ''PERSON'')] \<and>
        (\<forall>(t, l) \<in> set [(''Acme'', ''ORG'')]. l \<noteq> ''PERSON'')"
    by simp
  then show ?thesis using name_is_first_person [of ?nlp "''cv''" "''Jane Doe''"] by blast
qed

text \<open>
  C15. The extracted skills are exactly the lower-cased tokens that are entries of
  \<open>SKILL_SET\<close>: no stemming, no fuzzy matching, each skill once.
\<close>

theorem skills_exact:
  "pr_skills (parse_resume_spacy nlp txt) = py_lower ` set (doc_tokens (nlp txt)) \<inter> set SKILL_SET"
  by (simp add: parse_resume_spacy_fields)

text \<open>
  C16. The extracted e-mail address is never cut short: the character after it in the
  text, if any, is not a word character, dot or hyphen, since the domain part
  \<open>[\w\.-]+\<close> is greedy.
\<close>

theorem email_extraction_maximal:
  assumes "pr_email (parse_resume_spacy nlp txt) = Some m"
  shows "\<exists>pre post. txt = pre @ m @ post \<and> (post = [] \<or> \<not> email_char (hd post))"
proof -
  from assms have "re_search EMAIL_RE txt = Some m" by (simp add: parse_resume_spacy_fields)
  then obtain pre rest ms where "txt = pre @ m @ rest" "rx_match EMAIL_RE (m @ rest) = rest # ms"
    by (blast dest: re_search_at)
  then show ?thesis by (blast dest: EMAIL_RE_first_rest)
qed

theorem email_extraction_maximal_witness:
  "pr_email (parse_resume_spacy no_nlp ''Mail: jane.doe@mail.example.com, tel'') = Some ''jane.doe@mail.example.com'' \<and>
   (\<exists>pre post. ''Mail: jane.doe@mail.example.com, tel'' = pre @ ''jane.doe@mail.example.com'' @ post \<and>
      (post = [] \<or> \<not> email_char (hd post)))"
proof
  show e: "pr_email (parse_resume_spacy no_nlp ''Mail: jane.doe@mail.example.com, tel'') = Some ''jane.doe@mail.example.com''"
    by (simp add: parse_resume_spacy_fields regex_eval)
  show "\<exists>pre post. ''Mail: jane.doe@mail.example.com, tel'' = pre @ ''jane.doe@mail.example.com'' @ post \<and>
      (post = [] \<or> \<not> email_char (hd post))"
    by (rule email_extraction_maximal [OF e])
qed

end
