(* ===== verification/App.thy ===== *)
theory App
  imports Matcher Corpus FieldExtractor
begin

text \<open>
  The Flask application of \<open>main.py\<close>. Module loading (lines 81--91) scans the folder,
  fits the vectorizer once and transforms the corpus; the result is the immutable
  context \<open>flask_ctx\<close> every request reads (the module-level globals
  \<open>resume_filenames\<close>, \<open>resume_texts\<close>, \<open>vectorizer\<close>, \<open>resume_vectors\<close>). An
  exception during loading stops the application: \<open>startup_error\<close>. The route
  \<open>matcher()\<close> (lines 98--127) reads the form field, rejects a blank job description,
  and otherwise returns the five best rows with their parsed fields. Rendering the
  template is not modelled: the response is the message and the rows passed to it. A
  missing form field is Flask's \<open>400 Bad Request\<close>. The URL dispatch of the two
  routes (lines 94--99) is \<open>flask_app\<close> over a request record.
\<close>

record flask_ctx =
  resume_filenames :: "filename list"
  resume_texts :: "string list"
  vectorizer :: tfidf_model
  resume_vectors :: "vec list"

datatype startup_error = LoadError io_error | FitError fit_error

text \<open>Lines 81--91: the corpus, then \<open>TfidfVectorizer().fit(resume_texts)\<close> and
  \<open>vectorizer.transform(resume_texts)\<close>.\<close>

definition flask_startup :: "filesystem \<Rightarrow> startup_error + flask_ctx" where
  "flask_startup fs =
     (case main_load_resumes fs of
        Inl e \<Rightarrow> Inl (LoadError e)
      | Inr (names, texts) \<Rightarrow>
          (case fit [] texts of
             Inl e \<Rightarrow> Inl (FitError e)
           | Inr m \<Rightarrow> Inr \<lparr>resume_filenames = names, resume_texts = texts,
                           vectorizer = m, resume_vectors = map (transform m) texts\<rparr>))"

record match_row =
  mr_filename :: filename
  mr_score :: int
  mr_name :: "string option"
  mr_email :: "string option"
  mr_phone :: "string option"
  mr_skills :: "string set"

datatype flask_response =
    BadRequest
  | Home
  | Prompt string
  | Results string "match_row list"

text \<open>Lines 114--123: one row per top index.\<close>

definition match_rows ::
  "(string \<Rightarrow> nlp_doc) \<Rightarrow> flask_ctx \<Rightarrow> real list \<Rightarrow> nat list \<Rightarrow> match_row list" where
  "match_rows nlp ctx sims idx =
     map (\<lambda>i. let parsed = parse_resume_spacy nlp (resume_texts ctx ! i)
               in \<lparr>mr_filename = resume_filenames ctx ! i, mr_score = py_round (sims ! i * 100),
                   mr_name = pr_name parsed, mr_email = pr_email parsed,
                   mr_phone = pr_phone parsed, mr_skills = pr_skills parsed\<rparr>) idx"

text \<open>Lines 98--127, with the form as a partial map from field names to values.\<close>

definition flask_matcher ::
  "(string \<Rightarrow> nlp_doc) \<Rightarrow> flask_ctx \<Rightarrow> (string \<Rightarrow> string option) \<Rightarrow> flask_response" where
  "flask_matcher nlp ctx form =
     (case form ''job_description'' of
        None \<Rightarrow> BadRequest
      | Some job_desc \<Rightarrow>
          if py_strip job_desc = [] then Prompt ''Please enter a job description.''
          else
            (let sims = flask_similarities (vectorizer ctx) (resume_vectors ctx) job_desc;
                 top = flask_top_indices sims
             in Results ''Top matching resumes from dataset:'' (match_rows nlp ctx sims top)))"

text \<open>The routes of lines 94--99 and the route \<open>/static/<path:filename>\<close> that
  \<open>Flask(__name__)\<close> (line 10) adds for the package's \<open>static\<close> folder. \<open>home()\<close>
  renders the bare page for \<open>GET /\<close>, \<open>matcher()\<close> answers \<open>POST /matcher\<close>. Flask
  adds \<open>HEAD\<close> to every route that accepts \<open>GET\<close> (the view runs and the body is
  dropped) and answers \<open>OPTIONS\<close> itself with the route's methods; it answers 405 for
  another method of a known path and 404 for an unknown path. The repository ships no
  \<open>static\<close> folder next to \<open>main.py\<close>, so every static file is missing (404).\<close>

datatype http_method = GET | HEAD | POST | PUT | DELETE | PATCH | OPTIONS

record http_request =
  req_path :: string
  req_method :: http_method
  req_form :: "string \<Rightarrow> string option"

datatype http_response = HttpOk flask_response | HttpOptions "http_method list"
  | HttpNotFound | HttpMethodNotAllowed

text \<open>Werkzeug's dispatch for a route with the given methods: \<open>HEAD\<close> with \<open>GET\<close>,
  \<open>OPTIONS\<close> always.\<close>

definition route_dispatch :: "http_method list \<Rightarrow> http_method \<Rightarrow> (unit \<Rightarrow> http_response) \<Rightarrow> http_response" where
  "route_dispatch ms m view =
     (let allowed = ms @ (if GET \<in> set ms then [HEAD] else []) @ [OPTIONS]
      in if m = OPTIONS then HttpOptions allowed
         else if m \<in> set allowed then view ()
         else HttpMethodNotAllowed)"

definition flask_app :: "(string \<Rightarrow> nlp_doc) \<Rightarrow> flask_ctx \<Rightarrow> http_request \<Rightarrow> http_response" where
  "flask_app nlp ctx req =
     (if req_path req = ''/'' then
        route_dispatch [GET] (req_method req) (\<lambda>_. HttpOk Home)
      else if req_path req = ''/matcher'' then
        route_dispatch [POST] (req_method req) (\<lambda>_. HttpOk (flask_matcher nlp ctx (req_form req)))
      else if take 8 (req_path req) = ''/static/'' \<and> drop 8 (req_path req) \<noteq> [] then
        route_dispatch [GET] (req_method req) (\<lambda>_. HttpNotFound)
      else HttpNotFound)"

definition ctx_ok :: "flask_ctx \<Rightarrow> bool" where
  "ctx_ok ctx \<longleftrightarrow>
     wf_model (vectorizer ctx) \<and> stop_words (vectorizer ctx) = [] \<and>
     length (resume_texts ctx) = length (resume_filenames ctx) \<and>
     resume_vectors ctx = map (transform (vectorizer ctx)) (resume_texts ctx)"

text \<open>The context \<open>main.py\<close> builds from the example folder of theory \<open>Corpus\<close>.\<close>

definition flask_example_model :: tfidf_model where
  "flask_example_model = \<lparr>stop_words = [],
     vocabulary = [''backend'', ''developer'', ''engineer'', ''java'', ''python''],
     idf = [smooth_idf 3 1, smooth_idf 3 1, smooth_idf 3 1, smooth_idf 3 1, smooth_idf 3 1]\<rparr>"

definition example_ctx :: flask_ctx where
  "example_ctx = \<lparr>resume_filenames = [''a.txt'', ''b.pdf'', ''c.png''],
     resume_texts = [''python developer'', ''java backend engineer'', []],
     vectorizer = flask_example_model,
     resume_vectors = map (transform flask_example_model) [''python developer'', ''java backend engineer'', []]\<rparr>"

text \<open>The example folder holding only the image.\<close>

definition image_fs :: filesystem where
  "image_fs = example_fs\<lparr>listdir := (\<lambda>d. Inr [''c.png''])\<rparr>"

definition job_form :: "string \<Rightarrow> string \<Rightarrow> string option" where
  "job_form jd = (\<lambda>k. if k = ''job_description'' then Some jd else None)"

section \<open>Lemmas\<close>

lemma flask_startup_Inr:
  "flask_startup fs = Inr ctx \<Longrightarrow>
     main_load_resumes fs = Inr (resume_filenames ctx, resume_texts ctx) \<and>
     fit [] (resume_texts ctx) = Inr (vectorizer ctx) \<and>
     resume_vectors ctx = map (transform (vectorizer ctx)) (resume_texts ctx)"
  by (auto simp: flask_startup_def split: sum.splits)

lemma length_main_load_resumes:
  "main_load_resumes fs = Inr (names, texts) \<Longrightarrow> length texts = length names"
  using main_load_resumes_nth by blast

lemma flask_startup_ctx_ok: "flask_startup fs = Inr ctx \<Longrightarrow> ctx_ok ctx"
  unfolding ctx_ok_def
  by (auto dest!: flask_startup_Inr dest: fit_wf_model length_main_load_resumes
      simp: fit_Inr_vocabulary)

lemma length_flask_similarities [simp]:
  "length (flask_similarities m vecs jd) = length vecs"
  by (simp add: flask_similarities_def)

lemma flask_similarities_bounds:
  "ctx_ok ctx \<Longrightarrow> i < length (resume_vectors ctx) \<Longrightarrow>
     0 \<le> flask_similarities (vectorizer ctx) (resume_vectors ctx) jd ! i \<and>
     flask_similarities (vectorizer ctx) (resume_vectors ctx) jd ! i \<le> 1"
  by (auto simp: ctx_ok_def flask_similarities_def cosine_similarity_le_1 transform_cosine_nonneg)

lemma flask_matcher_Results:
  assumes "form ''job_description'' = Some jd" "py_strip jd \<noteq> []"
  shows "flask_matcher nlp ctx form =
     Results ''Top matching resumes from dataset:''
       (match_rows nlp ctx (flask_similarities (vectorizer ctx) (resume_vectors ctx) jd)
          (flask_top_indices (flask_similarities (vectorizer ctx) (resume_vectors ctx) jd)))"
  using assms by (simp add: flask_matcher_def Let_def)

lemma set_flask_top_indices: "set (flask_top_indices sims) \<subseteq> {..<length sims}"
  by (auto simp: flask_top_indices_def dest: in_set_dropD)

lemma flask_top_all: "length sims \<le> 5 \<Longrightarrow> set (flask_top_indices sims) = {..<length sims}"
  by (simp add: flask_top_indices_def)

lemma flask_matcher_ResultsE:
  assumes "flask_matcher nlp ctx form = Results msg rows"
  obtains jd where "form ''job_description'' = Some jd" "py_strip jd \<noteq> []"
    "rows = match_rows nlp ctx (flask_similarities (vectorizer ctx) (resume_vectors ctx) jd)
              (flask_top_indices (flask_similarities (vectorizer ctx) (resume_vectors ctx) jd))"
proof (cases "form ''job_description''")
  case None
  with assms show ?thesis by (simp add: flask_matcher_def)
next
  case (Some jd)
  with assms have "py_strip jd \<noteq> []"
    by (auto simp: flask_matcher_def)
  with Some assms flask_matcher_Results [of form jd nlp ctx] show ?thesis
    by (auto intro: that)
qed

lemma match_rows_filenames:
  "mr_filename ` set (match_rows nlp ctx sims idx) = (\<lambda>i. resume_filenames ctx ! i) ` set idx"
  by (simp add: match_rows_def Let_def image_image)

lemma nth_image_lessThan: "(\<lambda>i. xs ! i) ` {..<length xs} = set xs"
  by (auto simp: set_conv_nth)

lemma flask_startup_example: "flask_startup example_fs = Inr example_ctx"
proof -
  have "main_load_resumes example_fs = Inr ([''a.txt'', ''b.pdf'', ''c.png''],
      [''python developer'', ''java backend engineer'', []])"
    by (simp add: main_load_resumes_def example_fs_def DATASET_FOLDER_def path_join_def
        extract_text_def extract_text_from_pdf_def extract_text_from_txt_def py_endswith_def)
  moreover have "fit [] [''python developer'', ''java backend engineer'', []] = Inr flask_example_model"
    by (simp add: fit_def doc_freq_def text_eval_defs flask_example_model_def eval_nat_numeral)
  ultimately show ?thesis
    by (simp add: flask_startup_def example_ctx_def)
qed

section \<open>Properties of the Flask application\<close>

text \<open>
  C17. A blank job description (empty or whitespace only) is rejected with the prompt,
  before any similarity is computed: the response does not depend on the corpus or
  the model.
\<close>

theorem flask_blank_rejected:
  "form ''job_description'' = Some jd \<Longrightarrow> \<forall>c \<in> set jd. is_space c \<Longrightarrow>
     flask_matcher nlp ctx form = Prompt ''Please enter a job description.''"
  by (simp add: flask_matcher_def py_strip_Nil_iff)

theorem flask_blank_rejected_witness:
  "flask_matcher no_nlp example_ctx (job_form ''   '') = Prompt ''Please enter a job description.''"
  by (rule flask_blank_rejected [of _ "''   ''"]) (simp_all add: job_form_def char_class_defs)

text \<open>
  C18. The context \<open>main.py\<close> builds at start-up is consistent: the model is fitted
  once on the corpus texts (without stop words) and is well formed, its vocabulary is
  the set of terms of the corpus, and there is one vector per file, the transform of
  that file's text under that same model, of the vocabulary's length.
\<close>

theorem flask_startup_consistent:
  assumes "flask_startup fs = Inr ctx"
  shows "ctx_ok ctx \<and>
         set (vocabulary (vectorizer ctx)) = (\<Union>t \<in> set (resume_texts ctx). set (analyze [] t)) \<and>
         length (resume_vectors ctx) = length (resume_filenames ctx) \<and>
         (\<forall>v \<in> set (resume_vectors ctx). length v = length (vocabulary (vectorizer ctx)))"
proof -
  have ok: "ctx_ok ctx" by (rule flask_startup_ctx_ok [OF assms])
  have "fit [] (resume_texts ctx) = Inr (vectorizer ctx)"
    using flask_startup_Inr [OF assms] by blast
  then have "set (vocabulary (vectorizer ctx)) = (\<Union>t \<in> set (resume_texts ctx). set (analyze [] t))"
    by (rule set_vocabulary_fit)
  with ok show ?thesis by (auto simp: ctx_ok_def)
qed

theorem flask_startup_consistent_witness:
  "length (resume_vectors example_ctx) = length (resume_filenames example_ctx) \<and> ctx_ok example_ctx"
  using flask_startup_consistent [OF flask_startup_example] by blast

text \<open>
  C19. A request with a non-blank job description returns one row for each of the
  \<open>min 5 n\<close> best resumes, scores in descending order, each score an integer
  percentage between 0 and 100, each row naming a file of the corpus.
\<close>

theorem flask_results:
  assumes "flask_startup fs = Inr ctx" "form ''job_description'' = Some jd" "py_strip jd \<noteq> []"
  shows "\<exists>rows. flask_matcher nlp ctx form = Results ''Top matching resumes from dataset:'' rows \<and>
           length rows = min 5 (length (resume_filenames ctx)) \<and>
           sorted_wrt (\<lambda>r1 r2. mr_score r2 \<le> mr_score r1) rows \<and>
           (\<forall>r \<in> set rows. 0 \<le> mr_score r \<and> mr_score r \<le> 100 \<and>
                            mr_filename r \<in> set (resume_filenames ctx))"
proof -
  let ?sims = "flask_similarities (vectorizer ctx) (resume_vectors ctx) jd"
  let ?top = "flask_top_indices ?sims"
  have ok: "ctx_ok ctx" by (rule flask_startup_ctx_ok [OF assms(1)])
  then have len: "length (resume_vectors ctx) = length (resume_filenames ctx)"
    "length (resume_texts ctx) = length (resume_filenames ctx)"
    by (auto simp: ctx_ok_def)
  have idx: "\<forall>i \<in> set ?top. i < length (resume_filenames ctx)"
    using set_flask_top_indices [of ?sims] len by auto
  have "sorted_wrt (\<lambda>i j. ?sims ! j \<le> ?sims ! i) ?top"
    using ranked_desc_flask_top [of ?sims] by (simp add: ranked_desc_def)
  then have "sorted_wrt (\<lambda>r1 r2. mr_score r2 \<le> mr_score r1) (match_rows nlp ctx ?sims ?top)"
    by (auto simp: match_rows_def Let_def sorted_wrt_map elim!: sorted_wrt_mono_rel [rotated]
        intro: py_round_mono)
  moreover have "\<forall>r \<in> set (match_rows nlp ctx ?sims ?top). 0 \<le> mr_score r \<and> mr_score r \<le> 100 \<and>
                            mr_filename r \<in> set (resume_filenames ctx)"
  proof
    fix r assume "r \<in> set (match_rows nlp ctx ?sims ?top)"
    then obtain i where i: "i \<in> set ?top" "r = (let parsed = parse_resume_spacy nlp (resume_texts ctx ! i)
        in \<lparr>mr_filename = resume_filenames ctx ! i, mr_score = py_round (?sims ! i * 100),
            mr_name = pr_name parsed, mr_email = pr_email parsed,
            mr_phone = pr_phone parsed, mr_skills = pr_skills parsed\<rparr>)"
      by (auto simp: match_rows_def)
    with idx have il: "i < length (resume_filenames ctx)" by blast
    with len ok have "0 \<le> ?sims ! i \<and> ?sims ! i \<le> 1"
      using flask_similarities_bounds [of ctx i jd] by simp
    then have "0 \<le> ?sims ! i * 100 \<and> ?sims ! i * 100 \<le> of_int 100" by simp
    then have "0 \<le> py_round (?sims ! i * 100) \<and> py_round (?sims ! i * 100) \<le> 100"
      using py_round_int_bounds [of "?sims ! i * 100" 100] by simp
    with i il show "0 \<le> mr_score r \<and> mr_score r \<le> 100 \<and> mr_filename r \<in> set (resume_filenames ctx)"
      by (simp add: Let_def)
  qed
  moreover have "length (match_rows nlp ctx ?sims ?top) = min 5 (length (resume_filenames ctx))"
    using len by (simp add: match_rows_def length_flask_top_indices)
  ultimately show ?thesis
    using flask_matcher_Results [of form jd nlp ctx] assms(2,3) by blast
qed

theorem flask_results_witness:
  "\<exists>rows. flask_matcher no_nlp example_ctx (job_form ''Python developer'') =
      Results ''Top matching resumes from dataset:'' rows \<and> length rows = 3"
proof -
  have "\<exists>rows. flask_matcher no_nlp example_ctx (job_form ''Python developer'') =
      Results ''Top matching resumes from dataset:'' rows \<and>
      length rows = min 5 (length (resume_filenames example_ctx)) \<and>
      sorted_wrt (\<lambda>r1 r2. mr_score r2 \<le> mr_score r1) rows \<and>
      (\<forall>r \<in> set rows. 0 \<le> mr_score r \<and> mr_score r \<le> 100 \<and>
                       mr_filename r \<in> set (resume_filenames example_ctx))"
    by (rule flask_results [OF flask_startup_example, of _ "''Python developer''"])
      (simp_all add: job_form_def py_strip_Nil_iff char_class_defs)
  then obtain rows where r: "flask_matcher no_nlp example_ctx (job_form ''Python developer'') =
      Results ''Top matching resumes from dataset:'' rows"
    and l: "length rows = min 5 (length (resume_filenames example_ctx))"
    by blast
  have "min 5 (length (resume_filenames example_ctx)) = 3"
    by (simp add: example_ctx_def)
  with r l show ?thesis by auto
qed

text \<open>
  C20. \<open>main.py\<close> shows resumes with no similarity at all: when the folder holds at most
  five resumes, every one of them is a row of the result, whatever the job
  description, although a resume with similarity 0 does not match it.
\<close>

theorem flask_shows_every_resume:
  assumes "flask_startup fs = Inr ctx" "length (resume_filenames ctx) \<le> 5"
    and "flask_matcher nlp ctx form = Results msg rows"
  shows "mr_filename ` set rows = set (resume_filenames ctx)"
proof -
  obtain jd where rows: "rows = match_rows nlp ctx (flask_similarities (vectorizer ctx) (resume_vectors ctx) jd)
              (flask_top_indices (flask_similarities (vectorizer ctx) (resume_vectors ctx) jd))"
    using assms(3) by (rule flask_matcher_ResultsE)
  let ?sims = "flask_similarities (vectorizer ctx) (resume_vectors ctx) jd"
  have ok: "ctx_ok ctx" by (rule flask_startup_ctx_ok [OF assms(1)])
  then have len: "length ?sims = length (resume_filenames ctx)"
    by (auto simp: ctx_ok_def)
  have "set (flask_top_indices ?sims) = {..<length (resume_filenames ctx)}"
    using flask_top_all [of ?sims] len assms(2) by simp
  then show ?thesis
    by (simp add: rows match_rows_filenames nth_image_lessThan)
qed

theorem flask_shows_every_resume_witness:
  "\<exists>msg rows. flask_matcher no_nlp example_ctx (job_form ''Python developer'') = Results msg rows \<and>
      ''c.png'' \<in> mr_filename ` set rows"
proof -
  obtain rows where r: "flask_matcher no_nlp example_ctx (job_form ''Python developer'') =
      Results ''Top matching resumes from dataset:'' rows"
    using flask_matcher_Results [of "job_form ''Python developer''" "''Python developer''" no_nlp example_ctx]
    by (simp add: job_form_def py_strip_Nil_iff char_class_defs)
  have "mr_filename ` set rows = set (resume_filenames example_ctx)"
    by (rule flask_shows_every_resume [OF flask_startup_example _ r]) (simp add: example_ctx_def)
  moreover have "''c.png'' \<in> set (resume_filenames example_ctx)"
    by (simp add: example_ctx_def)
  ultimately show ?thesis using r by blast
qed

text \<open>
  C32. The fields shown in a row of \<open>main.py\<close>'s result come from the file the row
  names: that file's extracted text contains the e-mail (which has an \<open>@\<close>) and the
  phone number verbatim, the name is the first PERSON entity spaCy finds in it, and
  the skills are entries of \<open>SKILL_SET\<close>.
\<close>

theorem flask_row_fields_from_file:
  assumes "flask_startup fs = Inr ctx" "flask_matcher nlp ctx form = Results msg rows" "r \<in> set rows"
  shows "\<exists>txt. extract_text fs (path_join DATASET_FOLDER (mr_filename r)) = Inr txt \<and>
           mr_name r = first_person (doc_ents (nlp txt)) \<and>
           (\<forall>e. mr_email r = Some e \<longrightarrow> CHR ''@'' \<in> set e \<and> (\<exists>pre post. txt = pre @ e @ post)) \<and>
           (\<forall>p. mr_phone r = Some p \<longrightarrow> (\<exists>pre post. txt = pre @ p @ post)) \<and>
           mr_skills r \<subseteq> set SKILL_SET"
proof -
  obtain jd where rows: "rows = match_rows nlp ctx (flask_similarities (vectorizer ctx) (resume_vectors ctx) jd)
              (flask_top_indices (flask_similarities (vectorizer ctx) (resume_vectors ctx) jd))"
    using assms(2) by (rule flask_matcher_ResultsE)
  let ?sims = "flask_similarities (vectorizer ctx) (resume_vectors ctx) jd"
  have ok: "ctx_ok ctx" by (rule flask_startup_ctx_ok [OF assms(1)])
  obtain i where i: "i \<in> set (flask_top_indices ?sims)"
    and r: "r = (let parsed = parse_resume_spacy nlp (resume_texts ctx ! i)
        in \<lparr>mr_filename = resume_filenames ctx ! i, mr_score = py_round (?sims ! i * 100),
            mr_name = pr_name parsed, mr_email = pr_email parsed,
            mr_phone = pr_phone parsed, mr_skills = pr_skills parsed\<rparr>)"
    using assms(3) rows by (auto simp: match_rows_def)
  have len: "length ?sims = length (resume_filenames ctx)"
    using ok by (auto simp: ctx_ok_def)
  with i have il: "i < length (resume_filenames ctx)"
    using set_flask_top_indices [of ?sims] by auto
  let ?txt = "resume_texts ctx ! i"
  have ext: "extract_text fs (path_join DATASET_FOLDER (resume_filenames ctx ! i)) = Inr ?txt"
    using main_load_resumes_nth [of fs] flask_startup_Inr [OF assms(1)] il by blast
  have email: "CHR ''@'' \<in> set e \<and> (\<exists>pre post. ?txt = pre @ e @ post)"
    if "re_search EMAIL_RE ?txt = Some e" for e
  proof -
    from re_search_Some [OF that] obtain pre post where "?txt = pre @ e @ post" "rx_lang EMAIL_RE e"
      by blast
    then show ?thesis by (auto simp: rx_lang_EMAIL_RE)
  qed
  have phone: "\<exists>pre post. ?txt = pre @ p @ post" if "re_search PHONE_RE ?txt = Some p" for p
    using re_search_Some [OF that] by blast
  show ?thesis
    using ext email phone r by (auto simp: parse_resume_spacy_fields Let_def)
qed

theorem flask_row_fields_from_file_witness:
  "\<exists>msg rows r txt. flask_matcher no_nlp example_ctx (job_form ''Python developer'') = Results msg rows \<and>
     r \<in> set rows \<and> mr_filename r = ''a.txt'' \<and>
     extract_text example_fs (path_join DATASET_FOLDER ''a.txt'') = Inr txt \<and> mr_skills r \<subseteq> set SKILL_SET"
proof -
  obtain rows where run: "flask_matcher no_nlp example_ctx (job_form ''Python developer'') =
      Results ''Top matching resumes from dataset:'' rows"
    using flask_matcher_Results [of "job_form ''Python developer''" "''Python developer''" no_nlp example_ctx]
    by (simp add: job_form_def py_strip_Nil_iff char_class_defs)
  then obtain jd where rows: "rows = match_rows no_nlp example_ctx
      (flask_similarities (vectorizer example_ctx) (resume_vectors example_ctx) jd)
      (flask_top_indices (flask_similarities (vectorizer example_ctx) (resume_vectors example_ctx) jd))"
    by (rule flask_matcher_ResultsE)
  let ?s = "flask_similarities (vectorizer example_ctx) (resume_vectors example_ctx) jd"
  have "set (flask_top_indices ?s) = {..<length ?s}"
    by (rule flask_top_all) (simp add: example_ctx_def)
  moreover have "length ?s = 3" by (simp add: example_ctx_def)
  ultimately have "0 \<in> set (flask_top_indices ?s)" by simp
  moreover have "resume_filenames example_ctx ! 0 = ''a.txt''" by (simp add: example_ctx_def)
  ultimately have "''a.txt'' \<in> mr_filename ` set rows"
    unfolding rows match_rows_filenames by (metis image_eqI)
  then obtain r where r: "r \<in> set rows" "mr_filename r = ''a.txt''" by (auto simp: image_iff)
  from flask_row_fields_from_file [OF flask_startup_example run r(1)] r(2)
  obtain t where "extract_text example_fs (path_join DATASET_FOLDER ''a.txt'') = Inr t"
      "mr_skills r \<subseteq> set SKILL_SET"
    by auto
  with run r show ?thesis by blast
qed

text \<open>
  C34. Every corpus vector \<open>main.py\<close> builds at start-up has one entry per vocabulary
  term, each between 0 and 1, and is a unit vector, except for the files whose text has
  no term (unknown formats, empty files): their vector is zero, a row that can never
  match.
\<close>

theorem flask_vectors_shape:
  assumes "flask_startup fs = Inr ctx" "i < length (resume_filenames ctx)"
  shows "length (resume_vectors ctx ! i) = length (vocabulary (vectorizer ctx)) \<and>
         (\<forall>x \<in> set (resume_vectors ctx ! i). 0 \<le> x \<and> x \<le> 1) \<and>
         sq_norm (resume_vectors ctx ! i) = (if analyze [] (resume_texts ctx ! i) = [] then 0 else 1)"
proof -
  have fit: "fit [] (resume_texts ctx) = Inr (vectorizer ctx)"
    and vecs: "resume_vectors ctx = map (transform (vectorizer ctx)) (resume_texts ctx)"
    using flask_startup_Inr [OF assms(1)] by simp_all
  have i: "i < length (resume_texts ctx)"
    using flask_startup_ctx_ok [OF assms(1)] assms(2) by (simp add: ctx_ok_def)
  then have "set (analyze [] (resume_texts ctx ! i)) \<subseteq> set (vocabulary (vectorizer ctx))"
    using set_vocabulary_fit [OF fit] nth_mem [OF i] by auto
  then have "(\<exists>t \<in> set (vocabulary (vectorizer ctx)). t \<in> set (analyze [] (resume_texts ctx ! i))) \<longleftrightarrow>
             analyze [] (resume_texts ctx ! i) \<noteq> []"
    by (cases "analyze [] (resume_texts ctx ! i)") auto
  with transform_shape [OF fit, of "resume_texts ctx ! i"] vecs i show ?thesis by simp
qed

theorem flask_vectors_shape_witness:
  "sq_norm (resume_vectors example_ctx ! 2) = 0 \<and> sq_norm (resume_vectors example_ctx ! 0) = 1"
proof -
  have "2 < length (resume_filenames example_ctx)" "0 < length (resume_filenames example_ctx)"
    by (simp_all add: example_ctx_def)
  from flask_vectors_shape [OF flask_startup_example this(1)] flask_vectors_shape [OF flask_startup_example this(2)]
  show ?thesis by (simp add: example_ctx_def text_eval_defs)
qed

text \<open>
  C37. \<open>main.py\<close> fails to start exactly when the folder scan raises, or when no file
  of the folder has a term (an empty folder, or one holding only unknown formats): then
  \<open>TfidfVectorizer().fit\<close> raises "empty vocabulary" at import time.
\<close>

theorem flask_startup_error_iff:
  "flask_startup fs = Inl e \<longleftrightarrow>
     (\<exists>e'. main_load_resumes fs = Inl e' \<and> e = LoadError e') \<or>
     (\<exists>names texts. main_load_resumes fs = Inr (names, texts) \<and>
        (\<forall>t \<in> set texts. analyze [] t = []) \<and> e = FitError EmptyVocabulary)"
proof -
  have ev: "e' = EmptyVocabulary" for e' :: fit_error by (cases e') simp
  show ?thesis
  proof (cases "main_load_resumes fs")
    case (Inl e')
    then show ?thesis by (auto simp: flask_startup_def)
  next
    case (Inr r)
    obtain names texts where r: "r = (names, texts)" by (cases r)
    have "(\<exists>e'. fit [] texts = Inl e') \<longleftrightarrow> (\<forall>t \<in> set texts. analyze [] t = [])"
      by (rule fit_Inl_iff)
    with Inr r ev show ?thesis
      by (cases "fit [] texts") (auto simp: flask_startup_def)
  qed
qed

theorem flask_startup_error_iff_witness:
  "flask_startup image_fs = Inl (FitError EmptyVocabulary) \<and>
   flask_startup corrupt_fs = Inl (LoadError PdfReadError)"
proof -
  have "main_load_resumes image_fs = Inr ([''c.png''], [[]])"
    by (simp add: main_load_resumes_def image_fs_def example_fs_def DATASET_FOLDER_def path_join_def
        extract_text_def py_endswith_def)
  then have a: "flask_startup image_fs = Inl (FitError EmptyVocabulary)"
    using flask_startup_error_iff [of image_fs "FitError EmptyVocabulary"] by simp
  have "main_load_resumes corrupt_fs = Inl PdfReadError"
    by (simp add: main_load_resumes_def corrupt_fs_def example_fs_def DATASET_FOLDER_def path_join_def
        extract_text_def extract_text_from_pdf_def extract_text_from_txt_def py_endswith_def)
  then have "flask_startup corrupt_fs = Inl (LoadError PdfReadError)"
    using flask_startup_error_iff [of corrupt_fs "LoadError PdfReadError"] by simp
  with a show ?thesis by simp
qed

end
