(* ===== verification/Session.thy ===== *)
theory Session
  imports Matcher Corpus
begin

text \<open>
  The Streamlit front end \<open>Resume-Match.py\<close>.
  Streamlit runs the script from the top on every interaction; what survives a run is
  on disk: the pickle cache \<open>resume_vectors4.pkl\<close> (lines 62--81), written by the first
  run that gets past the folder scan and never invalidated, and the table
  \<open>similarity_data4.pkl\<close> (lines 104--110), overwritten by every query that has matches.
  The disk is the record \<open>rm_disk\<close>; one script run is \<open>rm_run\<close>, a function from the
  folder, the disk and the widget values to the new disk and the page, or the exception
  that stops the script (\<open>rm_error\<close>). The admin page, which only reads the table,
  is theory \<open>Admin\<close>. The disks a session can produce are the inductive
  \<open>reachable_disk\<close>, from an empty working directory. Buffers are kept as the text they
  hold (\<open>BytesIO\<close> of \<open>text.encode("utf-8")\<close>, read from position 0); sklearn's English
  stop-word list is the parameter \<open>english\<close> of the run. The emoji of the messages are
  left out of the strings.
\<close>

section \<open>State and page\<close>

text \<open>The pickled dict of lines 67--73.\<close>

record rm_cache =
  cache_vectorizer :: tfidf_model
  cache_vectors :: "vec list"
  cache_files :: "filename list"
  cache_resumes :: "string list"
  cache_buffers :: "string list"

text \<open>\<open>df_sim\<close> of lines 104--108: the columns \<open>Name\<close> and \<open>Similarity\<close>, row by row.\<close>

type_synonym sim_table = "(filename \<times> real) list"

record rm_disk =
  pickle_file :: "rm_cache option"
  similarity_file :: "sim_table option"

definition empty_disk :: rm_disk where
  "empty_disk = \<lparr>pickle_file = None, similarity_file = None\<rparr>"

text \<open>The widgets: the two sliders (lines 41--42), the text area (84), the button (86).\<close>

record rm_input =
  skill_weight :: int
  experience_weight :: int
  job_description :: string
  match_clicked :: bool

definition valid_input :: "rm_input \<Rightarrow> bool" where
  "valid_input inp \<longleftrightarrow>
     1 \<le> skill_weight inp \<and> skill_weight inp \<le> 5 \<and>
     1 \<le> experience_weight inp \<and> experience_weight inp \<le> 5"

datatype rm_error = RmLoadError io_error | RmFitError fit_error

text \<open>One expander of lines 112--122: title, preview, download button.\<close>

record rm_expander =
  ex_file :: filename
  ex_score :: real
  ex_preview :: string
  ex_download :: string

datatype rm_view =
    RmIdle
  | RmWarning string
  | RmNoMatch string
  | RmMatches "rm_expander list"

section \<open>One run of the script\<close>

text \<open>Lines 62--73: \<open>TfidfVectorizer(stop_words="english").fit_transform(folder_resumes)\<close>
  and the dict that is pickled; each buffer holds its resume's text.\<close>

definition rm_build_cache ::
  "string list \<Rightarrow> string list \<times> filename list \<Rightarrow> rm_error + rm_cache" where
  "rm_build_cache english corpus =
     (case corpus of (resumes, files) \<Rightarrow>
       (case fit_transform english resumes of
          Inl e \<Rightarrow> Inl (RmFitError e)
        | Inr (m, vecs) \<Rightarrow> Inr \<lparr>cache_vectorizer = m, cache_vectors = vecs, cache_files = files,
                               cache_resumes = resumes, cache_buffers = resumes\<rparr>))"

text \<open>Lines 62--81: a new cache when the pickle file does not exist, else the pickled one.\<close>

definition rm_vectorize ::
  "string list \<Rightarrow> rm_disk \<Rightarrow> string list \<times> filename list \<Rightarrow> rm_error + rm_cache" where
  "rm_vectorize english d corpus =
     (case pickle_file d of
        None \<Rightarrow> rm_build_cache english corpus
      | Some c \<Rightarrow> Inr c)"

text \<open>Lines 86--122: the page and the table written to \<open>similarity_data4.pkl\<close>, if any.\<close>

definition rm_match :: "rm_cache \<Rightarrow> rm_input \<Rightarrow> rm_view \<times> sim_table option" where
  "rm_match c inp =
     (if \<not> match_clicked inp then (RmIdle, None)
      else if py_strip (job_description inp) = [] then
        (RmWarning ''Please enter a job description.'', None)
      else
        (let sims = rm_similarities (cache_vectorizer c) (cache_vectors c) (job_description inp)
                      (skill_weight inp) (experience_weight inp);
             top_matches = rm_top_matches sims
         in if top_matches = [] then
              (RmNoMatch ''No matching resumes found for the given job description.'', None)
            else
              (RmMatches (map (\<lambda>(i, s). \<lparr>ex_file = cache_files c ! i, ex_score = s,
                                 ex_preview = take 800 (cache_resumes c ! i),
                                 ex_download = cache_buffers c ! i\<rparr>) top_matches),
               Some (map (\<lambda>(i, s). (cache_files c ! i, s)) top_matches))))"

text \<open>The whole script, lines 45--122: the folder scan runs on every run, cache or not.\<close>

definition rm_run ::
  "string list \<Rightarrow> filesystem \<Rightarrow> rm_disk \<Rightarrow> rm_input \<Rightarrow> rm_error + rm_disk \<times> rm_view" where
  "rm_run english fs d inp =
     (case rm_load_resumes fs of
        Inl e \<Rightarrow> Inl (RmLoadError e)
      | Inr corpus \<Rightarrow>
          (case rm_vectorize english d corpus of
             Inl e \<Rightarrow> Inl e
           | Inr c \<Rightarrow>
               (case rm_match c inp of
                  (v, tbl) \<Rightarrow>
                    Inr (d\<lparr>pickle_file := Some c,
                           similarity_file := (case tbl of None \<Rightarrow> similarity_file d | Some t \<Rightarrow> Some t)\<rparr>,
                         v))))"

section \<open>Sessions\<close>

text \<open>A session is any sequence of script runs (admin page views write nothing); a run
  that raises leaves the disk as it was.\<close>

inductive rm_step :: "string list \<Rightarrow> rm_disk \<Rightarrow> rm_disk \<Rightarrow> bool" where
  run_ok: "rm_run english fs d inp = Inr (d', v) \<Longrightarrow> rm_step english d d'"
| run_fail: "rm_run english fs d inp = Inl e \<Longrightarrow> rm_step english d d"

inductive reachable_disk :: "string list \<Rightarrow> rm_disk \<Rightarrow> bool" where
  start: "reachable_disk english empty_disk"
| step: "reachable_disk english d \<Longrightarrow> rm_step english d d' \<Longrightarrow> reachable_disk english d'"

section \<open>Invariant\<close>

text \<open>The cache is what fitting its own corpus gives; the table lists at most five corpus
  files with scores between 0 and 100, best first.\<close>

definition cache_ok :: "string list \<Rightarrow> rm_cache \<Rightarrow> bool" where
  "cache_ok english c \<longleftrightarrow>
     fit english (cache_resumes c) = Inr (cache_vectorizer c) \<and>
     cache_vectors c = map (transform (cache_vectorizer c)) (cache_resumes c) \<and>
     cache_buffers c = cache_resumes c \<and>
     length (cache_files c) = length (cache_resumes c) \<and> [] \<notin> set (cache_resumes c)"

definition sim_table_ok :: "rm_cache \<Rightarrow> sim_table \<Rightarrow> bool" where
  "sim_table_ok c t \<longleftrightarrow>
     t \<noteq> [] \<and> length t \<le> 5 \<and> sorted_wrt (\<lambda>a b. snd b \<le> snd a) t \<and>
     set (map fst t) \<subseteq> set (cache_files c) \<and> (\<forall>s \<in> set (map snd t). 0 \<le> s \<and> s \<le> 100)"

definition disk_ok :: "string list \<Rightarrow> rm_disk \<Rightarrow> bool" where
  "disk_ok english d \<longleftrightarrow>
     (case pickle_file d of
        None \<Rightarrow> similarity_file d = None
      | Some c \<Rightarrow> cache_ok english c \<and>
                  (case similarity_file d of None \<Rightarrow> True | Some t \<Rightarrow> sim_table_ok c t))"

text \<open>The run from scratch: what the page shows when no pickle file exists.\<close>

definition rm_fresh_view :: "string list \<Rightarrow> string list \<times> filename list \<Rightarrow> rm_input \<Rightarrow> rm_error + rm_view" where
  "rm_fresh_view english corpus inp =
     (case rm_build_cache english corpus of
        Inl e \<Rightarrow> Inl e
      | Inr c \<Rightarrow> Inr (fst (rm_match c inp)))"

section \<open>An example session\<close>

text \<open>The example folder of theory \<open>Corpus\<close>, three words of the English stop-word list,
  a first page load, then a query; and the folder after a new resume was added.\<close>

definition stop_sample :: "string list" where
  "stop_sample = [''and'', ''the'', ''with'']"

definition session_docs :: "string list" where
  "session_docs = [''python developer'', ''java backend engineer'']"

definition session_model :: tfidf_model where
  "session_model = \<lparr>stop_words = stop_sample,
     vocabulary = [''backend'', ''developer'', ''engineer'', ''java'', ''python''],
     idf = [smooth_idf 2 1, smooth_idf 2 1, smooth_idf 2 1, smooth_idf 2 1, smooth_idf 2 1]\<rparr>"

definition session_cache :: rm_cache where
  "session_cache = \<lparr>cache_vectorizer = session_model,
     cache_vectors = map (transform session_model) session_docs,
     cache_files = [''a.txt'', ''b.pdf''], cache_resumes = session_docs, cache_buffers = session_docs\<rparr>"

definition page_load :: rm_input where
  "page_load = \<lparr>skill_weight = 3, experience_weight = 3, job_description = [], match_clicked = False\<rparr>"

definition python_query :: rm_input where
  "python_query = \<lparr>skill_weight = 3, experience_weight = 3,
     job_description = ''python developer'', match_clicked = True\<rparr>"

definition accountant_query :: rm_input where
  "accountant_query = \<lparr>skill_weight = 3, experience_weight = 3,
     job_description = ''accountant'', match_clicked = True\<rparr>"

definition disk_loaded :: rm_disk where
  "disk_loaded = \<lparr>pickle_file = Some session_cache, similarity_file = None\<rparr>"

definition disk_queried :: rm_disk where
  "disk_queried = \<lparr>pickle_file = Some session_cache, similarity_file = Some [(''a.txt'', 100)]\<rparr>"

definition grown_fs :: filesystem where
  "grown_fs = example_fs\<lparr>listdir := (\<lambda>d. Inr [''a.txt'', ''b.pdf'', ''notes'', ''c.png'', ''d.docx'']),
     docx_process := (\<lambda>p. Inr ''senior python developer'')\<rparr>"

section \<open>Lemmas: the corpus, the cache, one run\<close>

lemma rm_load_resumes_Inr:
  assumes "rm_load_resumes fs = Inr (resumes, files)"
  shows "length files = length resumes \<and> [] \<notin> set resumes"
proof (cases "path_exists fs FOLDER")
  case True
  then obtain fns r where "extract_all fs FOLDER fns = Inr r"
    "resumes = map snd (filter (\<lambda>(f, t). t \<noteq> []) r)" "files = map fst (filter (\<lambda>(f, t). t \<noteq> []) r)"
    using assms by (auto simp: rm_load_resumes_def rm_load_loop_extract_all Let_def split: sum.splits)
  then show ?thesis by auto
next
  case False
  with assms show ?thesis by (simp add: rm_load_resumes_def)
qed

lemma rm_build_cache_Inr:
  "rm_build_cache english (resumes, files) = Inr c \<longleftrightarrow>
     (\<exists>m. fit english resumes = Inr m \<and>
          c = \<lparr>cache_vectorizer = m, cache_vectors = map (transform m) resumes, cache_files = files,
               cache_resumes = resumes, cache_buffers = resumes\<rparr>)"
  by (auto simp: rm_build_cache_def fit_transform_def split: sum.splits)

lemma rm_build_cache_Inl:
  "rm_build_cache english (resumes, files) = Inl e \<longleftrightarrow>
     e = RmFitError EmptyVocabulary \<and> (\<forall>r \<in> set resumes. analyze english r = [])"
proof -
  have "e' = EmptyVocabulary" for e' :: fit_error by (cases e') simp
  then show ?thesis
    using fit_Inl_iff [of english resumes]
    by (auto simp: rm_build_cache_def fit_transform_def split: sum.splits)
qed

lemma rm_build_cache_ok:
  "rm_build_cache english (resumes, files) = Inr c \<Longrightarrow> length files = length resumes \<Longrightarrow>
     [] \<notin> set resumes \<Longrightarrow> cache_ok english c \<and> cache_resumes c = resumes \<and> cache_files c = files"
  by (auto simp: rm_build_cache_Inr cache_ok_def)

text \<open>The abstraction of a cache is its corpus; a consistent cache is what rebuilding it
  from its corpus gives.\<close>

lemma cache_ok_rebuild:
  "cache_ok english c \<Longrightarrow> rm_build_cache english (cache_resumes c, cache_files c) = Inr c"
  by (simp add: rm_build_cache_Inr cache_ok_def)

lemma cache_ok_wf: "cache_ok english c \<Longrightarrow> wf_model (cache_vectorizer c)"
  by (auto simp: cache_ok_def intro: fit_wf_model)

lemma rm_run_InrE:
  assumes "rm_run english fs d inp = Inr (d', v)"
  obtains corpus c tbl where "rm_load_resumes fs = Inr corpus" "rm_vectorize english d corpus = Inr c"
    "rm_match c inp = (v, tbl)" "pickle_file d' = Some c"
    "similarity_file d' = (case tbl of None \<Rightarrow> similarity_file d | Some t \<Rightarrow> Some t)"
  using assms unfolding rm_run_def by (auto split: sum.splits prod.splits intro: that)

lemma rm_vectorize_ok:
  assumes "disk_ok english d" "rm_load_resumes fs = Inr corpus" "rm_vectorize english d corpus = Inr c"
  shows "cache_ok english c \<and> (\<forall>c'. pickle_file d = Some c' \<longrightarrow> c' = c)"
proof (cases "pickle_file d")
  case None
  obtain resumes files where corpus: "corpus = (resumes, files)" by (cases corpus)
  with assms(2) have "length files = length resumes \<and> [] \<notin> set resumes"
    by (simp add: rm_load_resumes_Inr)
  with None assms(3) corpus show ?thesis
    by (auto simp: rm_vectorize_def dest: rm_build_cache_ok)
next
  case (Some c')
  with assms(1,3) show ?thesis by (auto simp: rm_vectorize_def disk_ok_def)
qed

lemma rm_similarities_bounds:
  assumes "cache_ok english c" "i < length (cache_resumes c)"
  shows "0 \<le> rm_similarities (cache_vectorizer c) (cache_vectors c) jd sw ew ! i \<and>
         rm_similarities (cache_vectorizer c) (cache_vectors c) jd sw ew ! i \<le> 1"
  using assms cache_ok_wf [OF assms(1)]
  by (simp add: cache_ok_def rm_similarities_def cosine_similarity_le_1 transform_cosine_nonneg)

lemma length_rm_similarities [simp]:
  "length (rm_similarities m vecs jd sw ew) = length vecs"
  by (simp add: rm_similarities_def)

lemma sim_table_ok_top:
  assumes ok: "cache_ok english c"
    and tm: "tm = rm_top_matches (rm_similarities (cache_vectorizer c) (cache_vectors c) jd sw ew)"
    and ne: "tm \<noteq> []"
  shows "sim_table_ok c (map (\<lambda>(i, s). (cache_files c ! i, s)) tm)"
proof -
  let ?sims = "rm_similarities (cache_vectorizer c) (cache_vectors c) jd sw ew"
  have len: "length ?sims = length (cache_resumes c)" "length (cache_files c) = length (cache_resumes c)"
    using ok by (simp_all add: cache_ok_def)
  have mem: "i < length (cache_resumes c) \<and> 0 \<le> s \<and> s \<le> 100" if "(i, s) \<in> set tm" for i s
  proof -
    have "i < length ?sims \<and> s = py_round2 (?sims ! i * 100)"
      using that tm by (auto dest: rm_top_matches_member)
    moreover have "0 \<le> ?sims ! i \<and> ?sims ! i \<le> 1"
      using calculation len by (simp add: rm_similarities_bounds [OF ok])
    ultimately show ?thesis
      using py_round2_bounds [of "?sims ! i * 100"] len by simp
  qed
  have "sorted_wrt (\<lambda>a b. snd b \<le> snd a) tm"
    using tm rm_top_matches_scores_desc by simp
  then have "sorted_wrt (\<lambda>a b. snd b \<le> snd a) (map (\<lambda>(i, s). (cache_files c ! i, s)) tm)"
    by (simp add: sorted_wrt_map split_def)
  moreover have "set (map fst (map (\<lambda>(i, s). (cache_files c ! i, s)) tm)) \<subseteq> set (cache_files c)"
    using mem len by auto
  moreover have "\<forall>s \<in> set (map snd (map (\<lambda>(i, s). (cache_files c ! i, s)) tm)). 0 \<le> s \<and> s \<le> 100"
    using mem by auto
  ultimately show ?thesis
    using ne tm length_rm_top_matches by (simp add: sim_table_ok_def)
qed

lemma rm_match_table:
  assumes "cache_ok english c" "rm_match c inp = (v, Some t)"
  shows "sim_table_ok c t"
proof -
  let ?top = "rm_top_matches (rm_similarities (cache_vectorizer c) (cache_vectors c)
                (job_description inp) (skill_weight inp) (experience_weight inp))"
  have "?top \<noteq> [] \<and> t = map (\<lambda>(i, s). (cache_files c ! i, s)) ?top"
    using assms(2) by (auto simp: rm_match_def Let_def split: if_splits)
  then show ?thesis using sim_table_ok_top [OF assms(1) refl] by blast
qed

lemma rm_match_RmMatches:
  assumes "rm_match c inp = (RmMatches rows, tbl)"
  shows "rm_top_matches (rm_similarities (cache_vectorizer c) (cache_vectors c) (job_description inp)
           (skill_weight inp) (experience_weight inp)) \<noteq> [] \<and>
         rows = map (\<lambda>(i, s). \<lparr>ex_file = cache_files c ! i, ex_score = s,
                      ex_preview = take 800 (cache_resumes c ! i), ex_download = cache_buffers c ! i\<rparr>)
           (rm_top_matches (rm_similarities (cache_vectorizer c) (cache_vectors c) (job_description inp)
              (skill_weight inp) (experience_weight inp))) \<and>
         tbl = Some (map (\<lambda>(i, s). (cache_files c ! i, s))
           (rm_top_matches (rm_similarities (cache_vectorizer c) (cache_vectors c) (job_description inp)
              (skill_weight inp) (experience_weight inp))))"
  using assms by (auto simp: rm_match_def Let_def split: if_splits)

lemma rm_match_other:
  "rm_match c inp = (v, tbl) \<Longrightarrow> \<forall>rows. v \<noteq> RmMatches rows \<Longrightarrow> tbl = None"
  by (auto simp: rm_match_def Let_def split: if_splits)

lemma rm_match_table_view:
  "rm_match c inp = (v, tbl) \<Longrightarrow>
     tbl = (case v of RmMatches rows \<Rightarrow> Some (map (\<lambda>r. (ex_file r, ex_score r)) rows) | _ \<Rightarrow> None)"
  by (auto simp: rm_match_def Let_def comp_def split_def split: if_splits)

lemma rm_run_disk_ok:
  assumes ok: "disk_ok english d" and run: "rm_run english fs d inp = Inr (d', v)"
  shows "disk_ok english d'"
proof -
  obtain corpus c tbl where load: "rm_load_resumes fs = Inr corpus"
    and vec: "rm_vectorize english d corpus = Inr c" and m: "rm_match c inp = (v, tbl)"
    and pf: "pickle_file d' = Some c"
    and sf: "similarity_file d' = (case tbl of None \<Rightarrow> similarity_file d | Some t \<Rightarrow> Some t)"
    using run by (rule rm_run_InrE)
  have c: "cache_ok english c" and same: "\<forall>c'. pickle_file d = Some c' \<longrightarrow> c' = c"
    using rm_vectorize_ok [OF ok load vec] by simp_all
  have "case similarity_file d' of None \<Rightarrow> True | Some t \<Rightarrow> sim_table_ok c t"
  proof (cases tbl)
    case None
    with ok same sf show ?thesis
      by (cases "pickle_file d") (simp_all add: disk_ok_def split: option.splits)
  next
    case (Some t)
    with sf m c show ?thesis by (simp add: rm_match_table)
  qed
  with c pf show ?thesis by (simp add: disk_ok_def)
qed

lemma rm_step_disk_ok: "rm_step english d d' \<Longrightarrow> disk_ok english d \<Longrightarrow> disk_ok english d'"
  by (induction rule: rm_step.induct) (auto intro: rm_run_disk_ok)

lemma disk_ok_empty: "disk_ok english empty_disk"
  by (simp add: disk_ok_def empty_disk_def)

lemma reachable_disk_ok_aux: "reachable_disk english d \<Longrightarrow> disk_ok english d"
  by (induction rule: reachable_disk.induct) (auto intro: disk_ok_empty rm_step_disk_ok)

lemma rm_top_matches_nonempty: "i < length sims \<Longrightarrow> 0 < sims ! i \<Longrightarrow> rm_top_matches sims \<noteq> []"
proof -
  assume "i < length sims" "0 < sims ! i"
  then have "i \<in> set (pos_ranked sims)" by (simp add: set_pos_ranked)
  then have "take 5 (pos_ranked sims) \<noteq> []" by (cases "pos_ranked sims") auto
  then show "rm_top_matches sims \<noteq> []" by (metis list.map_disc_iff rm_top_indices)
qed

text \<open>A query that shares a term with a cached resume has matches, and the run writes
  their table.\<close>

lemma rm_query_matches:
  assumes "disk_ok english d" "pickle_file d = Some c" "rm_load_resumes fs = Inr corpus"
    and "valid_input inp" "match_clicked inp" "py_strip (job_description inp) \<noteq> []"
    and "r \<in> set (cache_resumes c)" "t \<in> set (analyze english (job_description inp))"
    "t \<in> set (analyze english r)"
  shows "\<exists>rows tbl. rows \<noteq> [] \<and>
           rm_run english fs d inp = Inr (d\<lparr>pickle_file := Some c, similarity_file := Some tbl\<rparr>, RmMatches rows)"
proof -
  have ok: "cache_ok english c"
    using assms(1,2) by (simp add: disk_ok_def)
  then have fit: "fit english (cache_resumes c) = Inr (cache_vectorizer c)"
    and vecs: "cache_vectors c = map (transform (cache_vectorizer c)) (cache_resumes c)"
    by (simp_all add: cache_ok_def)
  have wf: "wf_model (cache_vectorizer c)" by (rule cache_ok_wf [OF ok])
  have stop: "stop_words (cache_vectorizer c) = english" by (rule fit_stop_words [OF fit])
  have voc: "t \<in> set (vocabulary (cache_vectorizer c))"
    using set_vocabulary_fit [OF fit] assms(7,9) by blast
  obtain i where i: "i < length (cache_resumes c)" "cache_resumes c ! i = r"
    using assms(7) by (auto simp: in_set_conv_nth)
  let ?sims = "rm_similarities (cache_vectorizer c) (cache_vectors c) (job_description inp)
                 (skill_weight inp) (experience_weight inp)"
  have "0 < skill_weight inp + experience_weight inp"
    using assms(4) by (simp add: valid_input_def)
  then have "?sims ! i = cosine_similarity (transform (cache_vectorizer c) (job_description inp))
                            (transform (cache_vectorizer c) r)"
    using i vecs by (simp add: rm_similarities_flask flask_similarities_def)
  also have "0 < \<dots>"
    using transform_cosine_pos [OF wf voc] assms(8,9) stop by simp
  finally have "rm_top_matches ?sims \<noteq> []"
    using i vecs by (intro rm_top_matches_nonempty [of i]) simp_all
  then obtain rows tbl where m: "rm_match c inp = (RmMatches rows, Some tbl)" and ne: "rows \<noteq> []"
    using assms(5,6) by (simp add: rm_match_def Let_def)
  then have "rm_run english fs d inp =
      Inr (d\<lparr>pickle_file := Some c, similarity_file := Some tbl\<rparr>, RmMatches rows)"
    using assms(2,3) by (simp add: rm_run_def rm_vectorize_def)
  with ne show ?thesis by blast
qed

section \<open>The example session runs\<close>

lemma rm_load_example: "rm_load_resumes example_fs = Inr (session_docs, [''a.txt'', ''b.pdf''])"
  by (simp add: rm_load_resumes_def example_fs_def FOLDER_def path_join_def rm_extract_text_def
      session_docs_def py_endswith_def)

lemma rm_load_grown:
  "rm_load_resumes grown_fs = Inr (session_docs @ [''senior python developer''], [''a.txt'', ''b.pdf'', ''d.docx''])"
  by (simp add: rm_load_resumes_def grown_fs_def example_fs_def FOLDER_def path_join_def
      rm_extract_text_def session_docs_def py_endswith_def)

lemma fit_session: "fit stop_sample session_docs = Inr session_model"
  by (simp add: fit_def doc_freq_def text_eval_defs session_docs_def session_model_def stop_sample_def
      eval_nat_numeral)

lemma session_cache_ok: "cache_ok stop_sample session_cache"
  using fit_session by (simp add: cache_ok_def session_cache_def session_docs_def)

lemma rm_build_session: "rm_build_cache stop_sample (session_docs, [''a.txt'', ''b.pdf'']) = Inr session_cache"
  by (simp add: rm_build_cache_Inr fit_session session_cache_def)

lemma rm_run_page_load: "rm_run stop_sample example_fs empty_disk page_load = Inr (disk_loaded, RmIdle)"
  by (simp add: rm_run_def rm_load_example rm_vectorize_def empty_disk_def rm_build_session
      rm_match_def page_load_def disk_loaded_def)

lemma session_sims:
  "rm_similarities session_model (cache_vectors session_cache) ''python developer'' 3 3 = [1, 0]"
proof -
  have wf: "wf_model session_model" by (rule fit_wf_model [OF fit_session])
  have "cosine_similarity (transform session_model ''python developer'')
          (transform session_model ''python developer'') = 1"
    by (rule transform_self_cosine [OF wf]) (simp add: session_model_def text_eval_defs stop_sample_def)
  moreover have "cosine_similarity (transform session_model ''python developer'')
          (transform session_model ''java backend engineer'') = 0"
    by (rule transform_cosine_disjoint) (simp add: session_model_def text_eval_defs stop_sample_def)
  ultimately show ?thesis
    by (simp add: rm_similarities_flask flask_similarities_def cosine_row_def session_cache_def
        session_docs_def)
qed

lemma rm_match_python:
  "rm_match session_cache python_query =
     (RmMatches [\<lparr>ex_file = ''a.txt'', ex_score = 100, ex_preview = ''python developer'',
                  ex_download = ''python developer''\<rparr>], Some [(''a.txt'', 100)])"
proof -
  have "rm_top_matches [1, 0] = [(0, 100)]"
    by (simp add: rm_top_matches_def argsort_def py_round2_def py_round_def)
  then show ?thesis
    using session_sims
    by (simp add: rm_match_def python_query_def py_strip_def char_class_defs Let_def)
       (simp add: session_cache_def session_docs_def)
qed

lemma rm_run_python_query:
  "rm_run stop_sample example_fs disk_loaded python_query =
     Inr (disk_queried, RmMatches [\<lparr>ex_file = ''a.txt'', ex_score = 100,
       ex_preview = ''python developer'', ex_download = ''python developer''\<rparr>])"
  by (simp add: rm_run_def rm_load_example rm_vectorize_def disk_loaded_def rm_match_python
      disk_queried_def)

lemma reachable_disk_loaded: "reachable_disk stop_sample disk_loaded"
  by (rule reachable_disk.step [OF reachable_disk.start rm_step.run_ok [OF rm_run_page_load]])

lemma reachable_disk_queried: "reachable_disk stop_sample disk_queried"
  by (rule reachable_disk.step [OF reachable_disk_loaded rm_step.run_ok [OF rm_run_python_query]])

lemma rm_match_accountant:
  "rm_match session_cache accountant_query =
     (RmNoMatch ''No matching resumes found for the given job description.'', None)"
proof -
  have "\<forall>x \<in> set (rm_similarities session_model (cache_vectors session_cache) ''accountant'' 3 3). x \<le> 0"
    by (simp add: rm_similarities_flask flask_similarities_def cosine_row_def session_cache_def
        session_docs_def transform_cosine_disjoint session_model_def text_eval_defs stop_sample_def)
  then have "rm_top_matches (rm_similarities session_model (cache_vectors session_cache) ''accountant'' 3 3) = []"
    by (rule rm_top_matches_nonpos)
  then show ?thesis
    by (simp add: rm_match_def accountant_query_def py_strip_def char_class_defs Let_def)
       (simp add: session_cache_def)
qed

lemma rm_run_accountant:
  "rm_run stop_sample example_fs disk_queried accountant_query =
     Inr (disk_queried, RmNoMatch ''No matching resumes found for the given job description.'')"
  by (simp add: rm_run_def rm_load_example rm_vectorize_def disk_queried_def rm_match_accountant)

lemma rm_load_corrupt: "rm_load_resumes corrupt_fs = Inl PdfReadError"
  by (simp add: rm_load_resumes_def corrupt_fs_def example_fs_def FOLDER_def path_join_def
      rm_extract_text_def extract_text_from_pdf_def py_endswith_def)

section \<open>Properties of the Streamlit session\<close>

text \<open>
  C22. In every state a session reaches, the pickle cache, once written, is the fit of
  the English-stop-word vectorizer on its own resumes, with one vector, file name and
  download buffer per non-empty resume; the similarity table exists only with the cache
  and lists one to five of its files with scores between 0 and 100, best first.
\<close>

theorem reachable_disk_ok:
  assumes "reachable_disk english d"
  shows "(pickle_file d = None \<longrightarrow> similarity_file d = None) \<and>
         (\<forall>c. pickle_file d = Some c \<longrightarrow>
            fit english (cache_resumes c) = Inr (cache_vectorizer c) \<and>
            cache_vectors c = map (transform (cache_vectorizer c)) (cache_resumes c) \<and>
            cache_buffers c = cache_resumes c \<and>
            length (cache_files c) = length (cache_resumes c) \<and> [] \<notin> set (cache_resumes c) \<and>
            (\<forall>t. similarity_file d = Some t \<longrightarrow>
               t \<noteq> [] \<and> length t \<le> 5 \<and> sorted_wrt (\<lambda>a b. snd b \<le> snd a) t \<and>
               set (map fst t) \<subseteq> set (cache_files c) \<and> (\<forall>s \<in> set (map snd t). 0 \<le> s \<and> s \<le> 100)))"
  using reachable_disk_ok_aux [OF assms]
  by (auto simp: disk_ok_def cache_ok_def sim_table_ok_def split: option.splits)

theorem reachable_disk_ok_witness:
  "length (cache_files session_cache) = length (cache_resumes session_cache) \<and>
   set (map fst [(''a.txt'', 100 :: real)]) \<subseteq> set (cache_files session_cache)"
  using reachable_disk_ok [OF reachable_disk_queried]
  by (simp add: disk_queried_def)

text \<open>
  C23. The pickle cache is a faithful memo of the vectorization (refinement): whatever
  the disk a session reached, a run shows exactly the page a run without the pickle file
  would show on the corpus the cache holds.
\<close>

theorem rm_run_refines_fresh:
  assumes "reachable_disk english d" "rm_run english fs d inp = Inr (d', v)"
  shows "\<exists>c. pickle_file d' = Some c \<and> rm_fresh_view english (cache_resumes c, cache_files c) inp = Inr v"
proof -
  obtain corpus c tbl where load: "rm_load_resumes fs = Inr corpus"
    and vec: "rm_vectorize english d corpus = Inr c" and m: "rm_match c inp = (v, tbl)"
    and pf: "pickle_file d' = Some c"
    using assms(2) by (rule rm_run_InrE)
  have "cache_ok english c"
    using rm_vectorize_ok [OF reachable_disk_ok_aux [OF assms(1)] load vec] by simp
  then have "rm_build_cache english (cache_resumes c, cache_files c) = Inr c"
    by (rule cache_ok_rebuild)
  with m pf show ?thesis by (simp add: rm_fresh_view_def)
qed

theorem rm_run_refines_fresh_witness:
  "rm_fresh_view stop_sample (session_docs, [''a.txt'', ''b.pdf'']) python_query =
     Inr (RmMatches [\<lparr>ex_file = ''a.txt'', ex_score = 100,
       ex_preview = ''python developer'', ex_download = ''python developer''\<rparr>])"
  using rm_run_refines_fresh [OF reachable_disk_loaded rm_run_python_query]
  by (simp add: disk_queried_def session_cache_def)

text \<open>
  C24. The cache is never invalidated: once the pickle file exists, a run's page and the
  disk it leaves do not depend on the folder's contents (as long as the folder scan
  succeeds); a resume added to the folder is never matched.
\<close>

theorem rm_stale_cache:
  assumes "pickle_file d = Some c" "rm_load_resumes fs1 = Inr corpus1" "rm_load_resumes fs2 = Inr corpus2"
  shows "rm_run english fs1 d inp = rm_run english fs2 d inp"
  using assms by (simp add: rm_run_def rm_vectorize_def)

theorem rm_stale_cache_witness:
  "rm_run stop_sample grown_fs disk_loaded python_query =
     Inr (disk_queried, RmMatches [\<lparr>ex_file = ''a.txt'', ex_score = 100,
       ex_preview = ''python developer'', ex_download = ''python developer''\<rparr>])"
proof -
  have "rm_run stop_sample grown_fs disk_loaded python_query =
        rm_run stop_sample example_fs disk_loaded python_query"
    by (rule rm_stale_cache [OF _ rm_load_grown rm_load_example]) (simp add: disk_loaded_def)
  then show ?thesis by (simp add: rm_run_python_query)
qed

text \<open>
  C25. A run fails exactly when the folder scan raises (whether or not the cache
  exists), or when there is no pickle file and no resume of the folder has a term
  outside the stop words (\<open>fit_transform\<close> raises "empty vocabulary").
\<close>

theorem rm_run_error_iff:
  "rm_run english fs d inp = Inl e \<longleftrightarrow>
     (\<exists>e'. rm_load_resumes fs = Inl e' \<and> e = RmLoadError e') \<or>
     (\<exists>resumes files. rm_load_resumes fs = Inr (resumes, files) \<and> pickle_file d = None \<and>
        (\<forall>r \<in> set resumes. analyze english r = []) \<and> e = RmFitError EmptyVocabulary)"
proof (cases "rm_load_resumes fs")
  case (Inl e')
  then show ?thesis by (auto simp: rm_run_def)
next
  case (Inr corpus)
  note load = this
  obtain resumes files where corpus: "corpus = (resumes, files)" by (cases corpus)
  have ok: "rm_run english fs d inp \<noteq> Inl e'" if "rm_vectorize english d corpus = Inr c" for c e'
    using load that by (simp add: rm_run_def split: prod.split)
  show ?thesis
  proof (cases "pickle_file d")
    case None
    show ?thesis
    proof (cases "rm_build_cache english (resumes, files)")
      case (Inl x)
      then have "rm_run english fs d inp = Inl x"
        using load None corpus by (simp add: rm_run_def rm_vectorize_def)
      with Inl load None corpus show ?thesis by (auto simp: rm_build_cache_Inl)
    next
      case (Inr c)
      then have "\<not> (\<forall>r \<in> set resumes. analyze english r = [])"
        using rm_build_cache_Inl [of english resumes files "RmFitError EmptyVocabulary"] by auto
      with Inr load None corpus ok [of c] show ?thesis by (simp add: rm_vectorize_def)
    qed
  next
    case (Some c)
    with load ok [of c] show ?thesis by (simp add: rm_vectorize_def)
  qed
qed

theorem rm_run_error_iff_witness:
  "rm_run stop_sample corrupt_fs disk_loaded python_query = Inl (RmLoadError PdfReadError)"
  using rm_run_error_iff [of stop_sample corrupt_fs disk_loaded python_query "RmLoadError PdfReadError"]
  by (simp add: rm_load_corrupt)

text \<open>
  C26. The pickle file is written once: a step of the session from a disk that holds a
  cache keeps that very cache, and the first successful run writes one.
\<close>

theorem cache_written_once:
  assumes "rm_step english d d'"
  shows "(\<forall>c. pickle_file d = Some c \<longrightarrow> pickle_file d' = Some c) \<and>
         (\<forall>fs inp v. rm_run english fs d inp = Inr (d', v) \<longrightarrow> pickle_file d' \<noteq> None)"
  using assms
proof (induction rule: rm_step.induct)
  case (run_ok english fs d inp d' v)
  obtain corpus c tbl where "rm_vectorize english d corpus = Inr c" "pickle_file d' = Some c"
    using run_ok by (rule rm_run_InrE)
  moreover have "pickle_file d' \<noteq> None" if "rm_run english fs' d inp' = Inr (d', v')" for fs' inp' v'
    using that by (rule rm_run_InrE) simp
  ultimately show ?case by (auto simp: rm_vectorize_def)
next
  case (run_fail english fs d inp e)
  then show ?case by (auto elim: rm_run_InrE)
qed

theorem cache_written_once_witness:
  "pickle_file empty_disk = None \<and> pickle_file disk_loaded \<noteq> None \<and>
   pickle_file disk_queried = Some session_cache"
proof -
  have "rm_step stop_sample empty_disk disk_loaded"
    by (rule rm_step.run_ok [OF rm_run_page_load])
  from cache_written_once [OF this] have "pickle_file disk_loaded \<noteq> None"
    using rm_run_page_load by blast
  moreover have "rm_step stop_sample disk_loaded disk_queried"
    by (rule rm_step.run_ok [OF rm_run_python_query])
  from cache_written_once [OF this] have "pickle_file disk_queried = Some session_cache"
    by (simp add: disk_loaded_def)
  ultimately show ?thesis by (simp add: empty_disk_def)
qed

text \<open>
  C27. A run rewrites the similarity table exactly when it shows matches, with the names
  and scores of the page; any other run (page load, blank query, no match) leaves the
  table of an earlier query on disk, where the admin page keeps showing it.
\<close>

theorem similarity_file_update:
  assumes "rm_run english fs d inp = Inr (d', v)"
  shows "similarity_file d' =
           (case v of RmMatches rows \<Rightarrow> Some (map (\<lambda>r. (ex_file r, ex_score r)) rows)
                    | _ \<Rightarrow> similarity_file d)"
proof -
  obtain corpus c tbl where m: "rm_match c inp = (v, tbl)"
    and sf: "similarity_file d' = (case tbl of None \<Rightarrow> similarity_file d | Some t \<Rightarrow> Some t)"
    using assms by (rule rm_run_InrE)
  from rm_match_table_view [OF m] sf show ?thesis by (cases v) simp_all
qed

theorem similarity_file_update_witness:
  "\<exists>d'. rm_run stop_sample example_fs disk_queried accountant_query =
          Inr (d', RmNoMatch ''No matching resumes found for the given job description.'') \<and>
        similarity_file d' = Some [(''a.txt'', 100)]"
proof -
  obtain d' where run: "rm_run stop_sample example_fs disk_queried accountant_query =
      Inr (d', RmNoMatch ''No matching resumes found for the given job description.'')"
    using rm_run_accountant by blast
  from similarity_file_update [OF run] have "similarity_file d' = Some [(''a.txt'', 100)]"
    by (simp add: disk_queried_def)
  with run show ?thesis by blast
qed

text \<open>
  C29. Every expander a run shows belongs to one resume of the cached corpus: its title
  is that file's name, its download button serves that resume's (non-empty) text, and
  its preview is the first 800 characters of it; there are one to five of them.
\<close>

theorem download_is_resume:
  assumes "reachable_disk english d" "rm_run english fs d inp = Inr (d', RmMatches rows)"
  shows "\<exists>c. pickle_file d' = Some c \<and> rows \<noteq> [] \<and> length rows \<le> 5 \<and>
           (\<forall>r \<in> set rows. \<exists>i < length (cache_files c).
              ex_file r = cache_files c ! i \<and> ex_download r = cache_resumes c ! i \<and>
              ex_preview r = take 800 (ex_download r) \<and> ex_download r \<noteq> [])"
proof -
  obtain corpus c tbl where load: "rm_load_resumes fs = Inr corpus"
    and vec: "rm_vectorize english d corpus = Inr c" and m: "rm_match c inp = (RmMatches rows, tbl)"
    and pf: "pickle_file d' = Some c"
    using assms(2) by (rule rm_run_InrE)
  have ok: "cache_ok english c"
    using rm_vectorize_ok [OF reachable_disk_ok_aux [OF assms(1)] load vec] by simp
  let ?sims = "rm_similarities (cache_vectorizer c) (cache_vectors c)
                 (job_description inp) (skill_weight inp) (experience_weight inp)"
  have tm: "rm_top_matches ?sims \<noteq> []"
    and rows: "rows = map (\<lambda>(i, s). \<lparr>ex_file = cache_files c ! i, ex_score = s,
                 ex_preview = take 800 (cache_resumes c ! i), ex_download = cache_buffers c ! i\<rparr>)
               (rm_top_matches ?sims)"
    using rm_match_RmMatches [OF m] by simp_all
  have len: "length ?sims = length (cache_resumes c)" "length (cache_files c) = length (cache_resumes c)"
    "cache_buffers c = cache_resumes c" "[] \<notin> set (cache_resumes c)"
    using ok by (simp_all add: cache_ok_def)
  have "\<forall>r \<in> set rows. \<exists>i < length (cache_files c).
          ex_file r = cache_files c ! i \<and> ex_download r = cache_resumes c ! i \<and>
          ex_preview r = take 800 (ex_download r) \<and> ex_download r \<noteq> []"
  proof
    fix r assume "r \<in> set rows"
    then obtain i s where mem: "(i, s) \<in> set (rm_top_matches ?sims)"
      and r: "r = \<lparr>ex_file = cache_files c ! i, ex_score = s,
                 ex_preview = take 800 (cache_resumes c ! i), ex_download = cache_buffers c ! i\<rparr>"
      using rows by auto
    from mem have i: "i < length (cache_resumes c)"
      using len by (auto dest: rm_top_matches_member)
    then have "cache_resumes c ! i \<noteq> []"
      using len(4) nth_mem by metis
    with i r len show "\<exists>i < length (cache_files c).
          ex_file r = cache_files c ! i \<and> ex_download r = cache_resumes c ! i \<and>
          ex_preview r = take 800 (ex_download r) \<and> ex_download r \<noteq> []"
      by auto
  qed
  moreover have "rows \<noteq> [] \<and> length rows \<le> 5"
    using tm rows length_rm_top_matches [of ?sims] by simp
  ultimately show ?thesis using pf by blast
qed

theorem download_is_resume_witness:
  "\<exists>i < length (cache_files session_cache).
     cache_files session_cache ! i = ''a.txt'' \<and> cache_resumes session_cache ! i = ''python developer''"
proof -
  from download_is_resume [OF reachable_disk_loaded rm_run_python_query]
  obtain c where "pickle_file disk_queried = Some c"
    and "\<forall>r \<in> set [\<lparr>ex_file = ''a.txt'', ex_score = 100,
        ex_preview = ''python developer'', ex_download = ''python developer''\<rparr>].
      \<exists>i < length (cache_files c). ex_file r = cache_files c ! i \<and> ex_download r = cache_resumes c ! i \<and>
        ex_preview r = take 800 (ex_download r) \<and> ex_download r \<noteq> []"
    by blast
  then show ?thesis by (auto simp: disk_queried_def)
qed

text \<open>
  C30. Running the script again with the same folder and the same widget values shows the
  same page and leaves the disk as the first run left it: repeated queries are
  deterministic, and the first run's cache write is the only change it makes that
  the second run sees.
\<close>

theorem rm_run_repeat:
  assumes "rm_run english fs d inp = Inr (d1, v)"
  shows "rm_run english fs d1 inp = Inr (d1, v)"
proof -
  obtain corpus c tbl where load: "rm_load_resumes fs = Inr corpus"
    and m: "rm_match c inp = (v, tbl)" and pf: "pickle_file d1 = Some c"
    and sf: "similarity_file d1 = (case tbl of None \<Rightarrow> similarity_file d | Some t \<Rightarrow> Some t)"
    using assms by (rule rm_run_InrE)
  have "similarity_file d1 = (case tbl of None \<Rightarrow> similarity_file d1 | Some t \<Rightarrow> Some t)"
    using sf by (cases tbl) simp_all
  then have "d1\<lparr>pickle_file := Some c,
               similarity_file := (case tbl of None \<Rightarrow> similarity_file d1 | Some t \<Rightarrow> Some t)\<rparr> = d1"
    using pf by simp
  with load m pf show ?thesis by (simp add: rm_run_def rm_vectorize_def)
qed

theorem rm_run_repeat_witness:
  "rm_run stop_sample example_fs disk_queried python_query =
     Inr (disk_queried, RmMatches [\<lparr>ex_file = ''a.txt'', ex_score = 100,
       ex_preview = ''python developer'', ex_download = ''python developer''\<rparr>])"
  by (rule rm_run_repeat [OF rm_run_python_query])

end
