(* ===== verification/Admin.thy ===== *)
theory Admin
  imports Session
begin

text \<open>
  The admin page \<open>pages/Admin.py\<close> and what it shows over a whole session. The page
  reads \<open>similarity_data4.pkl\<close> and shows an info message when it does not exist, and
  otherwise \<open>df_sim.head(10)\<close> as a table and a bar chart and, when the checkbox is
  ticked, \<open>df_sim.head(5)\<close> as a pie chart (\<open>admin_page\<close>). matplotlib's drawing is not
  modelled: the view is the data handed to the charts. A session of the main page is
  a sequence of script runs, each on the folder and the widget values of that moment,
  threaded through the disk (\<open>rm_session\<close>); the lemmas relate the admin page to the
  runs of the session that came before.
\<close>

section \<open>The page\<close>

text \<open>\<open>pages/Admin.py\<close> lines 14--30: the info message without a table; otherwise the
  first ten rows as a table and as a bar chart, and the first five as a pie chart when
  the checkbox is ticked.\<close>

datatype admin_view =
    AdminInfo string
  | AdminDashboard sim_table sim_table "sim_table option"

definition admin_page :: "rm_disk \<Rightarrow> bool \<Rightarrow> admin_view" where
  "admin_page d show_pie =
     (case similarity_file d of
        None \<Rightarrow> AdminInfo ''Run the main resume matcher to generate similarity data.''
      | Some df \<Rightarrow> AdminDashboard (take 10 df) (take 10 df) (if show_pie then Some (take 5 df) else None))"

section \<open>Sessions as sequences of runs\<close>

text \<open>Streamlit reruns the script on every interaction; a run that raises shows the
  exception and leaves the disk as it was.\<close>

fun rm_session ::
  "string list \<Rightarrow> rm_disk \<Rightarrow> (filesystem \<times> rm_input) list \<Rightarrow> rm_disk \<times> (rm_error + rm_view) list" where
  "rm_session english d [] = (d, [])"
| "rm_session english d ((fs, inp) # evs) =
     (case rm_run english fs d inp of
        Inl e \<Rightarrow> (case rm_session english d evs of (d', vs) \<Rightarrow> (d', Inl e # vs))
      | Inr (d1, v) \<Rightarrow> (case rm_session english d1 evs of (d', vs) \<Rightarrow> (d', Inr v # vs)))"

text \<open>The rows of the last page of matches among the pages of a session, if any.\<close>

fun last_matches :: "(rm_error + rm_view) list \<Rightarrow> rm_expander list option" where
  "last_matches [] = None"
| "last_matches (r # rs) =
     (case last_matches rs of
        Some rows \<Rightarrow> Some rows
      | None \<Rightarrow> (case r of Inr (RmMatches rows) \<Rightarrow> Some rows | _ \<Rightarrow> None))"

definition table_of_rows :: "rm_expander list \<Rightarrow> sim_table" where
  "table_of_rows rows = map (\<lambda>r. (ex_file r, ex_score r)) rows"

text \<open>The example session: the first page load, a query with a match, a query with none.\<close>

definition example_events :: "(filesystem \<times> rm_input) list" where
  "example_events = [(example_fs, page_load), (example_fs, python_query), (example_fs, accountant_query)]"

section \<open>Lemmas\<close>

text \<open>The table on disk after a session is the one of its last page of matches, or the
  one it started with.\<close>

lemma rm_session_similarity_file:
  "rm_session english d evs = (d', vs) \<Longrightarrow>
     similarity_file d' =
       (case last_matches vs of None \<Rightarrow> similarity_file d | Some rows \<Rightarrow> Some (table_of_rows rows))"
proof (induction evs arbitrary: d d' vs)
  case Nil
  then show ?case by simp
next
  case (Cons ev evs)
  obtain fs inp where ev: "ev = (fs, inp)" by (cases ev)
  show ?case
  proof (cases "rm_run english fs d inp")
    case (Inl e)
    obtain d'' vs'' where rest: "rm_session english d evs = (d'', vs'')" by (cases "rm_session english d evs")
    with Cons.prems Inl ev have "d' = d''" "vs = Inl e # vs''" by simp_all
    with Cons.IH [OF rest] show ?thesis by (cases "last_matches vs''") simp_all
  next
    case (Inr r)
    obtain d1 v where r: "r = (d1, v)" by (cases r)
    obtain d'' vs'' where rest: "rm_session english d1 evs = (d'', vs'')" by (cases "rm_session english d1 evs")
    with Cons.prems Inr r ev have "d' = d''" "vs = Inr v # vs''" by simp_all
    moreover obtain corpus c tbl where m: "rm_match c inp = (v, tbl)"
      and sf: "similarity_file d1 = (case tbl of None \<Rightarrow> similarity_file d | Some t \<Rightarrow> Some t)"
      using Inr r by (auto elim: rm_run_InrE)
    moreover note rm_match_table_view [OF m]
    ultimately show ?thesis using Cons.IH [OF rest]
      by (cases "last_matches vs''"; cases v) (simp_all add: table_of_rows_def)
  qed
qed

lemma rm_session_example:
  "rm_session stop_sample empty_disk example_events =
     (disk_queried, [Inr RmIdle,
                     Inr (RmMatches [\<lparr>ex_file = ''a.txt'', ex_score = 100,
                        ex_preview = ''python developer'', ex_download = ''python developer''\<rparr>]),
                     Inr (RmNoMatch ''No matching resumes found for the given job description.'')])"
  by (simp add: example_events_def rm_run_page_load rm_run_python_query rm_run_accountant)

section \<open>Properties of the admin page\<close>

text \<open>
  C28. On the admin page of any disk a session reaches, the table and the bar chart of
  the "first ten" rows and the pie chart of the "top five" all show the whole similarity
  table: one to five rows, best first, with scores between 0 and 100.
\<close>

theorem admin_view_bounds:
  assumes "reachable_disk english d" "admin_page d show_pie = AdminDashboard tbl bar pie"
  shows "similarity_file d = Some tbl \<and> bar = tbl \<and> (if show_pie then pie = Some tbl else pie = None) \<and>
         tbl \<noteq> [] \<and> length tbl \<le> 5 \<and> sorted_wrt (\<lambda>a b. snd b \<le> snd a) tbl \<and>
         (\<forall>s \<in> set (map snd tbl). 0 \<le> s \<and> s \<le> 100)"
proof -
  obtain t where t: "similarity_file d = Some t"
    and v: "AdminDashboard (take 10 t) (take 10 t) (if show_pie then Some (take 5 t) else None) =
            AdminDashboard tbl bar pie"
    using assms(2) by (auto simp: admin_page_def split: option.splits)
  obtain c where "pickle_file d = Some c" "sim_table_ok c t"
    using reachable_disk_ok_aux [OF assms(1)] t by (auto simp: disk_ok_def split: option.splits)
  then have ok: "t \<noteq> [] \<and> length t \<le> 5 \<and> sorted_wrt (\<lambda>a b. snd b \<le> snd a) t \<and>
                 (\<forall>s \<in> set (map snd t). 0 \<le> s \<and> s \<le> 100)"
    by (simp add: sim_table_ok_def)
  then have "take 10 t = t" "take 5 t = t" by simp_all
  with v t ok show ?thesis by auto
qed

theorem admin_view_bounds_witness:
  "admin_page disk_queried True =
     AdminDashboard [(''a.txt'', 100)] [(''a.txt'', 100)] (Some [(''a.txt'', 100)])"
proof -
  have "admin_page disk_queried True = AdminDashboard (take 10 [(''a.txt'', 100)])
          (take 10 [(''a.txt'', 100)]) (Some (take 5 [(''a.txt'', 100)]))"
    by (simp add: admin_page_def disk_queried_def)
  with admin_view_bounds [OF reachable_disk_queried this] show ?thesis by simp
qed

text \<open>
  C35. From any state of a session, a query that shares a term with a cached resume
  (the folder still readable, sliders in range) leads to a page of matches, and the
  admin page then shows a dashboard rather than the info message.
\<close>

theorem rm_query_reaches_dashboard:
  assumes "reachable_disk english d" "pickle_file d = Some c" "rm_load_resumes fs = Inr corpus"
    and "valid_input inp" "match_clicked inp" "py_strip (job_description inp) \<noteq> []"
    and "r \<in> set (cache_resumes c)" "t \<in> set (analyze english (job_description inp))"
    "t \<in> set (analyze english r)"
  shows "\<exists>d' rows tbl bar pie. rm_run english fs d inp = Inr (d', RmMatches rows) \<and> rows \<noteq> [] \<and>
           admin_page d' show_pie = AdminDashboard tbl bar pie"
proof -
  obtain rows tbl where "rows \<noteq> []" and run:
      "rm_run english fs d inp = Inr (d\<lparr>pickle_file := Some c, similarity_file := Some tbl\<rparr>, RmMatches rows)"
    using rm_query_matches [OF reachable_disk_ok_aux [OF assms(1)] assms(2-9)] by blast
  moreover have "\<exists>tbl' bar pie. admin_page (d\<lparr>pickle_file := Some c, similarity_file := Some tbl\<rparr>) show_pie =
      AdminDashboard tbl' bar pie"
    by (simp add: admin_page_def)
  ultimately show ?thesis by blast
qed

theorem rm_query_reaches_dashboard_witness:
  "\<exists>d' rows tbl bar pie. rm_run stop_sample example_fs disk_loaded python_query = Inr (d', RmMatches rows) \<and>
     rows \<noteq> [] \<and> admin_page d' True = AdminDashboard tbl bar pie"
proof (rule rm_query_reaches_dashboard [OF reachable_disk_loaded _ rm_load_example])
  show "pickle_file disk_loaded = Some session_cache" by (simp add: disk_loaded_def)
  show "valid_input python_query" "match_clicked python_query"
    by (simp_all add: valid_input_def python_query_def)
  show "py_strip (job_description python_query) \<noteq> []"
    by (simp add: python_query_def py_strip_def char_class_defs)
  show "''python developer'' \<in> set (cache_resumes session_cache)"
    by (simp add: session_cache_def session_docs_def)
  show "''python'' \<in> set (analyze stop_sample (job_description python_query))"
    "''python'' \<in> set (analyze stop_sample ''python developer'')"
    by (simp_all add: python_query_def text_eval_defs stop_sample_def)
qed

text \<open>
  C38. After any session from an empty working directory, the admin page shows the
  results of the last query of the session that had matches, in the order the main
  page listed them (the info message if there was none); later runs without matches,
  failed runs and page loads do not change it.
\<close>

theorem admin_shows_last_match:
  assumes "rm_session english empty_disk evs = (d, vs)"
  shows "admin_page d show_pie =
           (case last_matches vs of
              None \<Rightarrow> AdminInfo ''Run the main resume matcher to generate similarity data.''
            | Some rows \<Rightarrow> AdminDashboard (take 10 (table_of_rows rows)) (take 10 (table_of_rows rows))
                            (if show_pie then Some (take 5 (table_of_rows rows)) else None))"
  using rm_session_similarity_file [OF assms]
  by (cases "last_matches vs") (simp_all add: admin_page_def empty_disk_def)

theorem admin_shows_last_match_witness:
  "admin_page (fst (rm_session stop_sample empty_disk example_events)) True =
     AdminDashboard [(''a.txt'', 100)] [(''a.txt'', 100)] (Some [(''a.txt'', 100)])"
  using admin_shows_last_match [OF rm_session_example, of True] rm_session_example
  by (simp add: table_of_rows_def)

end
