(* ===== verification/Spec2Isabelle.thy ===== *)
theory Spec2Isabelle
  imports Matcher Corpus FieldExtractor App Session Admin
begin

text \<open>
  \<^bold>\<open>Resume-Matcher: a verification development.\<close>

  The program ranks a folder of resumes against a job description. Two front ends
  share one pipeline: \<open>src/main.py\<close> (Flask) and \<open>src/Resume-Match.py\<close> (Streamlit),
  with the admin page \<open>src/pages/Admin.py\<close>. Both extract text from the files of a
  folder (Document Extractor), build the corpus (Corpus Builder), fit scikit-learn's
  \<open>TfidfVectorizer\<close> on it (Vectorization Model), score a job description by cosine
  similarity and keep the five best (Matcher); \<open>main.py\<close> also parses name, e-mail,
  phone and skills from each hit (Field Extractor); \<open>Resume-Match.py\<close> keeps the fitted
  model in a pickle cache and writes the last result for the admin page.

  \<^bold>\<open>Theories and correspondence.\<close>
  \<^item> \<open>Prelude\<close>: types (\<open>vec\<close>, \<open>filename\<close>), the ASCII character classes of Python's
    \<open>\w\<close>, \<open>\d\<close>, \<open>isspace\<close>, and \<open>str.lower\<close>, \<open>str.strip\<close>, \<open>str.endswith\<close>.
  \<^item> \<open>Vectors\<close>: \<open>dot\<close>, \<open>l2_normalize\<close> (sklearn \<open>normalize\<close>), \<open>cosine_similarity\<close> and
    \<open>cosine_row\<close> (\<open>cosine_similarity(q, M)[0]\<close>); lemmas: bounds in [0,1] for
    non-negative rows, self-similarity 1, scale invariance, orthogonality.
  \<^item> \<open>Tfidf\<close>: the analyzer (\<open>tokenize\<close>, \<open>analyze\<close>: lower case, word runs of length
    at least 2, stop words), \<open>fit\<close> (sorted vocabulary, smoothed idf, \<open>EmptyVocabulary\<close>
    as the error of an empty vocabulary), \<open>transform\<close>, \<open>fit_transform\<close>, the
    invariant \<open>wf_model\<close> that \<open>fit\<close> establishes, the repetition lemma
    \<open>transform_repeat\<close>, and the shape of every transformed row.
  \<^item> \<open>Matcher\<close>: \<open>argsort\<close> (a stable sort of the indices), \<open>py_round\<close>/\<open>py_round2\<close>
    (Python's half-to-even \<open>round\<close>), \<open>flask_top_indices\<close> (main.py line 108),
    \<open>rm_top_matches\<close> (Resume-Match.py lines 94--97), \<open>boosted_job\<close>,
    \<open>flask_similarities\<close>, \<open>rm_similarities\<close>; lemmas: ranking order, completeness of
    the top five, rounding bounds; the corpus \<open>example_docs\<close> of the specification's
    example and its fitted model.
  \<^item> \<open>Extract\<close>: \<open>extract_text\<close> and its three readers of both front ends over the
    interface record \<open>filesystem\<close> (directory listing, \<open>isfile\<close>, PyPDF2 pages,
    docx2txt, UTF-8 read), whose calls may raise an \<open>io_error\<close>.
  \<^item> \<open>Corpus\<close>: the scans \<open>main_load_resumes\<close> (main.py lines 81--88) and
    \<open>rm_load_resumes\<close> (Resume-Match.py lines 45--59), as loops with accumulators,
    related to the filter \<open>extract_all\<close>; the first exception aborts the scan.
  \<^item> \<open>Regex\<close> and \<open>FieldExtractor\<close>: a backtracking matcher \<open>rx_match\<close> with Python's
    preference order, \<open>re_search\<close> (leftmost match), proved sound and complete against
    the language \<open>rx_lang\<close>; the two patterns of \<open>parse_resume_spacy\<close> (main.py lines
    25--52), with the spaCy document as the interface record \<open>nlp_doc\<close>; the
    first remainder of a match (\<open>re_search_at\<close>), which fixes where a greedy
    repetition at the end of a pattern stops.
  \<^item> \<open>App\<close>: the Flask module start-up \<open>flask_startup\<close> (lines 81--91, errors
    \<open>startup_error\<close>) giving the context \<open>flask_ctx\<close>, and the route \<open>flask_matcher\<close>
    (lines 98--127) answering \<open>BadRequest\<close>, the prompt, or the result rows; the
    routing of requests to \<open>home()\<close> and \<open>matcher()\<close> (lines 94--99) and to
    Flask's \<open>/static\<close> route, with Werkzeug's automatic \<open>HEAD\<close>, \<open>OPTIONS\<close> and 405
    (\<open>route_dispatch\<close>), as \<open>flask_app\<close>.
  \<^item> \<open>Session\<close>: one run of the Streamlit script, \<open>rm_run\<close> (lines 45--122), over the
    disk \<open>rm_disk\<close> (the pickle cache \<open>rm_cache\<close> and the table \<open>sim_table\<close>), with its
    parts \<open>rm_build_cache\<close>, \<open>rm_vectorize\<close> (lines 62--81) and \<open>rm_match\<close> (84--122);
    the session as the step relation \<open>rm_step\<close> and the inductive
    \<open>reachable_disk\<close>; the invariant \<open>disk_ok\<close> and the abstract run without
    cache \<open>rm_fresh_view\<close>.
  \<^item> \<open>Admin\<close>: the admin page \<open>admin_page\<close> (\<open>src/pages/Admin.py\<close> lines 12--30)
    over the disk, and a session of the main page as the sequence of its runs
    \<open>rm_session\<close>, threading the disk from one run to the next, with the table a run
    writes (\<open>table_of_rows\<close>, Resume-Match.py lines 104--110) and the last page of
    matches of a sequence (\<open>last_matches\<close>).
  \<^item> This theory: the worked example of the specification (C33, computed with the
    idf values kept symbolic and an explicit inequality; its corpus is defined in
    \<open>Matcher\<close>) and the weight sliders across the Streamlit run (C6).

  \<^bold>\<open>What the claims show.\<close>
  \<^item> Matcher: the Streamlit selection is a sound and complete top five of the
    positive similarities (C1, C2, C5), is main.py's top five without the zero rows
    (C36), and lists a match of tiny positive similarity with score 0.0\% (C21); no shared term means no match
    (C3); a resume is its own best match (C4); the weight sliders change nothing (C6);
    the specification's example ranks as it requires (C33).
  \<^item> Corpus: the corpora of both front ends are aligned with the folder, an unreadable
    file aborts them, and Resume-Match's corpus is main.py's without the empty texts
    (C7--C9, C31).
  \<^item> Field Extractor: the extracted e-mail, phone, name and skills are characterised,
    including every year range \<open>YYYY - YYYY\<close> taken for a phone number (C13) and an
    e-mail address never cut short (C16) (C10--C16).
  \<^item> Flask: the route rejects blank input (C17); the start-up context is consistent
    (C18) and fails exactly on a scan error or a corpus without terms (C37); results
    are \<open>min 5 n\<close> bounded, ordered rows (C19), including resumes of similarity 0
    (C20), whose contact fields occur in the file each row names (C32), over corpus
    vectors that are unit or zero rows (C34).
  \<^item> Streamlit session: in every reachable state the cache is consistent and the table
    bounded (C22); a cached run shows what a fresh run on the cached corpus would (C23,
    a refinement); the cache ignores later changes to the folder (C24); runs fail
    exactly on scan errors or an empty vocabulary (C25); the cache is written once
    (C26); the table survives runs without matches (C27); the admin page shows the
    whole table (C28); every download serves its resume (C29); a repeated run changes
    nothing (C30); a query sharing a term with a cached resume always reaches a page of
    matches and a dashboard (C35); after any sequence of runs from an empty directory
    the admin page shows the table of the last query that had matches, or its info
    message when none had (C38).

  \<^bold>\<open>Modelling choices.\<close> Strings are \<open>char\<close> lists with the ASCII reading of Python's
  character classes and \<open>lower\<close>. Floats are reals: the rounding of \<open>round\<close> is
  modelled exactly, floating-point error is not. numpy's \<open>argsort\<close> is a stable sort
  in the model; numpy guarantees no order of ties for its default sort, so the tie
  lemmas are about the model, and no claim depends on the order of ties. No loop of the program can diverge (all iterate over
  finite lists), so every operation is a total function and no fuel is needed;
  \<open>word_runs\<close> is a \<open>function\<close> with its termination measure, and the regex
  search \<open>re_search\<close> recurses on the text after the current position.
  sklearn's English stop words and the spaCy model are parameters of the definitions
  that use them. The file system is an interface record, so every claim holds for
  any folder contents.

  \<^bold>\<open>Not modelled.\<close> HTML templates and Streamlit widgets rendering (the model returns
  the message and the data passed to them); the internals of PyPDF2, docx2txt and
  spaCy's entity recogniser (interfaces); pickle (de)serialisation, assumed to return
  what was written; matplotlib and the emoji of the messages; the upload folder of
  \<open>main.py\<close> (created, never used); concurrency of several browser sessions on one
  working directory.
\<close>

section \<open>The example of the specification\<close>

lemma raw_spec_job: "raw_tfidf example_model spec_job =
    [0, smooth_idf 3 2, 0, 0, 0, 0, smooth_idf 3 1, smooth_idf 3 1, 0, 0]"
  by (simp add: raw_tfidf_def example_model_def spec_job_def text_eval_defs)

lemma raw_example_docs:
  "map (raw_tfidf example_model) example_docs =
    [[0, smooth_idf 3 2, 0, smooth_idf 3 1, 0, 0, smooth_idf 3 1, smooth_idf 3 1, 0, smooth_idf 3 2],
     [smooth_idf 3 1, 0, smooth_idf 3 1, 0, 0, smooth_idf 3 1, 0, 0, 0, 0],
     [0, smooth_idf 3 2, 0, 0, smooth_idf 3 1, 0, 0, 0, smooth_idf 3 1, smooth_idf 3 2]]"
  by (simp add: raw_tfidf_def example_model_def example_docs_def text_eval_defs)

text \<open>The inequality behind the example: with \<open>x = a\<^sup>2\<close>, \<open>y = b\<^sup>2\<close> it is
  \<open>y\<^sup>2 (2y + 3x) < (y + 2x)\<^sup>2 (2y + 2x)\<close>, whose difference is
  \<open>7xy\<^sup>2 + 16x\<^sup>2y + 8x\<^sup>3\<close>.\<close>

lemma spec_example_ineq:
  fixes a b :: real
  assumes "0 < a" "0 < b"
  shows "b * b / (sqrt (b * b + 2 * (a * a)) * sqrt (2 * (b * b) + 2 * (a * a))) <
         (b * b + 2 * (a * a)) / (sqrt (b * b + 2 * (a * a)) * sqrt (2 * (b * b) + 3 * (a * a)))"
proof -
  define x y where "x = a * a" and "y = b * b"
  have x: "0 < x" and y: "0 < y" using assms by (simp_all add: x_def y_def)
  have "(y * sqrt (2 * y + 3 * x))\<^sup>2 = y\<^sup>2 * (2 * y + 3 * x)"
    using x y by (simp add: power_mult_distrib)
  moreover have "((y + 2 * x) * sqrt (2 * y + 2 * x))\<^sup>2 = (y + 2 * x)\<^sup>2 * (2 * y + 2 * x)"
    using x y by (simp add: power_mult_distrib)
  moreover have "y\<^sup>2 * (2 * y + 3 * x) < (y + 2 * x)\<^sup>2 * (2 * y + 2 * x)"
  proof -
    have "(y + 2 * x)\<^sup>2 * (2 * y + 2 * x) - y\<^sup>2 * (2 * y + 3 * x) = 7 * x * y\<^sup>2 + 16 * x\<^sup>2 * y + 8 * x ^ 3"
      by (simp add: power2_eq_square power3_eq_cube algebra_simps)
    moreover have "0 < 7 * x * y\<^sup>2 + 16 * x\<^sup>2 * y + 8 * x ^ 3"
      using x y by (intro add_pos_pos mult_pos_pos) simp_all
    ultimately show ?thesis by linarith
  qed
  ultimately have "(y * sqrt (2 * y + 3 * x))\<^sup>2 < ((y + 2 * x) * sqrt (2 * y + 2 * x))\<^sup>2"
    by simp
  then have lt: "y * sqrt (2 * y + 3 * x) < (y + 2 * x) * sqrt (2 * y + 2 * x)"
    by (rule power_less_imp_less_base) (use x y in simp)
  have pos: "0 < sqrt (y + 2 * x)" "0 < sqrt (2 * y + 2 * x)" "0 < sqrt (2 * y + 3 * x)"
    using x y by simp_all
  from lt pos have "y / (sqrt (y + 2 * x) * sqrt (2 * y + 2 * x)) <
        (y + 2 * x) / (sqrt (y + 2 * x) * sqrt (2 * y + 3 * x))"
    by (simp add: divide_simps mult.commute mult.left_commute)
  then show ?thesis by (simp add: x_def y_def)
qed

section \<open>Properties across the pipeline\<close>

text \<open>
  C6. The Streamlit weight sliders have no effect: two runs of the matching part of
  \<open>Resume-Match.py\<close> with the same job description and button state, and any slider
  values in their range 1..5, show the same page and write the same similarity table
  (the repetition scales every term count by the same factor, which the L2
  normalisation removes).
\<close>

theorem rm_weights_no_effect:
  assumes "valid_input inp" "valid_input inp'"
    and "job_description inp' = job_description inp" "match_clicked inp' = match_clicked inp"
  shows "rm_match c inp' = rm_match c inp"
proof -
  have "0 < skill_weight inp + experience_weight inp" "0 < skill_weight inp' + experience_weight inp'"
    using assms(1,2) by (simp_all add: valid_input_def)
  then have "rm_similarities (cache_vectorizer c) (cache_vectors c) (job_description inp')
               (skill_weight inp') (experience_weight inp') =
             rm_similarities (cache_vectorizer c) (cache_vectors c) (job_description inp)
               (skill_weight inp) (experience_weight inp)"
    using assms(3) by (simp add: rm_similarities_flask)
  with assms(3,4) show ?thesis by (simp add: rm_match_def)
qed

theorem rm_weights_no_effect_witness:
  "rm_match session_cache (python_query\<lparr>skill_weight := 5, experience_weight := 1\<rparr>) =
   rm_match session_cache python_query"
  by (rule rm_weights_no_effect) (simp_all add: valid_input_def python_query_def)

text \<open>
  C33. The specification's example: fitted on its three resumes, \<open>main.py\<close> ranks
  "python developer with react experience" first for "looking for a python and react
  developer", strictly above the game developer, which is strictly above the Java
  engineer (who shares no term and scores 0).
\<close>

theorem spec_example_ranking:
  "fit [] example_docs = Inr example_model \<and>
   flask_top_indices (flask_similarities example_model (map (transform example_model) example_docs) spec_job) =
     [0, 2, 1] \<and>
   flask_similarities example_model (map (transform example_model) example_docs) spec_job ! 1 <
   flask_similarities example_model (map (transform example_model) example_docs) spec_job ! 2 \<and>
   flask_similarities example_model (map (transform example_model) example_docs) spec_job ! 2 <
   flask_similarities example_model (map (transform example_model) example_docs) spec_job ! 0"
proof -
  define a b where "a = smooth_idf 3 1" and "b = smooth_idf 3 2"
  have ab: "0 < a" "0 < b"
    using smooth_idf_ge_1 [of 1 3] smooth_idf_ge_1 [of 2 3] by (simp_all add: a_def b_def)
  define c0 c2 where
    "c0 = (b * b + 2 * (a * a)) / (sqrt (b * b + 2 * (a * a)) * sqrt (2 * (b * b) + 3 * (a * a)))"
    and "c2 = b * b / (sqrt (b * b + 2 * (a * a)) * sqrt (2 * (b * b) + 2 * (a * a)))"
  have raws: "map (raw_tfidf example_model) example_docs =
    [[0, b, 0, a, 0, 0, a, a, 0, b], [a, 0, a, 0, 0, a, 0, 0, 0, 0], [0, b, 0, 0, a, 0, 0, 0, a, b]]"
    "raw_tfidf example_model spec_job = [0, b, 0, 0, 0, 0, a, a, 0, 0]"
    using raw_example_docs raw_spec_job by (simp_all add: a_def b_def)
  have "map (\<lambda>d. cosine_similarity (transform example_model spec_job) (transform example_model d)) example_docs =
        [c0, 0, c2]"
    using raws unfolding transform_cosine_raw
    by (simp add: example_docs_def dot_def l2_norm_def sq_norm_def c0_def c2_def)
  then have sims: "flask_similarities example_model (map (transform example_model) example_docs) spec_job =
        [c0, 0, c2]"
    by (simp add: flask_similarities_def cosine_row_def comp_def)
  have lt: "c2 < c0" using spec_example_ineq [OF ab] by (simp add: c0_def c2_def)
  have pos: "0 < c2"
    unfolding c2_def using ab by (intro divide_pos_pos mult_pos_pos real_sqrt_gt_zero add_pos_pos) simp_all
  have "flask_top_indices [c0, 0, c2] = [0, 2, 1]"
    using lt pos by (simp add: flask_top_indices_def argsort_def)
  with sims lt pos fit_example_docs show ?thesis by simp
qed

end
